theory Spec2Isabelle
  imports Main "HOL-Library.Word"
begin

section \<open>JavaScript values\<close>

text \<open>
  Values decoded from JSON, together with \<open>undefined\<close>. Numbers are integers here (sizes,
  counts, pages, statuses, times in seconds); a number with a fractional part is not a
  value of this type. Strings are Isabelle strings, that is byte sequences, and stand
  for the UTF-8 encoding of the JavaScript string. An object is an association list
  in which the first binding of a key is the property's value.
\<close>

datatype json =
    JUndefined
  | JNull
  | JBool bool
  | JNum int
  | JStr string
  | JArr "json list"
  | JObj "(string \<times> json) list"

type_synonym js_object = "(string \<times> json) list"

text \<open>
  A thrown value: an instance of \<open>Error\<close> (including \<open>TypeError\<close> and \<open>SyntaxError\<close>) with
  its message, or any other value, kept as what \<open>String(value)\<close> gives.
\<close>

datatype exn = JsError string | JsThrown string

text \<open>\<open>error instanceof Error ? error.message : String(error)\<close>\<close>

fun message_of :: "exn \<Rightarrow> string" where
  "message_of (JsError m) = m"
| "message_of (JsThrown v) = v"

text \<open>Truthiness of a value, as \<open>if (v)\<close>, \<open>!v\<close> and \<open>v || w\<close> test it.\<close>

fun truthy :: "json \<Rightarrow> bool" where
  "truthy JUndefined = False"
| "truthy JNull = False"
| "truthy (JBool b) = b"
| "truthy (JNum n) = (n \<noteq> 0)"
| "truthy (JStr s) = (s \<noteq> [])"
| "truthy (JArr xs) = True"
| "truthy (JObj kvs) = True"

text \<open>\<open>a || b\<close> on two values.\<close>

definition or_json :: "json \<Rightarrow> json \<Rightarrow> json" where
  "or_json a b = (if truthy a then a else b)"

text \<open>
  \<open>args.k\<close> for an argument object, and \<open>v.k\<close> for an arbitrary value: reading a
  property of \<open>null\<close> or \<open>undefined\<close> throws a \<open>TypeError\<close>, and a property that is absent
  is \<open>undefined\<close>. (\<open>property\<close> is only used for names that are not built-in properties of
  strings and arrays.)
\<close>

definition get :: "js_object \<Rightarrow> string \<Rightarrow> json" where
  "get a k = (case map_of a k of Some v \<Rightarrow> v | None \<Rightarrow> JUndefined)"

fun property :: "json \<Rightarrow> string \<Rightarrow> exn + json" where
  "property JUndefined k =
     Inl (JsError (''Cannot read properties of undefined (reading '' @ [CHR 0x27] @ k @ [CHR 0x27] @ '')''))"
| "property JNull k =
     Inl (JsError (''Cannot read properties of null (reading '' @ [CHR 0x27] @ k @ [CHR 0x27] @ '')''))"
| "property (JObj kvs) k = Inr (get kvs k)"
| "property v k = Inr JUndefined"

text \<open>\<open>a || b\<close> on an optional string and a string.\<close>

fun or_else :: "string option \<Rightarrow> string \<Rightarrow> string" where
  "or_else None d = d"
| "or_else (Some s) d = (if s \<noteq> [] then s else d)"

text \<open>The decimal digits of a natural number, and \<open>Boolean.prototype.toString()\<close>.\<close>

fun digits :: "nat \<Rightarrow> string" where
  "digits n = (if n < 10 then [char_of (48 + n)] else digits (n div 10) @ [char_of (48 + n mod 10)])"

declare digits.simps [simp del]

definition Boolean_toString :: "bool \<Rightarrow> string" where
  "Boolean_toString b = (if b then ''true'' else ''false'')"

text \<open>
  \<open>Buffer.from(s, 'utf8')\<close> on a string: its bytes. \<open>JSON.stringify(v)\<close> is kept as
  the value it serialises (a key bound to \<open>undefined\<close> is left out of the text).
\<close>

type_synonym byte = "8 word"

definition Buffer_from_utf8 :: "string \<Rightarrow> byte list" where
  "Buffer_from_utf8 s = map of_char s"

datatype json_text = JSON_stringify json

section \<open>Requests, responses and the environment\<close>

text \<open>
  \<open>fetch(input, init)\<close> is recorded with both arguments as they are given: the URL and
  the header values are values, not necessarily strings. A request body is the text of
  \<open>JSON.stringify\<close>, a \<open>FormData\<close> with its appended entries, or a \<open>Buffer\<close>.
\<close>

datatype body = JsonText json_text | FormData "(string \<times> string) list" | Buffer "byte list"

record RequestInit =
  init_method :: "string option"
  init_headers :: "(string \<times> json) list option"
  init_body :: "body option"

type_synonym http_request = "json \<times> RequestInit"

text \<open>
  A response: its status and status text, and what \<open>response.json()\<close> resolves to or
  rejects with. \<open>response.ok\<close> holds for the statuses 200 to 299.
\<close>

record response =
  status :: nat
  statusText :: string
  json_result :: "exn + json"

definition response_ok :: "response \<Rightarrow> bool" where
  "response_ok r = (200 \<le> status r \<and> status r \<le> 299)"

datatype fetch_result = Rejected exn | Resolved response

text \<open>
  Everything outside the program: the environment variables read at start-up, the
  remote side (what \<open>fetch\<close> does with a request, given the requests made before it),
  the file system (\<open>fs.readFile\<close> on whatever value it is given as a path), the clock
  (\<open>Date.now()\<close>, in milliseconds), and library functions where this development does
  not fix them:

  \<^item> \<open>path.basename\<close> and \<open>lookup\<close> of \<open>mime-types\<close> (\<open>None\<close> for \<open>false\<close>) on a
    string, and the message of the \<open>TypeError\<close> that \<open>path.basename\<close> throws on
    another value;
  \<^item> \<open>URLSearchParams.toString\<close>, \<open>String.prototype.trim\<close> and \<open>JSON.parse\<close> on the
    text of a buffer;
  \<^item> \<open>Buffer.from\<close> on a value that is not a string;
  \<^item> \<open>Number.prototype.toString\<close> on a number beyond the safe integers;
  \<^item> \<open>s[0]\<close> on a string that does not start with an ASCII character.
\<close>

record env =
  LOG_LEVEL :: string
  SLACK_USER_TOKEN :: "string option"
  net :: "http_request list \<Rightarrow> http_request \<Rightarrow> fetch_result"
  readFile :: "json \<Rightarrow> exn + byte list"
  basename :: "string \<Rightarrow> string"
  basename_type_error :: "json \<Rightarrow> string"
  mime_lookup :: "string \<Rightarrow> string option"
  URLSearchParams_toString :: "(string \<times> string) list \<Rightarrow> string"
  String_trim :: "string \<Rightarrow> string"
  Date_now :: nat
  JSON_parse_bytes :: "byte list \<Rightarrow> exn + json"
  Buffer_from_value :: "json \<Rightarrow> exn + byte list"
  Number_toString_large :: "int \<Rightarrow> string"
  first_code_unit :: "string \<Rightarrow> json"

text \<open>
  The observable effects of a run: the requests handed to \<open>fetch\<close>, in order, and the
  lines written by the logger (level and message; the timestamp, the colours and the
  attached data are left out).
\<close>

record state =
  calls :: "http_request list"
  logs :: "(string \<times> string) list"

definition fetch :: "env \<Rightarrow> http_request \<Rightarrow> state \<Rightarrow> fetch_result \<times> state" where
  "fetch e req s = (net e (calls s) req, s\<lparr>calls := calls s @ [req]\<rparr>)"

section \<open>Conversions to strings\<close>

text \<open>
  \<open>Number.prototype.toString()\<close> on an integer: its decimal digits as long as it is
  a safe integer (at most 9007199254740991 in absolute value).
\<close>

definition Number_toString :: "env \<Rightarrow> int \<Rightarrow> string" where
  "Number_toString e i =
     (if \<bar>i\<bar> \<le> 9007199254740991
      then (if i < 0 then CHR ''-'' # digits (nat (- i)) else digits (nat i))
      else Number_toString_large e i)"

text \<open>
  \<open>String(v)\<close>, which is also what a template literal, \<open>URLSearchParams.append\<close> and
  \<open>FormData.append\<close> apply to a value. An array is joined with commas, its \<open>null\<close> and
  \<open>undefined\<close> elements giving the empty string. An object decoded from JSON gives
  \<open>[object Object]\<close>, unless it has a key \<open>toString\<close>: that key hides the inherited
  method, its value is not a function, and the conversion throws a \<open>TypeError\<close>.
\<close>

fun ToString :: "env \<Rightarrow> json \<Rightarrow> exn + string"
  and Array_join :: "env \<Rightarrow> json list \<Rightarrow> exn + string" where
  "ToString e JUndefined = Inr ''undefined''"
| "ToString e JNull = Inr ''null''"
| "ToString e (JBool b) = Inr (Boolean_toString b)"
| "ToString e (JNum n) = Inr (Number_toString e n)"
| "ToString e (JStr s) = Inr s"
| "ToString e (JArr xs) = Array_join e xs"
| "ToString e (JObj kvs) =
     (case map_of kvs ''toString'' of
        None \<Rightarrow> Inr ''[object Object]''
      | Some f \<Rightarrow> Inl (JsError ''Cannot convert object to primitive value''))"
| "Array_join e [] = Inr []"
| "Array_join e (x # xs) =
     (case (if x = JUndefined \<or> x = JNull then Inr [] else ToString e x) of
        Inl err \<Rightarrow> Inl err
      | Inr t \<Rightarrow>
          (if xs = [] then Inr t
           else (case Array_join e xs of Inl err \<Rightarrow> Inl err | Inr u \<Rightarrow> Inr (t @ '','' @ u))))"

text \<open>
  \<open>expr.toString()\<close>, a method call on the value of \<open>expr\<close>: it throws on \<open>null\<close> and
  \<open>undefined\<close>, and on an object with a key \<open>toString\<close>.
\<close>

definition toString_call :: "env \<Rightarrow> string \<Rightarrow> json \<Rightarrow> exn + string" where
  "toString_call e expr v =
     (case v of
        JUndefined \<Rightarrow>
          Inl (JsError (''Cannot read properties of undefined (reading '' @ [CHR 0x27] @ ''toString''
                        @ [CHR 0x27] @ '')''))
      | JNull \<Rightarrow>
          Inl (JsError (''Cannot read properties of null (reading '' @ [CHR 0x27] @ ''toString''
                        @ [CHR 0x27] @ '')''))
      | JObj kvs \<Rightarrow>
          (case map_of kvs ''toString'' of
             None \<Rightarrow> Inr ''[object Object]''
           | Some f \<Rightarrow> Inl (JsError (expr @ ''.toString is not a function'')))
      | other \<Rightarrow> ToString e other)"

text \<open>
  \<open>expr.join(",")\<close>: only an array has the method; on any other value that is not
  \<open>null\<close> or \<open>undefined\<close> the call throws a \<open>TypeError\<close>.
\<close>

definition join_call :: "env \<Rightarrow> string \<Rightarrow> json \<Rightarrow> exn + string" where
  "join_call e expr v =
     (case v of
        JArr xs \<Rightarrow> Array_join e xs
      | JUndefined \<Rightarrow>
          Inl (JsError (''Cannot read properties of undefined (reading '' @ [CHR 0x27] @ ''join''
                        @ [CHR 0x27] @ '')''))
      | JNull \<Rightarrow>
          Inl (JsError (''Cannot read properties of null (reading '' @ [CHR 0x27] @ ''join''
                        @ [CHR 0x27] @ '')''))
      | other \<Rightarrow> Inl (JsError (expr @ ''.join is not a function'')))"

text \<open>
  A list of name and value pairs under construction, as a \<open>URLSearchParams\<close> or a
  \<open>FormData\<close> is filled by \<open>append(k, v)\<close>: the first conversion that throws ends it.
\<close>

definition append_entry ::
  "exn + (string \<times> string) list \<Rightarrow> string \<Rightarrow> exn + string \<Rightarrow> exn + (string \<times> string) list" where
  "append_entry entries k v =
     (case entries of
        Inl err \<Rightarrow> Inl err
      | Inr ps \<Rightarrow> (case v of Inl err \<Rightarrow> Inl err | Inr t \<Rightarrow> Inr (ps @ [(k, t)])))"

text \<open>\<open>if (v) entries.append(k, v)\<close>\<close>

definition append_if ::
  "env \<Rightarrow> exn + (string \<times> string) list \<Rightarrow> string \<Rightarrow> json \<Rightarrow> exn + (string \<times> string) list" where
  "append_if e entries k v = (if truthy v then append_entry entries k (ToString e v) else entries)"

section \<open>Logger\<close>

definition levels :: "string list" where
  "levels = [''debug'', ''info'', ''warn'', ''error'']"

text \<open>\<open>Array.prototype.indexOf\<close>: the first position of an element, or \<open>-1\<close>.\<close>

fun indexOf :: "string list \<Rightarrow> string \<Rightarrow> int" where
  "indexOf [] x = - 1"
| "indexOf (y # ys) x = (if y = x then 0 else (let i = indexOf ys x in if i < 0 then - 1 else i + 1))"

definition shouldLog :: "env \<Rightarrow> string \<Rightarrow> bool" where
  "shouldLog e level = (indexOf levels level \<ge> indexOf levels (LOG_LEVEL e))"

definition emit :: "string \<Rightarrow> string \<Rightarrow> state \<Rightarrow> state" where
  "emit level message s = s\<lparr>logs := logs s @ [(level, message)]\<rparr>"

definition Logger_debug :: "env \<Rightarrow> string \<Rightarrow> state \<Rightarrow> state" where
  "Logger_debug e message s = (if shouldLog e ''debug'' then emit ''debug'' message s else s)"

definition Logger_info :: "env \<Rightarrow> string \<Rightarrow> state \<Rightarrow> state" where
  "Logger_info e message s = (if shouldLog e ''info'' then emit ''info'' message s else s)"

definition Logger_warn :: "env \<Rightarrow> string \<Rightarrow> state \<Rightarrow> state" where
  "Logger_warn e message s = (if shouldLog e ''warn'' then emit ''warn'' message s else s)"

definition Logger_error :: "env \<Rightarrow> string \<Rightarrow> state \<Rightarrow> state" where
  "Logger_error e message s = (if shouldLog e ''error'' then emit ''error'' message s else s)"

definition Logger_apiRequest :: "env \<Rightarrow> string \<Rightarrow> string \<Rightarrow> state \<Rightarrow> state" where
  "Logger_apiRequest e method url s = Logger_debug e (''API Request: '' @ method @ '' '' @ url) s"

definition Logger_apiResponse :: "env \<Rightarrow> string \<Rightarrow> string \<Rightarrow> nat \<Rightarrow> state \<Rightarrow> state" where
  "Logger_apiResponse e method url st s =
     (let message = ''API Response: '' @ method @ '' '' @ url @ '' - Status: '' @ Number_toString e (int st)
      in if st \<ge> 400 then Logger_error e message s else Logger_debug e message s)"

section \<open>SlackClient: the API gateway\<close>

record SlackClient =
  botHeaders :: "(string \<times> json) list"
  userHeaders :: "(string \<times> json) list"

text \<open>
  An optional string converted to a string, as a template literal does it: \<open>undefined\<close>
  gives the text \<open>undefined\<close>.
\<close>

definition render_env :: "string option \<Rightarrow> string" where
  "render_env v = (case v of Some t \<Rightarrow> t | None \<Rightarrow> ''undefined'')"

definition new_SlackClient :: "env \<Rightarrow> string \<Rightarrow> SlackClient" where
  "new_SlackClient e botToken =
     \<lparr>botHeaders = [(''Authorization'', JStr (''Bearer '' @ botToken)),
                    (''Content-Type'', JStr ''application/json;charset=utf-8'')],
      userHeaders = [(''Authorization'', JStr (''Bearer '' @ render_env (SLACK_USER_TOKEN e))),
                     (''Content-Type'', JStr ''application/json;charset=utf-8'')]\<rparr>"

text \<open>
  \<open>JSON.parse(options.body as string)\<close>, evaluated for the request log when a body is
  present. The text of \<open>JSON.stringify\<close> parses back; a \<open>FormData\<close> is first converted
  to the string \<open>[object FormData]\<close>, which is not JSON, so a \<open>SyntaxError\<close> is thrown
  (message as V8 words it).
\<close>

definition form_data_syntax_error :: string where
  "form_data_syntax_error =
     ''Unexpected token '' @ [CHR 0x27] @ ''o'' @ [CHR 0x27]
       @ '', '' @ [CHR 0x22] @ ''[object FormData]'' @ [CHR 0x22] @ '' is not valid JSON''"

definition JSON_parse_body :: "env \<Rightarrow> body \<Rightarrow> exn + json" where
  "JSON_parse_body e b =
     (case b of
        JsonText (JSON_stringify v) \<Rightarrow> Inr v
      | FormData entries \<Rightarrow> Inl (JsError form_data_syntax_error)
      | Buffer bytes \<Rightarrow> JSON_parse_bytes e bytes)"

text \<open>
  The arguments of the \<open>fetch\<close> call in \<open>makeApiRequest\<close>: the URL, and
  \<open>{...options, headers: options.headers || headers}\<close> with \<open>headers\<close> chosen by
  \<open>useUserToken\<close>.
\<close>

definition fetch_arguments :: "SlackClient \<Rightarrow> string \<Rightarrow> RequestInit \<Rightarrow> bool \<Rightarrow> http_request" where
  "fetch_arguments this url options useUserToken =
     (let headers = (if useUserToken then userHeaders this else botHeaders this)
      in (JStr url,
          options\<lparr>init_headers := Some (case init_headers options of Some h \<Rightarrow> h | None \<Rightarrow> headers)\<rparr>))"

text \<open>
  \<open>makeApiRequest(url, options, useUserToken)\<close>. The argument of \<open>Logger.apiRequest\<close>
  is evaluated before the \<open>try\<close> block; everything from \<open>fetch\<close> on is inside it, and
  the \<open>catch\<close> logs and rethrows.
\<close>

definition makeApiRequest ::
  "env \<Rightarrow> SlackClient \<Rightarrow> string \<Rightarrow> RequestInit \<Rightarrow> bool \<Rightarrow> state \<Rightarrow> (exn + json) \<times> state" where
  "makeApiRequest e this url options useUserToken s =
     (let method = or_else (init_method options) ''GET'';
          network_error = Logger_error e (''Network error for '' @ method @ '' '' @ url)
      in case (case init_body options of None \<Rightarrow> Inr JUndefined | Some b \<Rightarrow> JSON_parse_body e b) of
           Inl err \<Rightarrow> (Inl err, s)
         | Inr logged \<Rightarrow>
             (case fetch e (fetch_arguments this url options useUserToken)
                     (Logger_apiRequest e method url s) of
                (Rejected err, s1) \<Rightarrow> (Inl err, network_error s1)
              | (Resolved response, s1) \<Rightarrow>
                  (case json_result response of
                     Inl err \<Rightarrow> (Inl err, network_error s1)
                   | Inr responseBody \<Rightarrow>
                       (let s2 = Logger_apiResponse e method url (status response) s1
                        in case property responseBody ''ok'' of
                             Inl err \<Rightarrow> (Inl err, network_error s2)
                           | Inr ok \<Rightarrow>
                               (Inr responseBody,
                                if \<not> truthy ok
                                then Logger_error e (''Slack API error for '' @ method @ '' '' @ url) s2
                                else s2)))))"

section \<open>SlackClient: file, search and reminder methods\<close>

text \<open>
  Arguments arrive as a decoded JSON object. The casts to the argument interfaces
  (\<open>request.params.arguments as unknown as FilesUploadArgs\<close>) are unchecked, so every
  method takes the object itself and reads its fields as the values they are.
\<close>

definition json_init :: "string \<Rightarrow> json \<Rightarrow> RequestInit" where
  "json_init method v =
     \<lparr>init_method = Some method, init_headers = None,
      init_body = Some (JsonText (JSON_stringify v))\<rparr>"

definition get_init :: RequestInit where
  "get_init = \<lparr>init_method = Some ''GET'', init_headers = None, init_body = None\<rparr>"

definition deleteFile :: "env \<Rightarrow> SlackClient \<Rightarrow> js_object \<Rightarrow> state \<Rightarrow> (exn + json) \<times> state" where
  "deleteFile e this args s =
     makeApiRequest e this ''https://slack.com/api/files.delete''
       (json_init ''POST'' (JObj [(''file'', get args ''file'')]))
       True
       (Logger_debug e ''Deleting file'' s)"

definition getUploadURLExternal ::
  "env \<Rightarrow> SlackClient \<Rightarrow> js_object \<Rightarrow> state \<Rightarrow> (exn + json) \<times> state" where
  "getUploadURLExternal e this args s =
     makeApiRequest e this ''https://slack.com/api/files.getUploadURLExternal''
       (json_init ''POST''
          (JObj [(''filename'', get args ''filename''),
                 (''length'', get args ''length''),
                 (''alt_text'', get args ''alt_txt'')]))
       True
       (Logger_debug e ''Getting upload URL'' s)"

definition completeUploadExternal ::
  "env \<Rightarrow> SlackClient \<Rightarrow> js_object \<Rightarrow> state \<Rightarrow> (exn + json) \<times> state" where
  "completeUploadExternal e this args s =
     makeApiRequest e this ''https://slack.com/api/files.completeUploadExternal''
       (json_init ''POST''
          (JObj [(''files'', get args ''files''),
                 (''channel_id'', get args ''channel_id''),
                 (''initial_comment'', get args ''initial_comment''),
                 (''thread_ts'', get args ''thread_ts'')]))
       True
       (Logger_debug e ''Completing upload'' s)"

text \<open>
  The entries that \<open>uploadFile\<close> appends to its \<open>FormData\<close>, in order; \<open>channels\<close> is
  joined with commas.
\<close>

definition upload_form :: "env \<Rightarrow> js_object \<Rightarrow> exn + (string \<times> string) list" where
  "upload_form e args =
     (let f1 = append_if e (Inr []) ''content'' (get args ''content'');
          f2 = append_if e f1 ''filename'' (get args ''filename'');
          f3 = append_if e f2 ''filetype'' (get args ''filetype'');
          f4 = append_if e f3 ''title'' (get args ''title'');
          f5 = append_if e f4 ''initial_comment'' (get args ''initial_comment'');
          f6 = (if truthy (get args ''channels'')
                then append_entry f5 ''channels'' (join_call e ''args.channels'' (get args ''channels''))
                else f5)
      in append_if e f6 ''thread_ts'' (get args ''thread_ts''))"

text \<open>
  \<open>uploadFile\<close> (the first upload API): a \<open>FormData\<close> body with its own
  \<open>Authorization\<close> header.
\<close>

definition uploadFile :: "env \<Rightarrow> SlackClient \<Rightarrow> js_object \<Rightarrow> state \<Rightarrow> (exn + json) \<times> state" where
  "uploadFile e this args s =
     (let s1 = Logger_debug e ''Uploading file'' s
      in case upload_form e args of
           Inl err \<Rightarrow> (Inl err, s1)
         | Inr formData \<Rightarrow>
             makeApiRequest e this ''https://slack.com/api/files.upload''
               \<lparr>init_method = Some ''POST'',
                init_headers =
                  Some [(''Authorization'', JStr (''Bearer '' @ render_env (SLACK_USER_TOKEN e)))],
                init_body = Some (FormData formData)\<rparr>
               True s1)"

text \<open>
  \<open>path.basename(p)\<close>, which throws a \<open>TypeError\<close> unless \<open>p\<close> is a string;
  \<open>lookup(p)\<close>, which gives \<open>false\<close> unless \<open>p\<close> is a non-empty string; and
  \<open>Buffer.from(v, 'utf8')\<close>.
\<close>

definition path_basename :: "env \<Rightarrow> json \<Rightarrow> exn + string" where
  "path_basename e p =
     (case p of JStr t \<Rightarrow> Inr (basename e t) | other \<Rightarrow> Inl (JsError (basename_type_error e other)))"

definition lookup :: "env \<Rightarrow> json \<Rightarrow> string option" where
  "lookup e p = (case p of JStr t \<Rightarrow> (if t = [] then None else mime_lookup e t) | other \<Rightarrow> None)"

definition Buffer_from :: "env \<Rightarrow> json \<Rightarrow> exn + byte list" where
  "Buffer_from e v = (case v of JStr c \<Rightarrow> Inr (Buffer_from_utf8 c) | other \<Rightarrow> Buffer_from_value e other)"

text \<open>
  The \<open>try\<close> block of the file branch of \<open>uploadFile_v2\<close>: the bytes read, the
  \<open>filename\<close> argument or else the base name of the path, and the \<open>filetype\<close> argument or
  else the type looked up from the path.
\<close>

definition read_upload_file :: "env \<Rightarrow> js_object \<Rightarrow> exn + byte list \<times> json \<times> json" where
  "read_upload_file e args =
     (case readFile e (get args ''file_path'') of
        Inl err \<Rightarrow> Inl err
      | Inr bytes \<Rightarrow>
          (case (if truthy (get args ''filename'') then Inr (get args ''filename'')
                 else (case path_basename e (get args ''file_path'') of
                         Inl err \<Rightarrow> Inl err
                       | Inr b \<Rightarrow> Inr (JStr b))) of
             Inl err \<Rightarrow> Inl err
           | Inr fname \<Rightarrow>
               Inr (bytes, fname,
                    (if \<not> truthy (get args ''filetype'')
                     then JStr (or_else (lookup e (get args ''file_path'')) ''application/octet-stream'')
                     else get args ''filetype''))))"

text \<open>
  The first part of \<open>uploadFile_v2\<close>, up to the comment \<open>Step 1\<close>: it settles the
  bytes, the file name and the content type, or throws. In the file branch the
  \<open>catch\<close> logs and throws a new \<open>Error\<close> whose message holds the path, converted to a
  string, and the message of what was caught. In the inline branch \<open>Buffer.from\<close> is
  outside any \<open>try\<close>.
\<close>

definition resolve_upload_input ::
  "env \<Rightarrow> js_object \<Rightarrow> state \<Rightarrow> (exn + byte list \<times> json \<times> json) \<times> state" where
  "resolve_upload_input e args s =
     (if truthy (get args ''file_path'') then
        (case read_upload_file e args of
           Inl err \<Rightarrow>
             ((case ToString e (get args ''file_path'') of
                 Inl conversion \<Rightarrow> Inl conversion
               | Inr path \<Rightarrow>
                   Inl (JsError (''Failed to read file at '' @ path @ '': '' @ message_of err))),
              Logger_error e ''Failed to read file'' s)
         | Inr input \<Rightarrow> (Inr input, Logger_debug e ''Read file from filesystem'' s))
      else if truthy (get args ''content'') \<and> truthy (get args ''filename'') then
        (case Buffer_from e (get args ''content'') of
           Inl err \<Rightarrow> (Inl err, s)
         | Inr bytes \<Rightarrow>
             (Inr (bytes, get args ''filename'', or_json (get args ''filetype'') (JStr ''text/plain'')), s))
      else
        (Inl (JsError ''Either file_path or both content and filename are required for file upload''), s))"

text \<open>
  \<open>args.channels?.[0]\<close>: \<open>undefined\<close> for \<open>null\<close> and \<open>undefined\<close>, the first element of
  an array, the first character of a string, the property \<open>0\<close> of an object, and
  \<open>undefined\<close> for a number or a boolean.
\<close>

definition first_channel :: "env \<Rightarrow> json \<Rightarrow> json" where
  "first_channel e cs =
     (case cs of
        JArr (c # rest) \<Rightarrow> c
      | JStr (c # rest) \<Rightarrow> (if of_char c < (128 :: nat) then JStr [c] else first_code_unit e (c # rest))
      | JObj kvs \<Rightarrow> get kvs ''0''
      | other \<Rightarrow> JUndefined)"

text \<open>
  The \<open>try\<close> block of \<open>uploadFile_v2\<close> with its \<open>catch\<close>, which logs and rethrows:
  step 2, a direct \<open>fetch\<close> of the bytes to the URL of the step-1 response, and step 3,
  \<open>completeUploadExternal\<close>.
\<close>

definition transfer_and_finalize ::
  "env \<Rightarrow> SlackClient \<Rightarrow> js_object \<Rightarrow> byte list \<Rightarrow> json \<Rightarrow> json \<Rightarrow> json \<Rightarrow> json \<Rightarrow>
   state \<Rightarrow> (exn + json) \<times> state" where
  "transfer_and_finalize e this args content filename filetype upload_url file_id s =
     (let failed = Logger_error e ''Error during file upload''
      in case fetch e (upload_url,
                \<lparr>init_method = Some ''POST'',
                 init_headers =
                   Some [(''Content-Type'', or_json filetype (JStr ''application/octet-stream''))],
                 init_body = Some (Buffer content)\<rparr>) s of
           (Rejected err, s1) \<Rightarrow> (Inl err, failed s1)
         | (Resolved uploadResponse, s1) \<Rightarrow>
             if \<not> response_ok uploadResponse then
               (Inl (JsError (''Upload failed: '' @ statusText uploadResponse)), failed s1)
             else
               (case completeUploadExternal e this
                       [(''files'',
                         JArr [JObj [(''id'', file_id),
                                     (''title'', or_json (get args ''title'') filename)]]),
                        (''channel_id'', first_channel e (get args ''channels'')),
                        (''initial_comment'', get args ''initial_comment''),
                        (''thread_ts'', get args ''thread_ts'')] s1 of
                  (Inl err, s2) \<Rightarrow> (Inl err, failed s2)
                | (Inr completeResponse, s2) \<Rightarrow> (Inr completeResponse, s2)))"

text \<open>
  \<open>uploadFile_v2\<close>: input resolution, then step 1 (\<open>getUploadURLExternal\<close>); a step-1
  response whose \<open>ok\<close> is falsy is returned as it is; otherwise \<open>upload_url\<close> and
  \<open>file_id\<close> are taken from it and steps 2 and 3 follow.
\<close>

definition uploadFile_v2 ::
  "env \<Rightarrow> SlackClient \<Rightarrow> js_object \<Rightarrow> state \<Rightarrow> (exn + json) \<times> state" where
  "uploadFile_v2 e this args s =
     (case resolve_upload_input e args (Logger_debug e ''Starting v2 file upload'' s) of
        (Inl err, s1) \<Rightarrow> (Inl err, s1)
      | (Inr (content, filename, filetype), s1) \<Rightarrow>
          (case getUploadURLExternal e this
                  [(''filename'', filename), (''length'', JNum (int (length content)))] s1 of
             (Inl err, s2) \<Rightarrow> (Inl err, s2)
           | (Inr uploadUrlResponse, s2) \<Rightarrow>
               (case property uploadUrlResponse ''ok'' of
                  Inl err \<Rightarrow> (Inl err, s2)
                | Inr ok \<Rightarrow>
                    if \<not> truthy ok then
                      (Inr uploadUrlResponse, Logger_error e ''Failed to get upload URL'' s2)
                    else
                      (case (property uploadUrlResponse ''upload_url'',
                             property uploadUrlResponse ''file_id'') of
                         (Inr upload_url, Inr file_id) \<Rightarrow>
                           transfer_and_finalize e this args content filename filetype upload_url file_id s2
                       | (Inl err, _) \<Rightarrow> (Inl err, s2)
                       | (_, Inl err) \<Rightarrow> (Inl err, s2)))))"

text \<open>
  The query string of both search methods: \<open>query\<close> first, then each optional
  parameter that is set (\<open>sort\<close>, \<open>sort_dir\<close>, \<open>count\<close> and \<open>page\<close> when truthy,
  \<open>highlight\<close> when it is not \<open>undefined\<close>).
\<close>

definition search_params :: "env \<Rightarrow> js_object \<Rightarrow> exn + (string \<times> string) list" where
  "search_params e args =
     (let p0 = append_entry (Inr []) ''query'' (ToString e (get args ''query''));
          p1 = append_if e p0 ''sort'' (get args ''sort'');
          p2 = append_if e p1 ''sort_dir'' (get args ''sort_dir'');
          p3 = (if get args ''highlight'' \<noteq> JUndefined
                then append_entry p2 ''highlight''
                       (toString_call e ''args.highlight'' (get args ''highlight''))
                else p2);
          p4 = (if truthy (get args ''count'')
                then append_entry p3 ''count'' (toString_call e ''args.count'' (get args ''count''))
                else p3)
      in if truthy (get args ''page'')
         then append_entry p4 ''page'' (toString_call e ''args.page'' (get args ''page''))
         else p4)"

definition searchMessages :: "env \<Rightarrow> SlackClient \<Rightarrow> js_object \<Rightarrow> state \<Rightarrow> (exn + json) \<times> state" where
  "searchMessages e this args s =
     (let s1 = Logger_debug e ''Searching messages'' s
      in case search_params e args of
           Inl err \<Rightarrow> (Inl err, s1)
         | Inr params \<Rightarrow>
             makeApiRequest e this
               (''https://slack.com/api/search.messages?'' @ URLSearchParams_toString e params)
               get_init True s1)"

definition searchFiles :: "env \<Rightarrow> SlackClient \<Rightarrow> js_object \<Rightarrow> state \<Rightarrow> (exn + json) \<times> state" where
  "searchFiles e this args s =
     (let s1 = Logger_debug e ''Searching files'' s
      in case search_params e args of
           Inl err \<Rightarrow> (Inl err, s1)
         | Inr params \<Rightarrow>
             makeApiRequest e this
               (''https://slack.com/api/search.files?'' @ URLSearchParams_toString e params)
               get_init True s1)"

definition addReminder :: "env \<Rightarrow> SlackClient \<Rightarrow> js_object \<Rightarrow> state \<Rightarrow> (exn + json) \<times> state" where
  "addReminder e this args s =
     makeApiRequest e this ''https://slack.com/api/reminders.add''
       (json_init ''POST''
          (JObj [(''text'', get args ''text''),
                 (''time'', get args ''time''),
                 (''user'', get args ''user'')]))
       True
       (Logger_debug e ''Adding reminder'' s)"

definition listReminders ::
  "env \<Rightarrow> SlackClient \<Rightarrow> js_object \<Rightarrow> state \<Rightarrow> (exn + json) \<times> state" where
  "listReminders e this args s =
     (let s1 = Logger_debug e ''Listing reminders'' s
      in case append_if e (Inr []) ''user'' (get args ''user'') of
           Inl err \<Rightarrow> (Inl err, s1)
         | Inr params \<Rightarrow>
             makeApiRequest e this
               (''https://slack.com/api/reminders.list?'' @ URLSearchParams_toString e params)
               get_init True s1)"

definition deleteReminder :: "env \<Rightarrow> SlackClient \<Rightarrow> js_object \<Rightarrow> state \<Rightarrow> (exn + json) \<times> state" where
  "deleteReminder e this args s =
     makeApiRequest e this ''https://slack.com/api/reminders.delete''
       (json_init ''POST'' (JObj [(''reminder'', get args ''reminder'')]))
       True
       (Logger_debug e ''Deleting reminder'' s)"

section \<open>Tool catalog and dispatcher\<close>

text \<open>
  The names of the tool descriptors, in the order in which the \<open>ListTools\<close> handler
  returns them (descriptions and input schemas are plain data and are left out), and the
  labels of the \<open>switch\<close> in the \<open>CallTool\<close> handler, in source order.
\<close>

definition tool_catalog :: "string list" where
  "tool_catalog =
     [''slack_list_channels'', ''slack_post_message'', ''slack_reply_to_thread'',
      ''slack_add_reaction'', ''slack_get_channel_history'', ''slack_get_thread_replies'',
      ''slack_get_users'', ''slack_get_user_profile'', ''slack_user_email'',
      ''slack_canvas_create'', ''slack_canvas_edit'', ''slack_channel_canvas_create'',
      ''slack_canvas_get'', ''slack_canvas_delete'', ''slack_canvas_access_set'',
      ''slack_files_upload'', ''slack_files_list'', ''slack_files_info'', ''slack_files_delete'',
      ''slack_files_getUploadURLExternal'', ''slack_files_completeUploadExternal'',
      ''slack_files_upload_v2'',
      ''slack_search_messages'', ''slack_search_files'',
      ''slack_reminders_add'', ''slack_reminders_list'', ''slack_reminders_delete'',
      ''slack_conversation_create'', ''slack_conversation_archive'',
      ''slack_conversation_unarchive'', ''slack_conversation_invite'',
      ''slack_conversation_kick'', ''slack_conversation_rename'',
      ''slack_conversation_set_purpose'', ''slack_conversation_set_topic'',
      ''slack_conversation_join'', ''slack_conversation_leave'',
      ''slack_pins_add'', ''slack_pins_remove'', ''slack_pins_list'',
      ''slack_reactions_remove'', ''slack_reactions_get'', ''slack_reactions_list'',
      ''slack_views_open'', ''slack_views_update'', ''slack_views_push'']"

definition case_labels :: "string list" where
  "case_labels =
     [''slack_list_channels'', ''slack_post_message'', ''slack_reply_to_thread'',
      ''slack_add_reaction'', ''slack_get_channel_history'', ''slack_get_thread_replies'',
      ''slack_get_users'', ''slack_get_user_profile'', ''slack_user_email'',
      ''slack_canvas_create'', ''slack_canvas_edit'', ''slack_channel_canvas_create'',
      ''slack_canvas_get'', ''slack_canvas_delete'', ''slack_canvas_access_set'',
      ''slack_files_upload'', ''slack_files_list'', ''slack_files_info'', ''slack_files_delete'',
      ''slack_files_getUploadURLExternal'', ''slack_files_completeUploadExternal'',
      ''slack_files_upload_v2'',
      ''slack_search_messages'', ''slack_search_files'',
      ''slack_reminders_add'', ''slack_reminders_list'', ''slack_reminders_delete'',
      ''slack_conversation_create'', ''slack_conversation_archive'',
      ''slack_conversation_unarchive'', ''slack_conversation_invite'',
      ''slack_conversation_kick'', ''slack_conversation_rename'',
      ''slack_conversation_set_purpose'', ''slack_conversation_set_topic'',
      ''slack_conversation_join'', ''slack_conversation_leave'',
      ''slack_pins_add'', ''slack_pins_remove'', ''slack_pins_list'',
      ''slack_reactions_remove'', ''slack_reactions_get'', ''slack_reactions_list'',
      ''slack_views_open'', ''slack_views_update'', ''slack_views_push'']"

record CallToolRequest =
  params_name :: string
  params_arguments :: "js_object option"

text \<open>
  A tool result holds one content part, \<open>{type: "text", text: JSON.stringify(v)}\<close>.
\<close>

datatype content_part = TextContent json_text

record ToolResult =
  result_content :: "content_part list"


text \<open>
  The bodies of the \<open>case\<close> blocks of the file, search and reminder tools, up to
  the response. Each test is made on the argument object as it arrived.
\<close>

definition case_files_upload ::
  "env \<Rightarrow> SlackClient \<Rightarrow> js_object \<Rightarrow> state \<Rightarrow> (exn + json) \<times> state" where
  "case_files_upload e slackClient args s =
     (if \<not> truthy (get args ''content'') \<or> \<not> truthy (get args ''filename'')
      then (Inl (JsError ''Missing required arguments: content and filename''), s)
      else uploadFile e slackClient args s)"

definition case_files_delete ::
  "env \<Rightarrow> SlackClient \<Rightarrow> js_object \<Rightarrow> state \<Rightarrow> (exn + json) \<times> state" where
  "case_files_delete e slackClient args s =
     (if \<not> truthy (get args ''file'')
      then (Inl (JsError ''Missing required argument: file''), s)
      else deleteFile e slackClient args s)"

definition case_files_getUploadURLExternal ::
  "env \<Rightarrow> SlackClient \<Rightarrow> js_object \<Rightarrow> state \<Rightarrow> (exn + json) \<times> state" where
  "case_files_getUploadURLExternal e slackClient args s =
     (if \<not> truthy (get args ''filename'') \<or> get args ''length'' = JUndefined \<or> get args ''length'' = JNull
      then (Inl (JsError ''Missing required arguments: filename and length''), s)
      else getUploadURLExternal e slackClient args s)"

definition case_files_completeUploadExternal ::
  "env \<Rightarrow> SlackClient \<Rightarrow> js_object \<Rightarrow> state \<Rightarrow> (exn + json) \<times> state" where
  "case_files_completeUploadExternal e slackClient args s =
     (if (case get args ''files'' of JArr xs \<Rightarrow> xs = [] | _ \<Rightarrow> True)
      then (Inl (JsError ''Missing required argument: files (must be a non-empty array)''), s)
      else completeUploadExternal e slackClient args s)"

definition case_files_upload_v2 ::
  "env \<Rightarrow> SlackClient \<Rightarrow> js_object \<Rightarrow> state \<Rightarrow> (exn + json) \<times> state" where
  "case_files_upload_v2 e slackClient args s =
     (if \<not> truthy (get args ''file_path'')
         \<and> (\<not> truthy (get args ''content'') \<or> \<not> truthy (get args ''filename''))
      then (Inl (JsError ''Missing required arguments: either file_path OR both content and filename''), s)
      else uploadFile_v2 e slackClient args s)"

definition case_search_messages ::
  "env \<Rightarrow> SlackClient \<Rightarrow> js_object \<Rightarrow> state \<Rightarrow> (exn + json) \<times> state" where
  "case_search_messages e slackClient args s =
     (if \<not> truthy (get args ''query'')
      then (Inl (JsError ''Missing required argument: query''), s)
      else searchMessages e slackClient args s)"

definition case_search_files ::
  "env \<Rightarrow> SlackClient \<Rightarrow> js_object \<Rightarrow> state \<Rightarrow> (exn + json) \<times> state" where
  "case_search_files e slackClient args s =
     (if \<not> truthy (get args ''query'')
      then (Inl (JsError ''Missing required argument: query''), s)
      else searchFiles e slackClient args s)"


text \<open>
  \<open>response.hint = text\<close>: an assignment to a property keeps the position of a key
  that is there and adds a new key at the end.
\<close>

fun assign :: "js_object \<Rightarrow> string \<Rightarrow> json \<Rightarrow> js_object" where
  "assign [] k v = [(k, v)]"
| "assign (p # ps) k v = (if fst p = k then (k, v) # ps else p # assign ps k v)"

text \<open>
  The hints that \<open>slack_reminders_add\<close> adds to a failed response, by its \<open>error\<close>
  code. Only an object can hold one of the three codes.
\<close>

definition reminder_hint :: "json \<Rightarrow> json" where
  "reminder_hint response =
     (case response of
        JObj members \<Rightarrow>
          (let code = get members ''error''
           in if code = JStr ''invalid_time'' then
                JObj (assign members ''hint''
                  (JStr (''Time format not recognized. Try '' @ [CHR 0x27] @ ''tomorrow at 3pm'' @ [CHR 0x27]
                         @ '' or a Unix timestamp'')))
              else if code = JStr ''cannot_parse'' then
                JObj (assign members ''hint''
                  (JStr (''Could not parse the time. Use natural language like '' @ [CHR 0x27]
                         @ ''in 2 hours'' @ [CHR 0x27] @ '' or '' @ [CHR 0x27] @ ''next Monday at 9am''
                         @ [CHR 0x27])))
              else if code = JStr ''time_in_past'' then
                JObj (assign members ''hint'' (JStr ''The specified time is in the past''))
              else response)
      | other \<Rightarrow> response)"

text \<open>
  \<open>slack_reminders_add\<close>: the tests on \<open>text\<close> and \<open>time\<close>, a warning for a numeric
  time before \<open>Date.now() / 1000\<close>, the call, and the hint on a response whose \<open>ok\<close>
  is falsy.
\<close>

definition case_reminders_add ::
  "env \<Rightarrow> SlackClient \<Rightarrow> js_object \<Rightarrow> state \<Rightarrow> (exn + json) \<times> state" where
  "case_reminders_add e slackClient args s =
     (let time = get args ''time''
      in if \<not> truthy (get args ''text'') \<or> time = JUndefined \<or> time = JNull then
           (Inl (JsError ''Missing required arguments: text and time''), s)
         else if (case time of JStr t \<Rightarrow> String_trim e t = [] | other \<Rightarrow> False) then
           (Inl (JsError ''Time cannot be an empty string''), s)
         else
           (let s1 = (case time of
                        JNum n \<Rightarrow>
                          (if n * 1000 < int (Date_now e)
                           then Logger_warn e ''Reminder time appears to be in the past'' s else s)
                      | other \<Rightarrow> s)
            in case addReminder e slackClient args s1 of
                 (Inl err, s2) \<Rightarrow> (Inl err, s2)
               | (Inr response, s2) \<Rightarrow>
                   (case property response ''ok'' of
                      Inl err \<Rightarrow> (Inl err, s2)
                    | Inr ok \<Rightarrow>
                        if \<not> truthy ok
                        then (Inr (reminder_hint response), Logger_error e ''Failed to add reminder'' s2)
                        else (Inr response, s2))))"

definition case_reminders_list ::
  "env \<Rightarrow> SlackClient \<Rightarrow> js_object \<Rightarrow> state \<Rightarrow> (exn + json) \<times> state" where
  "case_reminders_list e slackClient args s = listReminders e slackClient args s"

definition case_reminders_delete ::
  "env \<Rightarrow> SlackClient \<Rightarrow> js_object \<Rightarrow> state \<Rightarrow> (exn + json) \<times> state" where
  "case_reminders_delete e slackClient args s =
     (if \<not> truthy (get args ''reminder'')
      then (Inl (JsError ''Missing required argument: reminder''), s)
      else deleteReminder e slackClient args s)"

text \<open>
  The \<open>switch\<close> on the tool name. The ten tools above are modelled in full. The
  remaining labels lead to \<open>rest\<close>, a parameter that stands for the bodies of the other
  \<open>case\<close> blocks: what each of them returns or throws, and what it does to the state,
  is left open. The \<open>default\<close> branch throws.
\<close>

definition tool_switch ::
  "env \<Rightarrow> SlackClient \<Rightarrow> (string \<Rightarrow> js_object \<Rightarrow> state \<Rightarrow> (exn + json) \<times> state) \<Rightarrow>
   string \<Rightarrow> js_object \<Rightarrow> state \<Rightarrow> (exn + json) \<times> state" where
  "tool_switch e slackClient rest name args s =
     (if name = ''slack_files_upload'' then case_files_upload e slackClient args s
      else if name = ''slack_files_delete'' then case_files_delete e slackClient args s
      else if name = ''slack_files_getUploadURLExternal''
        then case_files_getUploadURLExternal e slackClient args s
      else if name = ''slack_files_completeUploadExternal''
        then case_files_completeUploadExternal e slackClient args s
      else if name = ''slack_files_upload_v2'' then case_files_upload_v2 e slackClient args s
      else if name = ''slack_search_messages'' then case_search_messages e slackClient args s
      else if name = ''slack_search_files'' then case_search_files e slackClient args s
      else if name = ''slack_reminders_add'' then case_reminders_add e slackClient args s
      else if name = ''slack_reminders_list'' then case_reminders_list e slackClient args s
      else if name = ''slack_reminders_delete'' then case_reminders_delete e slackClient args s
      else if name \<in> set case_labels then rest name args s
      else (Inl (JsError (''Unknown tool: '' @ name)), s))"

text \<open>The \<open>try\<close> block of the handler: the test for absent arguments, then the switch.\<close>

definition try_block ::
  "env \<Rightarrow> SlackClient \<Rightarrow> (string \<Rightarrow> js_object \<Rightarrow> state \<Rightarrow> (exn + json) \<times> state) \<Rightarrow>
   CallToolRequest \<Rightarrow> state \<Rightarrow> (exn + json) \<times> state" where
  "try_block e slackClient rest request s =
     (case params_arguments request of
        None \<Rightarrow> (Inl (JsError ''No arguments provided''), s)
      | Some args \<Rightarrow> tool_switch e slackClient rest (params_name request) args s)"

definition error_hint :: string where
  "error_hint = ''Enable debug mode with SLACK_MCP_LOG_LEVEL=debug for more details''"

text \<open>
  The handler registered for \<open>CallToolRequestSchema\<close>: two log lines, the \<open>try\<close>
  block, and the \<open>catch\<close> that logs and returns the error as a result.
\<close>

definition CallToolRequest_handler ::
  "env \<Rightarrow> SlackClient \<Rightarrow> (string \<Rightarrow> js_object \<Rightarrow> state \<Rightarrow> (exn + json) \<times> state) \<Rightarrow>
   CallToolRequest \<Rightarrow> state \<Rightarrow> ToolResult \<times> state" where
  "CallToolRequest_handler e slackClient rest request s =
     (let name = params_name request;
          s1 = Logger_debug e ''Tool request details'' (Logger_info e (''Tool called: '' @ name) s)
      in case try_block e slackClient rest request s1 of
           (Inr response, s2) \<Rightarrow>
             (\<lparr>result_content = [TextContent (JSON_stringify response)]\<rparr>, s2)
         | (Inl error, s2) \<Rightarrow>
             (\<lparr>result_content =
                 [TextContent (JSON_stringify
                    (JObj [(''error'', JStr (message_of error)),
                           (''tool'', JStr name),
                           (''hint'', JStr error_hint)]))]\<rparr>,
              Logger_error e (''Error executing tool '' @ name @ '':'') s2))"


section \<open>Process resilience harness\<close>

text \<open>
  The fault handlers of \<open>main\<close> share one counter, \<open>errorCount\<close>, initially 0. The
  handlers for \<open>uncaughtException\<close> and \<open>unhandledRejection\<close> have the same control
  flow: increment, log, and call \<open>process.exit(1)\<close> once the counter has reached
  \<open>MAX_ERROR_COUNT\<close>. A \<open>setInterval\<close> callback with period \<open>ERROR_RESET_INTERVAL\<close>
  (milliseconds) zeroes a positive counter, and \<open>SIGINT\<close>/\<open>SIGTERM\<close> clear the interval
  and call \<open>process.exit(0)\<close>.

  The process is either running, with the counter and the time since the interval last
  fired (or since it was installed), or it has exited with a status. Log output of the
  handlers is not part of this state.
\<close>

definition MAX_ERROR_COUNT :: nat where
  "MAX_ERROR_COUNT = 10"

definition ERROR_RESET_INTERVAL :: nat where
  "ERROR_RESET_INTERVAL = 60000"

record harness =
  errorCount :: nat
  sinceTimer :: nat

datatype process = Running harness | Exited nat

datatype fault = UncaughtException | UnhandledRejection

datatype signal = SIGINT | SIGTERM

datatype event = Fault fault | Elapse nat | Signal signal

text \<open>The body of both fault handlers: \<open>errorCount++\<close>, then the threshold test.\<close>

definition on_fault :: "harness \<Rightarrow> process" where
  "on_fault h =
     (let h' = h\<lparr>errorCount := errorCount h + 1\<rparr>
      in if errorCount h' \<ge> MAX_ERROR_COUNT then Exited 1 else Running h')"

text \<open>The interval callback: \<open>if (errorCount > 0) errorCount = 0\<close>.\<close>

definition on_timer :: "harness \<Rightarrow> harness" where
  "on_timer h = (if errorCount h > 0 then h\<lparr>errorCount := 0\<rparr> else h)"

text \<open>
  Letting \<open>d\<close> milliseconds pass runs the interval callback once for every full period
  that has elapsed since it last fired.
\<close>

definition elapse :: "nat \<Rightarrow> harness \<Rightarrow> harness" where
  "elapse d h =
     (let t = sinceTimer h + d
      in ((on_timer ^^ (t div ERROR_RESET_INTERVAL)) h)\<lparr>sinceTimer := t mod ERROR_RESET_INTERVAL\<rparr>)"

text \<open>\<open>shutdown(signal)\<close>: \<open>clearInterval\<close>, then \<open>process.exit(0)\<close>.\<close>

definition shutdown :: "signal \<Rightarrow> process" where
  "shutdown sig = Exited 0"

fun step :: "process \<Rightarrow> event \<Rightarrow> process" where
  "step (Exited c) e = Exited c"
| "step (Running h) (Fault f) = on_fault h"
| "step (Running h) (Elapse d) = Running (elapse d h)"
| "step (Running h) (Signal sig) = shutdown sig"

definition run :: "process \<Rightarrow> event list \<Rightarrow> process" where
  "run p es = foldl step p es"

definition initial :: process where
  "initial = Running \<lparr>errorCount = 0, sinceTimer = 0\<rparr>"

section \<open>Notions used in the statements, and a sample environment\<close>

text \<open>
  The three requests of the two-phase upload, written out: the lemmas below show that
  these are the requests the methods hand to \<open>fetch\<close>.
\<close>

definition reserve_request :: "SlackClient \<Rightarrow> json \<Rightarrow> nat \<Rightarrow> http_request" where
  "reserve_request this filename n =
     (JStr ''https://slack.com/api/files.getUploadURLExternal'',
      \<lparr>init_method = Some ''POST'', init_headers = Some (userHeaders this),
       init_body = Some (JsonText (JSON_stringify
         (JObj [(''filename'', filename), (''length'', JNum (int n)), (''alt_text'', JUndefined)])))\<rparr>)"

definition transfer_request :: "json \<Rightarrow> json \<Rightarrow> byte list \<Rightarrow> http_request" where
  "transfer_request upload_url filetype bytes =
     (upload_url,
      \<lparr>init_method = Some ''POST'',
       init_headers = Some [(''Content-Type'', or_json filetype (JStr ''application/octet-stream''))],
       init_body = Some (Buffer bytes)\<rparr>)"

definition finalize_request ::
  "SlackClient \<Rightarrow> json \<Rightarrow> json \<Rightarrow> json \<Rightarrow> json \<Rightarrow> json \<Rightarrow> http_request" where
  "finalize_request this file_id ttl channel_id comment thread =
     (JStr ''https://slack.com/api/files.completeUploadExternal'',
      \<lparr>init_method = Some ''POST'', init_headers = Some (userHeaders this),
       init_body = Some (JsonText (JSON_stringify
         (JObj [(''files'', JArr [JObj [(''id'', file_id), (''title'', ttl)]]),
                (''channel_id'', channel_id),
                (''initial_comment'', comment),
                (''thread_ts'', thread)])))\<rparr>)"

text \<open>
  The finalize request of \<open>uploadFile_v2\<close> for given arguments, file name and file
  identifier.
\<close>

definition finalize_of :: "env \<Rightarrow> SlackClient \<Rightarrow> js_object \<Rightarrow> json \<Rightarrow> json \<Rightarrow> http_request" where
  "finalize_of e this args filename file_id =
     finalize_request this file_id (or_json (get args ''title'') filename)
       (first_channel e (get args ''channels'')) (get args ''initial_comment'') (get args ''thread_ts'')"

text \<open>The request of a method that sends a JSON body, and that of \<open>deleteFile\<close>.\<close>

definition post_request :: "SlackClient \<Rightarrow> string \<Rightarrow> json \<Rightarrow> http_request" where
  "post_request this url v =
     (JStr url,
      \<lparr>init_method = Some ''POST'', init_headers = Some (userHeaders this),
       init_body = Some (JsonText (JSON_stringify v))\<rparr>)"

definition delete_request :: "SlackClient \<Rightarrow> json \<Rightarrow> http_request" where
  "delete_request this file =
     post_request this ''https://slack.com/api/files.delete'' (JObj [(''file'', file)])"

text \<open>
  The requests made between two states, the \<open>Authorization\<close> header of a request, and
  the header value built from the user token.
\<close>

definition issued :: "state \<Rightarrow> state \<Rightarrow> http_request list" where
  "issued s s' = drop (length (calls s)) (calls s')"

definition authorization :: "http_request \<Rightarrow> json option" where
  "authorization req = (case init_headers (snd req) of Some h \<Rightarrow> map_of h ''Authorization'' | None \<Rightarrow> None)"

definition user_bearer :: "env \<Rightarrow> json" where
  "user_bearer e = JStr (''Bearer '' @ render_env (SLACK_USER_TOKEN e))"

text \<open>
  The tools whose methods select the user token (\<open>useUserToken\<close>), and the requests
  that carry no other \<open>Authorization\<close> header than the one built from it.
\<close>

definition elevated_tools :: "string list" where
  "elevated_tools =
     [''slack_files_delete'', ''slack_files_getUploadURLExternal'', ''slack_files_completeUploadExternal'',
      ''slack_search_messages'', ''slack_search_files'',
      ''slack_reminders_add'', ''slack_reminders_list'', ''slack_reminders_delete'']"

definition user_only :: "env \<Rightarrow> http_request list \<Rightarrow> bool" where
  "user_only e reqs = (set (map authorization reqs) \<subseteq> {Some (user_bearer e)})"

text \<open>
  The tests that the \<open>slack_reminders_add\<close> case makes before it calls the method.
\<close>

definition reminder_accepted :: "env \<Rightarrow> js_object \<Rightarrow> bool" where
  "reminder_accepted e args =
     (truthy (get args ''text'') \<and> get args ''time'' \<noteq> JUndefined \<and> get args ''time'' \<noteq> JNull
      \<and> \<not> (case get args ''time'' of JStr t \<Rightarrow> String_trim e t = [] | other \<Rightarrow> False))"

text \<open>A request body that \<open>makeApiRequest\<close> can log: none, or the text of \<open>JSON.stringify\<close>.\<close>

definition json_or_none :: "RequestInit \<Rightarrow> bool" where
  "json_or_none options =
     (case init_body options of None \<Rightarrow> True | Some (JsonText t) \<Rightarrow> True | Some other \<Rightarrow> False)"

text \<open>
  The faults and the milliseconds in a list of events, and the lists without a
  signal.
\<close>

fun faults :: "event list \<Rightarrow> nat" where
  "faults [] = 0"
| "faults (Fault f # es) = Suc (faults es)"
| "faults (ev # es) = faults es"

fun elapsed :: "event list \<Rightarrow> nat" where
  "elapsed [] = 0"
| "elapsed (Elapse d # es) = d + elapsed es"
| "elapsed (ev # es) = elapsed es"

fun no_signal :: "event list \<Rightarrow> bool" where
  "no_signal [] = True"
| "no_signal (Signal sig # es) = False"
| "no_signal (ev # es) = no_signal es"

text \<open>
  A remote side that answers the requests in order from a fixed script, as the mocked
  \<open>fetch\<close> of the test suite does, and rejects once the script is used up; and an
  environment around it with both tokens set, one readable file of three bytes, base
  names taken after the last slash, one known file extension and blanks as the only
  white space.
\<close>

definition scripted :: "fetch_result list \<Rightarrow> http_request list \<Rightarrow> http_request \<Rightarrow> fetch_result" where
  "scripted script history req =
     (if length history < length script then script ! length history
      else Rejected (JsError ''fetch failed''))"

definition sample_env :: "fetch_result list \<Rightarrow> env" where
  "sample_env script =
     \<lparr>LOG_LEVEL = ''info'',
      SLACK_USER_TOKEN = Some ''xoxp-user'',
      net = scripted script,
      readFile = (\<lambda>p. if p = JStr ''/tmp/report.pdf'' then Inr [37, 80, 68] else Inl (JsError ''ENOENT'')),
      basename = (\<lambda>p. rev (takeWhile (\<lambda>c. c \<noteq> CHR ''/'') (rev p))),
      basename_type_error = (\<lambda>v. ''The path argument must be of type string''),
      mime_lookup = (\<lambda>p. if drop (length p - 4) p = ''.pdf'' then Some ''application/pdf'' else None),
      URLSearchParams_toString = (\<lambda>ps. concat (map (\<lambda>(k, v). k @ ''='' @ v @ ''&'') ps)),
      String_trim = (\<lambda>t. rev (dropWhile (\<lambda>c. c = CHR '' '') (rev (dropWhile (\<lambda>c. c = CHR '' '') t)))),
      Date_now = 1700000000000,
      JSON_parse_bytes = (\<lambda>b. Inl (JsError ''Unexpected end of JSON input'')),
      Buffer_from_value = (\<lambda>v. case v of
                                  JArr xs \<Rightarrow> Inr (map (\<lambda>x. case x of JNum n \<Rightarrow> word_of_int n | other \<Rightarrow> 0) xs)
                                | other \<Rightarrow> Inl (JsError ''The first argument must be of type string'')),
      Number_toString_large = (\<lambda>n. ''1e+21''),
      first_code_unit = (\<lambda>t. JStr (take 2 t))\<rparr>"

definition sample_client :: SlackClient where
  "sample_client = new_SlackClient (sample_env []) ''xoxb-bot''"

definition empty_state :: state where
  "empty_state = \<lparr>calls = [], logs = []\<rparr>"

definition json_response :: "nat \<Rightarrow> string \<Rightarrow> json \<Rightarrow> fetch_result" where
  "json_response st txt v = Resolved \<lparr>status = st, statusText = txt, json_result = Inr v\<rparr>"

text \<open>
  A stand-in for the \<open>case\<close> blocks that are not modelled: every such tool answers
  \<open>{ok: true}\<close> without a request.
\<close>

definition sample_rest :: "string \<Rightarrow> js_object \<Rightarrow> state \<Rightarrow> (exn + json) \<times> state" where
  "sample_rest name args s = (Inr (JObj [(''ok'', JBool True)]), s)"

section \<open>Properties of the logger and the gateway\<close>

lemma indexOf_levels_le: "indexOf levels x \<le> 3"
  by (simp add: levels_def Let_def)

lemma shouldLog_error: "shouldLog e ''error''"
  using indexOf_levels_le[of "LOG_LEVEL e"] by (simp add: shouldLog_def levels_def)

lemma Logger_error_emit: "Logger_error e m s = emit ''error'' m s"
  by (simp add: Logger_error_def shouldLog_error)

lemma calls_emit: "calls (emit l m s) = calls s"
  by (simp add: emit_def)

lemma calls_Logger:
  "calls (Logger_debug e m s) = calls s"
  "calls (Logger_info e m s) = calls s"
  "calls (Logger_warn e m s) = calls s"
  "calls (Logger_error e m s) = calls s"
  "calls (Logger_apiRequest e me u s) = calls s"
  "calls (Logger_apiResponse e me u st s) = calls s"
  by (simp_all add: Logger_debug_def Logger_info_def Logger_warn_def Logger_error_def
      Logger_apiRequest_def Logger_apiResponse_def Let_def calls_emit)

lemma json_or_none_json_init: "json_or_none (json_init m v)"
  by (simp add: json_or_none_def json_init_def)

lemma json_or_none_get_init: "json_or_none get_init"
  by (simp add: json_or_none_def get_init_def)

text \<open>
  With no body or a JSON body, \<open>makeApiRequest\<close> makes exactly one request, and what it
  returns or throws is decided by the answer to that request.
\<close>

lemma makeApiRequest_outcome:
  assumes "json_or_none options"
  shows "\<exists>s'. makeApiRequest e this url options u s =
           ((case net e (calls s) (fetch_arguments this url options u) of
               Rejected err \<Rightarrow> Inl err
             | Resolved r \<Rightarrow>
                 (case json_result r of
                    Inl err \<Rightarrow> Inl err
                  | Inr b \<Rightarrow> (case property b ''ok'' of Inl err \<Rightarrow> Inl err | Inr ok \<Rightarrow> Inr b))), s')
         \<and> calls s' = calls s @ [fetch_arguments this url options u]"
  using assms
  by (simp add: makeApiRequest_def Let_def JSON_parse_body_def json_or_none_def fetch_def calls_Logger
      split: option.splits body.splits json_text.splits fetch_result.splits sum.splits)

lemma property_defined:
  "property v k = Inr x \<Longrightarrow> \<exists>y. property v k' = Inr y"
  by (cases v) simp_all

lemma issued_append: "calls s' = calls s @ new \<Longrightarrow> issued s s' = new"
  by (simp add: issued_def)

lemma makeApiRequest_FormData:
  "init_body options = Some (FormData entries) \<Longrightarrow>
   makeApiRequest e this url options u s = (Inl (JsError form_data_syntax_error), s)"
  by (simp add: makeApiRequest_def Let_def JSON_parse_body_def)

text \<open>
  With the user token selected and no headers of the caller's own, the one request of
  \<open>makeApiRequest\<close> carries the \<open>Authorization\<close> header built from the user token.
\<close>

lemma gateway_user_token:
  assumes "json_or_none options" "init_headers options = None"
  shows "map authorization
           (issued s (snd (makeApiRequest e (new_SlackClient e botToken) url options True s)))
         = [Some (user_bearer e)]"
proof -
  let ?cl = "new_SlackClient e botToken"
  obtain R s' where "makeApiRequest e ?cl url options True s = (R, s')"
    and c: "calls s' = calls s @ [fetch_arguments ?cl url options True]"
    using makeApiRequest_outcome[OF assms(1), of e ?cl url True s] by blast
  then have "issued s (snd (makeApiRequest e ?cl url options True s))
      = [fetch_arguments ?cl url options True]"
    by (simp add: issued_append)
  moreover have "authorization (fetch_arguments ?cl url options True) = Some (user_bearer e)"
    using assms(2)
    by (simp add: authorization_def fetch_arguments_def new_SlackClient_def user_bearer_def)
  ultimately show ?thesis by simp
qed

lemma issued_Logger:
  "issued (Logger_debug e m s) s' = issued s s'"
  by (simp add: issued_def calls_Logger)

lemma json_init_headers: "init_headers (json_init m v) = None"
  by (simp add: json_init_def)

lemma get_init_headers: "init_headers get_init = None"
  by (simp add: get_init_def)

lemma authorization_requests:
  "authorization (reserve_request (new_SlackClient e botToken) fname n) = Some (user_bearer e)"
  "authorization (finalize_request (new_SlackClient e botToken) fid ttl ch co th) = Some (user_bearer e)"
  "authorization (transfer_request u ftype bytes) = None"
  by (simp_all add: authorization_def reserve_request_def finalize_request_def transfer_request_def
      new_SlackClient_def user_bearer_def)

lemma logs_emit: "logs (emit l m s) = logs s @ [(l, m)]"
  by (simp add: emit_def)

text \<open>
  The gateway on a request with no body or a JSON body: it makes exactly one request;
  it throws exactly when \<open>fetch\<close> rejects, when \<open>response.json()\<close> rejects, or when the
  decoded body is \<open>null\<close>; otherwise it returns the decoded body as it is. When the
  body's \<open>ok\<close> is falsy the body is still returned, and the last log line is the error
  line \<open>Slack API error for METHOD URL\<close>.
\<close>

theorem gateway_json_requests:
  assumes "json_or_none options"
  shows "calls (snd (makeApiRequest e this url options u s))
           = calls s @ [fetch_arguments this url options u]
       \<and> fst (makeApiRequest e this url options u s)
           = (case net e (calls s) (fetch_arguments this url options u) of
                Rejected err \<Rightarrow> Inl err
              | Resolved r \<Rightarrow>
                  (case json_result r of
                     Inl err \<Rightarrow> Inl err
                   | Inr b \<Rightarrow> (case property b ''ok'' of Inl err \<Rightarrow> Inl err | Inr ok \<Rightarrow> Inr b)))
       \<and> (net e (calls s) (fetch_arguments this url options u) = Resolved r \<and> json_result r = Inr b
            \<and> property b ''ok'' = Inr okv \<and> \<not> truthy okv \<longrightarrow>
          fst (makeApiRequest e this url options u s) = Inr b
          \<and> last (logs (snd (makeApiRequest e this url options u s)))
              = (''error'', ''Slack API error for '' @ or_else (init_method options) ''GET'' @ '' '' @ url))"
proof (intro conjI impI)
  from makeApiRequest_outcome[OF assms, of e this url u s]
  show "calls (snd (makeApiRequest e this url options u s))
           = calls s @ [fetch_arguments this url options u]"
    and res: "fst (makeApiRequest e this url options u s)
           = (case net e (calls s) (fetch_arguments this url options u) of
                Rejected err \<Rightarrow> Inl err
              | Resolved r \<Rightarrow>
                  (case json_result r of
                     Inl err \<Rightarrow> Inl err
                   | Inr b \<Rightarrow> (case property b ''ok'' of Inl err \<Rightarrow> Inl err | Inr ok \<Rightarrow> Inr b)))"
    by auto
  assume h: "net e (calls s) (fetch_arguments this url options u) = Resolved r \<and> json_result r = Inr b
            \<and> property b ''ok'' = Inr okv \<and> \<not> truthy okv"
  then show "fst (makeApiRequest e this url options u s) = Inr b"
    using res by simp
  from h assms show "last (logs (snd (makeApiRequest e this url options u s)))
              = (''error'', ''Slack API error for '' @ or_else (init_method options) ''GET'' @ '' '' @ url)"
    by (simp add: makeApiRequest_def Let_def JSON_parse_body_def json_or_none_def fetch_def calls_Logger
        Logger_error_emit logs_emit
        split: option.splits body.splits json_text.splits)
qed

theorem gateway_json_requests_witness:
  "fst (makeApiRequest
          (sample_env [json_response 200 ''OK'' (JObj [(''ok'', JBool False), (''error'', JStr ''missing_scope'')])])
          sample_client ''https://slack.com/api/files.delete''
          (json_init ''POST'' (JObj [(''file'', JStr ''F1'')])) True empty_state)
     = Inr (JObj [(''ok'', JBool False), (''error'', JStr ''missing_scope'')])
   \<and> last (logs (snd (makeApiRequest
          (sample_env [json_response 200 ''OK'' (JObj [(''ok'', JBool False), (''error'', JStr ''missing_scope'')])])
          sample_client ''https://slack.com/api/files.delete''
          (json_init ''POST'' (JObj [(''file'', JStr ''F1'')])) True empty_state)))
     = (''error'', ''Slack API error for POST https://slack.com/api/files.delete'')"
proof -
  let ?b = "JObj [(''ok'', JBool False), (''error'', JStr ''missing_scope'')]"
  let ?e = "sample_env [json_response 200 ''OK'' ?b]"
  let ?o = "json_init ''POST'' (JObj [(''file'', JStr ''F1'')])"
  have reply: "net ?e (calls empty_state)
      (fetch_arguments sample_client ''https://slack.com/api/files.delete'' ?o True)
      = Resolved \<lparr>status = 200, statusText = ''OK'', json_result = Inr ?b\<rparr>"
    by (simp add: sample_env_def scripted_def empty_state_def json_response_def)
  have ok: "property ?b ''ok'' = Inr (JBool False)"
    by (simp add: get_def)
  have m: "or_else (init_method ?o) ''GET'' = ''POST''"
    by (simp add: json_init_def)
  from gateway_json_requests[where options = ?o and e = ?e and s = empty_state and this = sample_client
      and url = "''https://slack.com/api/files.delete''" and u = True
      and r = "\<lparr>status = 200, statusText = ''OK'', json_result = Inr ?b\<rparr>" and b = ?b
      and okv = "JBool False"]
  show ?thesis
    using reply ok by (simp add: m json_or_none_json_init)
qed

section \<open>Properties of the dispatcher\<close>

lemma handler_error:
  assumes "try_block e this rest request
             (Logger_debug e ''Tool request details''
               (Logger_info e (''Tool called: '' @ params_name request) s)) = (Inl err, s')"
  shows "CallToolRequest_handler e this rest request s =
     (\<lparr>result_content =
         [TextContent (JSON_stringify
            (JObj [(''error'', JStr (message_of err)),
                   (''tool'', JStr (params_name request)),
                   (''hint'', JStr error_hint)]))]\<rparr>,
      Logger_error e (''Error executing tool '' @ params_name request @ '':'') s')"
  using assms by (simp add: CallToolRequest_handler_def Let_def)

lemma tool_switch_upload_v2:
  "tool_switch e this rest ''slack_files_upload_v2'' a s = case_files_upload_v2 e this a s"
  by (simp add: tool_switch_def)

lemma catalog_is_switch: "tool_catalog = case_labels"
  by (simp add: tool_catalog_def case_labels_def)

lemma handler_single_part:
  "\<exists>v. result_content (fst (CallToolRequest_handler e this rest request s)) = [TextContent (JSON_stringify v)]"
  by (simp add: CallToolRequest_handler_def Let_def split: prod.splits sum.splits)

lemma tool_switch_unknown:
  assumes "name \<notin> set tool_catalog"
  shows "tool_switch e this rest name a s = (Inl (JsError (''Unknown tool: '' @ name)), s)"
proof -
  have "name \<notin> set case_labels"
    using assms by (simp add: catalog_is_switch)
  moreover have "name \<noteq> ''slack_files_upload''" "name \<noteq> ''slack_files_delete''"
    "name \<noteq> ''slack_files_getUploadURLExternal''" "name \<noteq> ''slack_files_completeUploadExternal''"
    "name \<noteq> ''slack_files_upload_v2''" "name \<noteq> ''slack_search_messages''"
    "name \<noteq> ''slack_search_files''" "name \<noteq> ''slack_reminders_add''"
    "name \<noteq> ''slack_reminders_list''" "name \<noteq> ''slack_reminders_delete''"
    using assms by (auto simp: tool_catalog_def)
  ultimately show ?thesis
    by (simp add: tool_switch_def)
qed

text \<open>
  C6. A request without arguments gets a result, not an exception: its one text part
  carries the error \<open>No arguments provided\<close> with the tool name and the hint, and no
  request has been made.
\<close>

theorem absent_arguments_result:
  assumes "params_arguments request = None"
  shows "fst (CallToolRequest_handler e this rest request s)
           = \<lparr>result_content =
               [TextContent (JSON_stringify
                  (JObj [(''error'', JStr ''No arguments provided''),
                         (''tool'', JStr (params_name request)),
                         (''hint'', JStr error_hint)]))]\<rparr>
       \<and> calls (snd (CallToolRequest_handler e this rest request s)) = calls s"
proof -
  let ?s1 = "Logger_debug e ''Tool request details''
               (Logger_info e (''Tool called: '' @ params_name request) s)"
  have "try_block e this rest request ?s1 = (Inl (JsError ''No arguments provided''), ?s1)"
    using assms by (simp add: try_block_def)
  from handler_error[OF this] show ?thesis
    by (simp add: calls_Logger)
qed

theorem absent_arguments_result_witness:
  "fst (CallToolRequest_handler (sample_env []) sample_client sample_rest
         \<lparr>params_name = ''slack_post_message'', params_arguments = None\<rparr> empty_state)
     = \<lparr>result_content =
         [TextContent (JSON_stringify
            (JObj [(''error'', JStr ''No arguments provided''),
                   (''tool'', JStr ''slack_post_message''),
                   (''hint'', JStr error_hint)]))]\<rparr>
   \<and> calls (snd (CallToolRequest_handler (sample_env []) sample_client sample_rest
         \<lparr>params_name = ''slack_post_message'', params_arguments = None\<rparr> empty_state)) = []"
  using absent_arguments_result[of "\<lparr>params_name = ''slack_post_message'', params_arguments = None\<rparr>"
      "sample_env []" sample_client sample_rest empty_state]
  by (simp add: empty_state_def)

text \<open>
  C7. A request with arguments whose tool name is not in the catalog gets the error
  result \<open>Unknown tool: name\<close>, and no request has been made.
\<close>

theorem unknown_tool_result:
  assumes "params_arguments request = Some a"
    and "params_name request \<notin> set tool_catalog"
  shows "fst (CallToolRequest_handler e this rest request s)
           = \<lparr>result_content =
               [TextContent (JSON_stringify
                  (JObj [(''error'', JStr (''Unknown tool: '' @ params_name request)),
                         (''tool'', JStr (params_name request)),
                         (''hint'', JStr error_hint)]))]\<rparr>
       \<and> calls (snd (CallToolRequest_handler e this rest request s)) = calls s"
proof -
  let ?s1 = "Logger_debug e ''Tool request details''
               (Logger_info e (''Tool called: '' @ params_name request) s)"
  have "try_block e this rest request ?s1
      = (Inl (JsError (''Unknown tool: '' @ params_name request)), ?s1)"
    using assms by (simp add: try_block_def tool_switch_unknown)
  from handler_error[OF this] show ?thesis
    by (simp add: calls_Logger)
qed

theorem unknown_tool_result_witness:
  "fst (CallToolRequest_handler (sample_env []) sample_client sample_rest
         \<lparr>params_name = ''slack_send_email'', params_arguments = Some [(''to'', JStr ''a@b.c'')]\<rparr> empty_state)
     = \<lparr>result_content =
         [TextContent (JSON_stringify
            (JObj [(''error'', JStr ''Unknown tool: slack_send_email''),
                   (''tool'', JStr ''slack_send_email''),
                   (''hint'', JStr error_hint)]))]\<rparr>
   \<and> calls (snd (CallToolRequest_handler (sample_env []) sample_client sample_rest
         \<lparr>params_name = ''slack_send_email'', params_arguments = Some [(''to'', JStr ''a@b.c'')]\<rparr> empty_state)) = []"
proof -
  have "''slack_send_email'' \<notin> set tool_catalog"
    by (simp add: tool_catalog_def)
  then show ?thesis
    using unknown_tool_result[of
      "\<lparr>params_name = ''slack_send_email'', params_arguments = Some [(''to'', JStr ''a@b.c'')]\<rparr>"
      "[(''to'', JStr ''a@b.c'')]" "sample_env []" sample_client sample_rest empty_state]
    by (simp add: empty_state_def)
qed

lemma deleteFile_outcome:
  "\<exists>s'. deleteFile e this a s =
           ((case net e (calls s) (delete_request this (get a ''file'')) of
               Rejected err \<Rightarrow> Inl err
             | Resolved r \<Rightarrow>
                 (case json_result r of
                    Inl err \<Rightarrow> Inl err
                  | Inr b \<Rightarrow> (case property b ''ok'' of Inl err \<Rightarrow> Inl err | Inr ok \<Rightarrow> Inr b))), s')
         \<and> calls s' = calls s @ [delete_request this (get a ''file'')]"
proof -
  let ?o = "json_init ''POST'' (JObj [(''file'', get a ''file'')])"
  have req: "fetch_arguments this ''https://slack.com/api/files.delete'' ?o True
      = delete_request this (get a ''file'')"
    by (simp add: fetch_arguments_def delete_request_def post_request_def json_init_def)
  show ?thesis
    unfolding deleteFile_def
    using makeApiRequest_outcome[of ?o e this "''https://slack.com/api/files.delete''" True
        "Logger_debug e ''Deleting file'' s"]
    by (simp add: req calls_Logger json_or_none_json_init)
qed

lemma tool_switch_files_delete:
  "tool_switch e this rest ''slack_files_delete'' a s = case_files_delete e this a s"
  by (simp add: tool_switch_def)

text \<open>
  C5, as amended. Whenever the \<open>try\<close> block throws, the handler returns a result whose
  one text part is the serialisation of \<open>{error: message, tool: name, hint: text}\<close>,
  with the fixed hint text; this includes an exception that the gateway raises, such
  as a rejected \<open>fetch\<close> under \<open>slack_files_delete\<close>. The handler's value is always a
  result with exactly one text part: nothing is thrown on to the transport.
\<close>

theorem handler_catches_exceptions:
  "(try_block e this rest request
       (Logger_debug e ''Tool request details''
          (Logger_info e (''Tool called: '' @ params_name request) s)) = (Inl err, s') \<longrightarrow>
     CallToolRequest_handler e this rest request s =
       (\<lparr>result_content =
           [TextContent (JSON_stringify
              (JObj [(''error'', JStr (message_of err)),
                     (''tool'', JStr (params_name request)),
                     (''hint'', JStr error_hint)]))]\<rparr>,
        Logger_error e (''Error executing tool '' @ params_name request @ '':'') s'))
   \<and> (truthy (get a ''file'') \<and> net e (calls s) (delete_request this (get a ''file'')) = Rejected err \<longrightarrow>
       fst (CallToolRequest_handler e this rest
              \<lparr>params_name = ''slack_files_delete'', params_arguments = Some a\<rparr> s)
         = \<lparr>result_content =
             [TextContent (JSON_stringify
                (JObj [(''error'', JStr (message_of err)),
                       (''tool'', JStr ''slack_files_delete''),
                       (''hint'', JStr error_hint)]))]\<rparr>)
   \<and> (\<exists>v. result_content (fst (CallToolRequest_handler e this rest request s))
            = [TextContent (JSON_stringify v)])"
proof (intro conjI impI)
  assume "try_block e this rest request
       (Logger_debug e ''Tool request details''
          (Logger_info e (''Tool called: '' @ params_name request) s)) = (Inl err, s')"
  then show "CallToolRequest_handler e this rest request s =
       (\<lparr>result_content =
           [TextContent (JSON_stringify
              (JObj [(''error'', JStr (message_of err)),
                     (''tool'', JStr (params_name request)),
                     (''hint'', JStr error_hint)]))]\<rparr>,
        Logger_error e (''Error executing tool '' @ params_name request @ '':'') s')"
    by (rule handler_error)
next
  assume h: "truthy (get a ''file'') \<and> net e (calls s) (delete_request this (get a ''file'')) = Rejected err"
  let ?req = "\<lparr>params_name = ''slack_files_delete'', params_arguments = Some a\<rparr>"
  let ?s1 = "Logger_debug e ''Tool request details''
               (Logger_info e (''Tool called: '' @ params_name ?req) s)"
  obtain s2 where "deleteFile e this a ?s1 = (Inl err, s2)"
    using deleteFile_outcome[of e this a ?s1] h by (auto simp: calls_Logger)
  then have "try_block e this rest ?req ?s1 = (Inl err, s2)"
    using h by (simp add: try_block_def tool_switch_files_delete case_files_delete_def)
  from handler_error[OF this]
  show "fst (CallToolRequest_handler e this rest ?req s)
         = \<lparr>result_content =
             [TextContent (JSON_stringify
                (JObj [(''error'', JStr (message_of err)),
                       (''tool'', JStr ''slack_files_delete''),
                       (''hint'', JStr error_hint)]))]\<rparr>"
    by simp
next
  show "\<exists>v. result_content (fst (CallToolRequest_handler e this rest request s))
            = [TextContent (JSON_stringify v)]"
    by (rule handler_single_part)
qed

theorem handler_catches_exceptions_witness:
  "fst (CallToolRequest_handler (sample_env []) sample_client sample_rest
          \<lparr>params_name = ''slack_files_delete'', params_arguments = Some [(''file'', JStr ''F1'')]\<rparr>
          empty_state)
     = \<lparr>result_content =
         [TextContent (JSON_stringify
            (JObj [(''error'', JStr ''fetch failed''),
                   (''tool'', JStr ''slack_files_delete''),
                   (''hint'', JStr error_hint)]))]\<rparr>
   \<and> fst (CallToolRequest_handler (sample_env []) sample_client sample_rest
          \<lparr>params_name = ''slack_files_delete'', params_arguments = None\<rparr> empty_state)
     = \<lparr>result_content =
         [TextContent (JSON_stringify
            (JObj [(''error'', JStr ''No arguments provided''),
                   (''tool'', JStr ''slack_files_delete''),
                   (''hint'', JStr error_hint)]))]\<rparr>"
proof (rule conjI)
  have "net (sample_env []) (calls empty_state) (delete_request sample_client (get [(''file'', JStr ''F1'')] ''file''))
      = Rejected (JsError ''fetch failed'')"
    by (simp add: sample_env_def scripted_def)
  then show "fst (CallToolRequest_handler (sample_env []) sample_client sample_rest
          \<lparr>params_name = ''slack_files_delete'', params_arguments = Some [(''file'', JStr ''F1'')]\<rparr>
          empty_state)
     = \<lparr>result_content =
         [TextContent (JSON_stringify
            (JObj [(''error'', JStr ''fetch failed''),
                   (''tool'', JStr ''slack_files_delete''),
                   (''hint'', JStr error_hint)]))]\<rparr>"
    using handler_catches_exceptions[of "sample_env []" sample_client sample_rest
        "\<lparr>params_name = ''slack_files_delete'', params_arguments = Some [(''file'', JStr ''F1'')]\<rparr>"
        empty_state "JsError ''fetch failed''" empty_state "[(''file'', JStr ''F1'')]",
        THEN conjunct2, THEN conjunct1]
    by (simp add: get_def)
next
  let ?req = "\<lparr>params_name = ''slack_files_delete'', params_arguments = None\<rparr>"
  let ?s1 = "Logger_debug (sample_env []) ''Tool request details''
               (Logger_info (sample_env []) (''Tool called: '' @ params_name ?req) empty_state)"
  have "try_block (sample_env []) sample_client sample_rest ?req ?s1
      = (Inl (JsError ''No arguments provided''), ?s1)"
    by (simp add: try_block_def)
  then show "fst (CallToolRequest_handler (sample_env []) sample_client sample_rest ?req empty_state)
     = \<lparr>result_content =
         [TextContent (JSON_stringify
            (JObj [(''error'', JStr ''No arguments provided''),
                   (''tool'', JStr ''slack_files_delete''),
                   (''hint'', JStr error_hint)]))]\<rparr>"
    using handler_catches_exceptions[of "sample_env []" sample_client sample_rest ?req
        empty_state "JsError ''No arguments provided''" ?s1 "[]", THEN conjunct1]
    by simp
qed

text \<open>
  The claim as stated fails: the payload has a third member, \<open>hint\<close>, so it is not the
  serialisation of exactly \<open>{error, tool}\<close>.
\<close>

theorem handler_error_payload_counterexample:
  "fst (CallToolRequest_handler (sample_env []) sample_client sample_rest
          \<lparr>params_name = ''slack_files_delete'', params_arguments = Some [(''file'', JStr ''F1'')]\<rparr>
          empty_state)
     = \<lparr>result_content =
         [TextContent (JSON_stringify
            (JObj [(''error'', JStr ''fetch failed''),
                   (''tool'', JStr ''slack_files_delete''),
                   (''hint'', JStr ''Enable debug mode with SLACK_MCP_LOG_LEVEL=debug for more details'')]))]\<rparr>
   \<and> fst (CallToolRequest_handler (sample_env []) sample_client sample_rest
          \<lparr>params_name = ''slack_files_delete'', params_arguments = Some [(''file'', JStr ''F1'')]\<rparr>
          empty_state)
     \<noteq> \<lparr>result_content =
         [TextContent (JSON_stringify
            (JObj [(''error'', JStr ''fetch failed''),
                   (''tool'', JStr ''slack_files_delete'')]))]\<rparr>"
proof -
  have "net (sample_env []) (calls empty_state) (delete_request sample_client (get [(''file'', JStr ''F1'')] ''file''))
      = Rejected (JsError ''fetch failed'')"
    by (simp add: sample_env_def scripted_def)
  then obtain s2 where "deleteFile (sample_env []) sample_client [(''file'', JStr ''F1'')]
        (Logger_debug (sample_env []) ''Tool request details''
               (Logger_info (sample_env []) (''Tool called: '' @ ''slack_files_delete'') empty_state))
      = (Inl (JsError ''fetch failed''), s2)"
    using deleteFile_outcome[of "sample_env []" sample_client "[(''file'', JStr ''F1'')]"
        "Logger_debug (sample_env []) ''Tool request details''
               (Logger_info (sample_env []) (''Tool called: '' @ ''slack_files_delete'') empty_state)"]
    by (auto simp: calls_Logger)
  then have "try_block (sample_env []) sample_client sample_rest
        \<lparr>params_name = ''slack_files_delete'', params_arguments = Some [(''file'', JStr ''F1'')]\<rparr>
        (Logger_debug (sample_env []) ''Tool request details''
               (Logger_info (sample_env []) (''Tool called: '' @ ''slack_files_delete'') empty_state))
      = (Inl (JsError ''fetch failed''), s2)"
    by (simp add: try_block_def tool_switch_files_delete case_files_delete_def get_def)
  then show ?thesis
    by (simp add: CallToolRequest_handler_def Let_def error_hint_def)
qed


lemma uploadFile_outcome:
  "\<exists>err. uploadFile e this args s = (Inl err, Logger_debug e ''Uploading file'' s)"
proof (cases "upload_form e args")
  case (Inl err)
  then show ?thesis by (simp add: uploadFile_def Let_def)
next
  case (Inr formData)
  have "makeApiRequest e this ''https://slack.com/api/files.upload''
               \<lparr>init_method = Some ''POST'',
                init_headers =
                  Some [(''Authorization'', JStr (''Bearer '' @ render_env (SLACK_USER_TOKEN e)))],
                init_body = Some (FormData formData)\<rparr>
               True (Logger_debug e ''Uploading file'' s)
        = (Inl (JsError form_data_syntax_error), Logger_debug e ''Uploading file'' s)"
    by (rule makeApiRequest_FormData) simp
  with Inr show ?thesis by (simp add: uploadFile_def Let_def)
qed

text \<open>
  C3. The claim says that the gateway throws only when the transport request or the
  decoding of the response fails. The code also throws when the request body is a
  \<open>FormData\<close>, which is how \<open>uploadFile\<close> calls it: the body is parsed as JSON for the
  request log before \<open>fetch\<close> is reached. Evaluated here with a remote side that
  would answer \<open>{ok: true}\<close>: the gateway throws a \<open>SyntaxError\<close> and leaves the state
  as it was (no request, no log line), \<open>uploadFile\<close> throws the same error, and the
  \<open>slack_files_upload\<close> tool returns it as an error result without any request. More
  generally, \<open>uploadFile\<close> throws on every argument object and never makes a request.
\<close>

theorem gateway_throws_on_form_data:
  "makeApiRequest (sample_env [json_response 200 ''OK'' (JObj [(''ok'', JBool True)])]) sample_client
      ''https://slack.com/api/files.upload''
      \<lparr>init_method = Some ''POST'',
       init_headers = Some [(''Authorization'', JStr ''Bearer xoxp-user'')],
       init_body = Some (FormData [(''content'', ''hello''), (''filename'', ''a.txt'')])\<rparr>
      True empty_state
     = (Inl (JsError form_data_syntax_error), empty_state)
   \<and> fst (uploadFile (sample_env [json_response 200 ''OK'' (JObj [(''ok'', JBool True)])]) sample_client
           [(''content'', JStr ''hello''), (''filename'', JStr ''a.txt'')] empty_state)
     = Inl (JsError form_data_syntax_error)
   \<and> fst (CallToolRequest_handler (sample_env [json_response 200 ''OK'' (JObj [(''ok'', JBool True)])])
           sample_client sample_rest
           \<lparr>params_name = ''slack_files_upload'',
            params_arguments = Some [(''content'', JStr ''hello''), (''filename'', JStr ''a.txt'')]\<rparr>
           empty_state)
     = \<lparr>result_content =
         [TextContent (JSON_stringify
            (JObj [(''error'', JStr form_data_syntax_error),
                   (''tool'', JStr ''slack_files_upload''),
                   (''hint'', JStr error_hint)]))]\<rparr>
   \<and> calls (snd (CallToolRequest_handler (sample_env [json_response 200 ''OK'' (JObj [(''ok'', JBool True)])])
           sample_client sample_rest
           \<lparr>params_name = ''slack_files_upload'',
            params_arguments = Some [(''content'', JStr ''hello''), (''filename'', JStr ''a.txt'')]\<rparr>
           empty_state)) = []
   \<and> (\<exists>err. fst (uploadFile e this args s) = Inl err)
   \<and> calls (snd (uploadFile e this args s)) = calls s"
proof -
  let ?e = "sample_env [json_response 200 ''OK'' (JObj [(''ok'', JBool True)])]"
  let ?a = "[(''content'', JStr ''hello''), (''filename'', JStr ''a.txt'')]"
  let ?req = "\<lparr>params_name = ''slack_files_upload'', params_arguments = Some ?a\<rparr>"
  let ?s1 = "Logger_debug ?e ''Tool request details''
               (Logger_info ?e (''Tool called: '' @ params_name ?req) empty_state)"
  have gateway: "makeApiRequest ?e sample_client ''https://slack.com/api/files.upload''
      \<lparr>init_method = Some ''POST'',
       init_headers = Some [(''Authorization'', JStr ''Bearer xoxp-user'')],
       init_body = Some (FormData [(''content'', ''hello''), (''filename'', ''a.txt'')])\<rparr>
      True empty_state
     = (Inl (JsError form_data_syntax_error), empty_state)"
    by (rule makeApiRequest_FormData) simp
  have form: "upload_form ?e ?a = Inr [(''content'', ''hello''), (''filename'', ''a.txt'')]"
    by (simp add: upload_form_def Let_def append_if_def append_entry_def get_def)
  have upload: "uploadFile ?e sample_client ?a t
      = (Inl (JsError form_data_syntax_error), Logger_debug ?e ''Uploading file'' t)" for t
    unfolding uploadFile_def Let_def form
    by (simp add: makeApiRequest_FormData)
  have "try_block ?e sample_client sample_rest ?req ?s1
      = (Inl (JsError form_data_syntax_error), Logger_debug ?e ''Uploading file'' ?s1)"
    by (simp add: try_block_def tool_switch_def case_files_upload_def get_def upload)
  from handler_error[OF this]
  have tool: "fst (CallToolRequest_handler ?e sample_client sample_rest ?req empty_state)
     = \<lparr>result_content =
         [TextContent (JSON_stringify
            (JObj [(''error'', JStr form_data_syntax_error),
                   (''tool'', JStr ''slack_files_upload''),
                   (''hint'', JStr error_hint)]))]\<rparr>"
    and none: "calls (snd (CallToolRequest_handler ?e sample_client sample_rest ?req empty_state)) = []"
    by (simp_all add: calls_Logger empty_state_def)
  obtain err where always: "uploadFile e this args s = (Inl err, Logger_debug e ''Uploading file'' s)"
    using uploadFile_outcome[of e this args s] by blast
  then have general: "\<exists>err. fst (uploadFile e this args s) = Inl err"
    and untouched: "calls (snd (uploadFile e this args s)) = calls s"
    by (simp_all add: calls_Logger)
  from gateway upload[of empty_state] tool none general untouched
  show ?thesis by simp
qed

section \<open>Properties of the two-phase upload\<close>

lemma resolve_upload_input_fst:
  "fst (resolve_upload_input e args s) = fst (resolve_upload_input e args s')"
  by (simp add: resolve_upload_input_def split: sum.splits)

lemma resolve_upload_input_calls:
  "calls (snd (resolve_upload_input e args s)) = calls s"
  by (simp add: resolve_upload_input_def calls_Logger split: sum.splits)

lemma resolve_upload_input_state:
  assumes "fst (resolve_upload_input e args s0) = r"
  shows "\<exists>s1. resolve_upload_input e args s = (r, s1) \<and> calls s1 = calls s"
proof -
  have "fst (resolve_upload_input e args s) = r"
    using assms resolve_upload_input_fst[of e args s s0] by simp
  then show ?thesis
    using resolve_upload_input_calls[of e args s] by (cases "resolve_upload_input e args s") simp
qed

lemma getUploadURLExternal_outcome:
  "\<exists>s'. getUploadURLExternal e this [(''filename'', fname), (''length'', JNum (int n))] s =
           ((case net e (calls s) (reserve_request this fname n) of
               Rejected err \<Rightarrow> Inl err
             | Resolved r \<Rightarrow>
                 (case json_result r of
                    Inl err \<Rightarrow> Inl err
                  | Inr b \<Rightarrow> (case property b ''ok'' of Inl err \<Rightarrow> Inl err | Inr ok \<Rightarrow> Inr b))), s')
         \<and> calls s' = calls s @ [reserve_request this fname n]"
proof -
  let ?a = "[(''filename'', fname), (''length'', JNum (int n))]"
  let ?o = "json_init ''POST''
          (JObj [(''filename'', get ?a ''filename''),
                 (''length'', get ?a ''length''),
                 (''alt_text'', get ?a ''alt_txt'')])"
  have req: "fetch_arguments this ''https://slack.com/api/files.getUploadURLExternal'' ?o True
      = reserve_request this fname n"
    by (simp add: fetch_arguments_def reserve_request_def json_init_def get_def)
  show ?thesis
    unfolding getUploadURLExternal_def
    using makeApiRequest_outcome[of ?o e this "''https://slack.com/api/files.getUploadURLExternal''" True
        "Logger_debug e ''Getting upload URL'' s"]
    by (simp add: req calls_Logger json_or_none_json_init)
qed

lemma completeUploadExternal_outcome:
  "\<exists>s'. completeUploadExternal e this
            [(''files'', JArr [JObj [(''id'', file_id), (''title'', ttl)]]),
             (''channel_id'', ch), (''initial_comment'', co), (''thread_ts'', th)] s =
           ((case net e (calls s) (finalize_request this file_id ttl ch co th) of
               Rejected err \<Rightarrow> Inl err
             | Resolved r \<Rightarrow>
                 (case json_result r of
                    Inl err \<Rightarrow> Inl err
                  | Inr b \<Rightarrow> (case property b ''ok'' of Inl err \<Rightarrow> Inl err | Inr ok \<Rightarrow> Inr b))), s')
         \<and> calls s' = calls s @ [finalize_request this file_id ttl ch co th]"
proof -
  let ?a = "[(''files'', JArr [JObj [(''id'', file_id), (''title'', ttl)]]),
             (''channel_id'', ch), (''initial_comment'', co), (''thread_ts'', th)]"
  let ?o = "json_init ''POST''
          (JObj [(''files'', get ?a ''files''),
                 (''channel_id'', get ?a ''channel_id''),
                 (''initial_comment'', get ?a ''initial_comment''),
                 (''thread_ts'', get ?a ''thread_ts'')])"
  have req: "fetch_arguments this ''https://slack.com/api/files.completeUploadExternal'' ?o True
      = finalize_request this file_id ttl ch co th"
    by (simp add: fetch_arguments_def finalize_request_def json_init_def get_def)
  show ?thesis
    unfolding completeUploadExternal_def
    using makeApiRequest_outcome[of ?o e this "''https://slack.com/api/files.completeUploadExternal''" True
        "Logger_debug e ''Completing upload'' s"]
    by (simp add: req calls_Logger json_or_none_json_init)
qed

text \<open>
  Once the input is resolved and step 1 has returned a response with a truthy \<open>ok\<close>,
  the upload continues with steps 2 and 3 from a state in which exactly the reserve
  request has been added.
\<close>

lemma upload_v2_after_reserve:
  assumes input: "fst (resolve_upload_input e args s) = Inr (bytes, fname, ftype)"
    and reply: "net e (calls s) (reserve_request this fname (length bytes)) = Resolved r"
    and decoded: "json_result r = Inr uploadUrlResponse"
    and ok: "property uploadUrlResponse ''ok'' = Inr okv" "truthy okv"
    and url: "property uploadUrlResponse ''upload_url'' = Inr upload_url"
    and fid: "property uploadUrlResponse ''file_id'' = Inr file_id"
  shows "\<exists>s2. calls s2 = calls s @ [reserve_request this fname (length bytes)] \<and>
     uploadFile_v2 e this args s = transfer_and_finalize e this args bytes fname ftype upload_url file_id s2"
proof -
  obtain s1 where s1: "resolve_upload_input e args (Logger_debug e ''Starting v2 file upload'' s)
        = (Inr (bytes, fname, ftype), s1)" "calls s1 = calls s"
    using resolve_upload_input_state[OF input, of "Logger_debug e ''Starting v2 file upload'' s"]
    by (auto simp: calls_Logger)
  obtain s2 where s2: "getUploadURLExternal e this
        [(''filename'', fname), (''length'', JNum (int (length bytes)))] s1 = (Inr uploadUrlResponse, s2)"
      "calls s2 = calls s @ [reserve_request this fname (length bytes)]"
    using getUploadURLExternal_outcome[of e this fname "length bytes" s1] reply decoded ok(1)
    by (auto simp: s1(2))
  show ?thesis
    by (rule exI[of _ s2]) (simp add: uploadFile_v2_def s1 s2 ok url fid)
qed

text \<open>
  C1. Whenever the input resolves and the reserve request (step 1) is answered with a
  body whose \<open>ok\<close> is \<open>false\<close> (or otherwise falsy), \<open>uploadFile_v2\<close> returns that body as
  it is and the reserve request is the only request it has made: neither the transfer
  nor the finalize request is issued.
\<close>

theorem upload_v2_reserve_failure:
  assumes input: "fst (resolve_upload_input e args s) = Inr (bytes, fname, ftype)"
    and reply: "net e (calls s) (reserve_request this fname (length bytes)) = Resolved r"
    and decoded: "json_result r = Inr uploadUrlResponse"
    and ok: "property uploadUrlResponse ''ok'' = Inr okv" "\<not> truthy okv"
  shows "fst (uploadFile_v2 e this args s) = Inr uploadUrlResponse
       \<and> calls (snd (uploadFile_v2 e this args s))
           = calls s @ [reserve_request this fname (length bytes)]"
proof -
  obtain s1 where s1: "resolve_upload_input e args (Logger_debug e ''Starting v2 file upload'' s)
        = (Inr (bytes, fname, ftype), s1)" "calls s1 = calls s"
    using resolve_upload_input_state[OF input, of "Logger_debug e ''Starting v2 file upload'' s"]
    by (auto simp: calls_Logger)
  obtain s2 where s2: "getUploadURLExternal e this
        [(''filename'', fname), (''length'', JNum (int (length bytes)))] s1 = (Inr uploadUrlResponse, s2)"
      "calls s2 = calls s @ [reserve_request this fname (length bytes)]"
    using getUploadURLExternal_outcome[of e this fname "length bytes" s1] reply decoded ok(1)
    by (auto simp: s1(2))
  show ?thesis
    by (simp add: uploadFile_v2_def s1 s2 ok calls_Logger)
qed

lemma sample_inline_input:
  assumes "\<not> truthy (get others ''file_path'')"
  shows "fst (resolve_upload_input (sample_env script)
          ((''content'', JStr ''Hello, world!'') # (''filename'', JStr ''test.txt'') # others) empty_state)
     = Inr (Buffer_from_utf8 ''Hello, world!'', JStr ''test.txt'',
            or_json (get others ''filetype'') (JStr ''text/plain''))"
  using assms by (simp add: resolve_upload_input_def get_def Buffer_from_def)

theorem upload_v2_reserve_failure_witness:
  "fst (uploadFile_v2
          (sample_env [json_response 200 ''OK'' (JObj [(''ok'', JBool False), (''error'', JStr ''invalid_auth'')])])
          sample_client
          [(''content'', JStr ''Hello, world!''), (''filename'', JStr ''test.txt'')]
          empty_state)
     = Inr (JObj [(''ok'', JBool False), (''error'', JStr ''invalid_auth'')])
   \<and> calls (snd (uploadFile_v2
          (sample_env [json_response 200 ''OK'' (JObj [(''ok'', JBool False), (''error'', JStr ''invalid_auth'')])])
          sample_client
          [(''content'', JStr ''Hello, world!''), (''filename'', JStr ''test.txt'')]
          empty_state))
     = [reserve_request sample_client (JStr ''test.txt'') 13]"
proof -
  let ?body = "JObj [(''ok'', JBool False), (''error'', JStr ''invalid_auth'')]"
  let ?e = "sample_env [json_response 200 ''OK'' ?body]"
  let ?args = "[(''content'', JStr ''Hello, world!''), (''filename'', JStr ''test.txt'')]"
  let ?bytes = "Buffer_from_utf8 ''Hello, world!''"
  have len: "length ?bytes = 13"
    by (simp add: Buffer_from_utf8_def)
  have input: "fst (resolve_upload_input ?e ?args empty_state)
      = Inr (?bytes, JStr ''test.txt'', JStr ''text/plain'')"
    using sample_inline_input[of "[]"] by (simp add: get_def or_json_def)
  have reply: "net ?e (calls empty_state) (reserve_request sample_client (JStr ''test.txt'') (length ?bytes))
      = Resolved \<lparr>status = 200, statusText = ''OK'', json_result = Inr ?body\<rparr>"
    by (simp add: sample_env_def scripted_def empty_state_def json_response_def)
  have ok: "property ?body ''ok'' = Inr (JBool False)"
    by (simp add: get_def)
  show ?thesis
    using upload_v2_reserve_failure[OF input reply _ ok] len
    by (simp add: empty_state_def)
qed

text \<open>
  C2. Whenever step 1 succeeds and the transfer request (step 2) is answered with a
  status outside 200 to 299, \<open>uploadFile_v2\<close> throws an \<open>Error\<close> (it does not return a
  value), and the reserve and transfer requests are the only two requests it has made:
  the finalize request is not issued.
\<close>

theorem upload_v2_transfer_failure:
  assumes input: "fst (resolve_upload_input e args s) = Inr (bytes, fname, ftype)"
    and reply: "net e (calls s) (reserve_request this fname (length bytes)) = Resolved r"
    and decoded: "json_result r = Inr uploadUrlResponse"
    and ok: "property uploadUrlResponse ''ok'' = Inr okv" "truthy okv"
    and url: "property uploadUrlResponse ''upload_url'' = Inr upload_url"
    and transfer: "net e (calls s @ [reserve_request this fname (length bytes)])
                     (transfer_request upload_url ftype bytes) = Resolved uploadResponse"
    and failure: "\<not> response_ok uploadResponse"
  shows "fst (uploadFile_v2 e this args s)
           = Inl (JsError (''Upload failed: '' @ statusText uploadResponse))
       \<and> calls (snd (uploadFile_v2 e this args s))
           = calls s @ [reserve_request this fname (length bytes),
                        transfer_request upload_url ftype bytes]"
proof -
  obtain file_id where fid: "property uploadUrlResponse ''file_id'' = Inr file_id"
    using property_defined[OF ok(1)] by blast
  from upload_v2_after_reserve[OF input reply decoded ok url fid]
  obtain s2 where s2: "calls s2 = calls s @ [reserve_request this fname (length bytes)]"
    and up: "uploadFile_v2 e this args s
               = transfer_and_finalize e this args bytes fname ftype upload_url file_id s2"
    by blast
  have "net e (calls s2) (transfer_request upload_url ftype bytes) = Resolved uploadResponse"
    using transfer s2 by simp
  then show ?thesis
    using failure
    by (simp add: up transfer_and_finalize_def Let_def fetch_def transfer_request_def s2 calls_Logger)
qed

theorem upload_v2_transfer_failure_witness:
  "fst (uploadFile_v2
          (sample_env [json_response 200 ''OK''
                         (JObj [(''ok'', JBool True), (''upload_url'', JStr ''https://files.slack.com/upload/v1/abc''),
                                (''file_id'', JStr ''F1'')]),
                       json_response 500 ''Internal Server Error'' JNull])
          sample_client
          [(''content'', JStr ''Hello, world!''), (''filename'', JStr ''test.txt'')]
          empty_state)
     = Inl (JsError ''Upload failed: Internal Server Error'')
   \<and> calls (snd (uploadFile_v2
          (sample_env [json_response 200 ''OK''
                         (JObj [(''ok'', JBool True), (''upload_url'', JStr ''https://files.slack.com/upload/v1/abc''),
                                (''file_id'', JStr ''F1'')]),
                       json_response 500 ''Internal Server Error'' JNull])
          sample_client
          [(''content'', JStr ''Hello, world!''), (''filename'', JStr ''test.txt'')]
          empty_state))
     = [reserve_request sample_client (JStr ''test.txt'') 13,
        transfer_request (JStr ''https://files.slack.com/upload/v1/abc'') (JStr ''text/plain'')
          (Buffer_from_utf8 ''Hello, world!'')]"
proof -
  let ?body = "JObj [(''ok'', JBool True), (''upload_url'', JStr ''https://files.slack.com/upload/v1/abc''),
                                (''file_id'', JStr ''F1'')]"
  let ?e = "sample_env [json_response 200 ''OK'' ?body, json_response 500 ''Internal Server Error'' JNull]"
  let ?args = "[(''content'', JStr ''Hello, world!''), (''filename'', JStr ''test.txt'')]"
  let ?bytes = "Buffer_from_utf8 ''Hello, world!''"
  have len: "length ?bytes = 13"
    by (simp add: Buffer_from_utf8_def)
  have input: "fst (resolve_upload_input ?e ?args empty_state)
      = Inr (?bytes, JStr ''test.txt'', JStr ''text/plain'')"
    using sample_inline_input[of "[]"] by (simp add: get_def or_json_def)
  have reply: "net ?e (calls empty_state) (reserve_request sample_client (JStr ''test.txt'') (length ?bytes))
      = Resolved \<lparr>status = 200, statusText = ''OK'', json_result = Inr ?body\<rparr>"
    by (simp add: sample_env_def scripted_def empty_state_def json_response_def)
  have ok: "property ?body ''ok'' = Inr (JBool True)"
    by (simp add: get_def)
  have url: "property ?body ''upload_url'' = Inr (JStr ''https://files.slack.com/upload/v1/abc'')"
    by (simp add: get_def)
  have transfer: "net ?e (calls empty_state @ [reserve_request sample_client (JStr ''test.txt'') (length ?bytes)])
        (transfer_request (JStr ''https://files.slack.com/upload/v1/abc'') (JStr ''text/plain'') ?bytes)
      = Resolved \<lparr>status = 500, statusText = ''Internal Server Error'', json_result = Inr JNull\<rparr>"
    by (simp add: sample_env_def scripted_def empty_state_def json_response_def)
  have failure: "\<not> response_ok \<lparr>status = 500, statusText = ''Internal Server Error'', json_result = Inr JNull\<rparr>"
    by (simp add: response_ok_def)
  show ?thesis
    using upload_v2_transfer_failure[OF input reply _ ok _ url transfer failure] len
    by (simp add: empty_state_def)
qed

lemma transfer_and_finalize_calls:
  "\<exists>new. calls (snd (transfer_and_finalize e this args bytes fname ftype upload_url file_id s))
      = calls s @ transfer_request upload_url ftype bytes # new
    \<and> (new = [] \<or> new = [finalize_of e this args fname file_id])"
proof -
  let ?req = "transfer_request upload_url ftype bytes"
  let ?s1 = "s\<lparr>calls := calls s @ [?req]\<rparr>"
  obtain s' R where fin: "completeUploadExternal e this
            [(''files'', JArr [JObj [(''id'', file_id), (''title'', or_json (get args ''title'') fname)]]),
             (''channel_id'', first_channel e (get args ''channels'')),
             (''initial_comment'', get args ''initial_comment''),
             (''thread_ts'', get args ''thread_ts'')] ?s1 = (R, s')"
    and c: "calls s' = calls ?s1 @ [finalize_of e this args fname file_id]"
    using completeUploadExternal_outcome[of e this file_id "or_json (get args ''title'') fname"
        "first_channel e (get args ''channels'')" "get args ''initial_comment''" "get args ''thread_ts''" ?s1]
    unfolding finalize_of_def by blast
  show ?thesis
    using fin c
    by (cases "net e (calls s) ?req"; cases R)
       (simp_all add: transfer_and_finalize_def Let_def fetch_def transfer_request_def calls_Logger)
qed

lemma upload_v2_calls:
  assumes input: "fst (resolve_upload_input e args s) = Inr (bytes, fname, ftype)"
  shows "\<exists>new. calls (snd (uploadFile_v2 e this args s))
      = calls s @ reserve_request this fname (length bytes) # new
    \<and> (new = [] \<or> (\<exists>upload_url. new = [transfer_request upload_url ftype bytes]) \<or>
        (\<exists>upload_url file_id. new =
           [transfer_request upload_url ftype bytes, finalize_of e this args fname file_id]))"
proof -
  obtain s1 where s1: "resolve_upload_input e args (Logger_debug e ''Starting v2 file upload'' s)
        = (Inr (bytes, fname, ftype), s1)" "calls s1 = calls s"
    using resolve_upload_input_state[OF input, of "Logger_debug e ''Starting v2 file upload'' s"]
    by (auto simp: calls_Logger)
  obtain R s2 where s2: "getUploadURLExternal e this
        [(''filename'', fname), (''length'', JNum (int (length bytes)))] s1 = (R, s2)"
      "calls s2 = calls s @ [reserve_request this fname (length bytes)]"
    using getUploadURLExternal_outcome[of e this fname "length bytes" s1]
    by (auto simp: s1(2))
  show ?thesis
  proof (cases R)
    case (Inl err)
    then show ?thesis by (simp add: uploadFile_v2_def s1 s2)
  next
    case (Inr resp)
    show ?thesis
    proof (cases "property resp ''ok''")
      case (Inl err)
      then show ?thesis by (simp add: uploadFile_v2_def s1 s2 Inr)
    next
      case ok: (Inr okv)
      obtain upload_url file_id where p: "property resp ''upload_url'' = Inr upload_url"
          "property resp ''file_id'' = Inr file_id"
        using property_defined[OF ok] by blast
      show ?thesis
      proof (cases "truthy okv")
        case False
        then show ?thesis by (simp add: uploadFile_v2_def s1 s2 Inr ok calls_Logger)
      next
        case True
        then have "uploadFile_v2 e this args s
            = transfer_and_finalize e this args bytes fname ftype upload_url file_id s2"
          by (simp add: uploadFile_v2_def s1 s2 Inr ok p)
        then show ?thesis
          using transfer_and_finalize_calls[of e this args bytes fname ftype upload_url file_id s2]
          by (auto simp: s2)
      qed
    qed
  qed
qed

lemma upload_v2_no_input:
  assumes "fst (resolve_upload_input e args s) = Inl err"
  shows "fst (uploadFile_v2 e this args s) = Inl err \<and> calls (snd (uploadFile_v2 e this args s)) = calls s"
proof -
  obtain s1 where s1: "resolve_upload_input e args (Logger_debug e ''Starting v2 file upload'' s)
        = (Inl err, s1)" "calls s1 = calls s"
    using resolve_upload_input_state[OF assms, of "Logger_debug e ''Starting v2 file upload'' s"]
    by (auto simp: calls_Logger)
  show ?thesis by (simp add: uploadFile_v2_def s1)
qed

text \<open>
  A binding for \<open>channels\<close> put in front of the argument object changes no other
  field.
\<close>

lemma get_channels_front:
  "get ((''channels'', v) # args) ''channels'' = v"
  "get ((''channels'', v) # args) ''file_path'' = get args ''file_path''"
  "get ((''channels'', v) # args) ''filename'' = get args ''filename''"
  "get ((''channels'', v) # args) ''filetype'' = get args ''filetype''"
  "get ((''channels'', v) # args) ''content'' = get args ''content''"
  "get ((''channels'', v) # args) ''title'' = get args ''title''"
  "get ((''channels'', v) # args) ''initial_comment'' = get args ''initial_comment''"
  "get ((''channels'', v) # args) ''thread_ts'' = get args ''thread_ts''"
  by (simp_all add: get_def)

lemma read_upload_file_channels:
  "read_upload_file e ((''channels'', v) # args) = read_upload_file e args"
  unfolding read_upload_file_def get_channels_front by (rule refl)

lemma resolve_upload_input_channels:
  "resolve_upload_input e ((''channels'', v) # args) s = resolve_upload_input e args s"
  unfolding resolve_upload_input_def read_upload_file_channels get_channels_front by (rule refl)

lemma transfer_and_finalize_channels:
  assumes "first_channel e v = first_channel e (get args ''channels'')"
  shows "transfer_and_finalize e this ((''channels'', v) # args) bytes fname ftype upload_url file_id s
     = transfer_and_finalize e this args bytes fname ftype upload_url file_id s"
  unfolding transfer_and_finalize_def get_channels_front assms by (rule refl)

lemma upload_v2_channels_front:
  assumes "first_channel e v = first_channel e (get args ''channels'')"
  shows "uploadFile_v2 e this ((''channels'', v) # args) s = uploadFile_v2 e this args s"
  unfolding uploadFile_v2_def resolve_upload_input_channels transfer_and_finalize_channels[OF assms]
  by (rule refl)

lemma transfer_and_finalize_ok:
  assumes transfer: "net e (calls s) (transfer_request upload_url ftype bytes) = Resolved uploadResponse"
    and ok: "response_ok uploadResponse"
  shows "calls (snd (transfer_and_finalize e this args bytes fname ftype upload_url file_id s))
      = calls s @ [transfer_request upload_url ftype bytes, finalize_of e this args fname file_id]
    \<and> fst (transfer_and_finalize e this args bytes fname ftype upload_url file_id s)
      = (case net e (calls s @ [transfer_request upload_url ftype bytes])
                (finalize_of e this args fname file_id) of
               Rejected err \<Rightarrow> Inl err
             | Resolved r \<Rightarrow>
                 (case json_result r of
                    Inl err \<Rightarrow> Inl err
                  | Inr b \<Rightarrow> (case property b ''ok'' of Inl err \<Rightarrow> Inl err | Inr okv \<Rightarrow> Inr b)))"
proof -
  let ?req = "transfer_request upload_url ftype bytes"
  let ?fin = "finalize_of e this args fname file_id"
  let ?s1 = "s\<lparr>calls := calls s @ [?req]\<rparr>"
  obtain s' where fin: "completeUploadExternal e this
            [(''files'', JArr [JObj [(''id'', file_id), (''title'', or_json (get args ''title'') fname)]]),
             (''channel_id'', first_channel e (get args ''channels'')),
             (''initial_comment'', get args ''initial_comment''),
             (''thread_ts'', get args ''thread_ts'')] ?s1 =
            ((case net e (calls ?s1) ?fin of
               Rejected err \<Rightarrow> Inl err
             | Resolved r \<Rightarrow>
                 (case json_result r of
                    Inl err \<Rightarrow> Inl err
                  | Inr b \<Rightarrow> (case property b ''ok'' of Inl err \<Rightarrow> Inl err | Inr ok \<Rightarrow> Inr b))), s')"
    and c: "calls s' = calls ?s1 @ [?fin]"
    using completeUploadExternal_outcome[of e this file_id "or_json (get args ''title'') fname"
        "first_channel e (get args ''channels'')" "get args ''initial_comment''" "get args ''thread_ts''" ?s1]
    unfolding finalize_of_def by blast
  have step2: "fetch e ?req s = (Resolved uploadResponse, ?s1)"
    using transfer by (simp add: fetch_def)
  have unfolded: "transfer_and_finalize e this args bytes fname ftype upload_url file_id s =
      (case completeUploadExternal e this
            [(''files'', JArr [JObj [(''id'', file_id), (''title'', or_json (get args ''title'') fname)]]),
             (''channel_id'', first_channel e (get args ''channels'')),
             (''initial_comment'', get args ''initial_comment''),
             (''thread_ts'', get args ''thread_ts'')] ?s1 of
         (Inl err, s2) \<Rightarrow> (Inl err, Logger_error e ''Error during file upload'' s2)
       | (Inr completeResponse, s2) \<Rightarrow> (Inr completeResponse, s2))"
    using step2 ok
    by (simp add: transfer_and_finalize_def Let_def transfer_request_def)
  show ?thesis
    unfolding unfolded fin
    using c by (simp add: calls_Logger split: sum.splits)
qed

text \<open>
  C10. When \<open>channels\<close> holds more than one element and the upload reaches step 3,
  the finalize request carries the first element as \<open>channel_id\<close> and nothing of the
  others: the three requests are the reserve, the transfer and that finalize request,
  and the whole run (result, requests and log) is the one that \<open>channels\<close> cut down to
  its first element gives (a binding put in front of the argument object is the
  field's value).
\<close>

theorem upload_v2_first_channel_only:
  assumes input: "fst (resolve_upload_input e args s) = Inr (bytes, fname, ftype)"
    and reply: "net e (calls s) (reserve_request this fname (length bytes)) = Resolved r"
    and decoded: "json_result r = Inr uploadUrlResponse"
    and ok: "property uploadUrlResponse ''ok'' = Inr okv" "truthy okv"
    and url: "property uploadUrlResponse ''upload_url'' = Inr upload_url"
    and fid: "property uploadUrlResponse ''file_id'' = Inr file_id"
    and transfer: "net e (calls s @ [reserve_request this fname (length bytes)])
                     (transfer_request upload_url ftype bytes) = Resolved uploadResponse"
    and success: "response_ok uploadResponse"
    and several: "get args ''channels'' = JArr (c # d # rest)"
  shows "calls (snd (uploadFile_v2 e this args s))
           = calls s @ [reserve_request this fname (length bytes),
                        transfer_request upload_url ftype bytes,
                        finalize_request this file_id (or_json (get args ''title'') fname) c
                          (get args ''initial_comment'') (get args ''thread_ts'')]
       \<and> uploadFile_v2 e this args s = uploadFile_v2 e this ((''channels'', JArr [c]) # args) s"
proof -
  from upload_v2_after_reserve[OF input reply decoded ok url fid]
  obtain s2 where s2: "calls s2 = calls s @ [reserve_request this fname (length bytes)]"
    and up: "uploadFile_v2 e this args s
               = transfer_and_finalize e this args bytes fname ftype upload_url file_id s2"
    by blast
  have t: "net e (calls s2) (transfer_request upload_url ftype bytes) = Resolved uploadResponse"
    using transfer s2 by simp
  have first: "first_channel e (get args ''channels'') = c"
    by (simp add: several first_channel_def)
  then have "finalize_of e this args fname file_id
      = finalize_request this file_id (or_json (get args ''title'') fname) c
          (get args ''initial_comment'') (get args ''thread_ts'')"
    by (simp add: finalize_of_def)
  then have trace: "calls (snd (uploadFile_v2 e this args s))
           = calls s @ [reserve_request this fname (length bytes),
                        transfer_request upload_url ftype bytes,
                        finalize_request this file_id (or_json (get args ''title'') fname) c
                          (get args ''initial_comment'') (get args ''thread_ts'')]"
    using transfer_and_finalize_ok[OF t success, of this args fname file_id]
    by (simp add: up s2)
  have "first_channel e (JArr [c]) = c"
    by (simp add: first_channel_def)
  with first have "first_channel e (JArr [c]) = first_channel e (get args ''channels'')"
    by simp
  then have "uploadFile_v2 e this ((''channels'', JArr [c]) # args) s = uploadFile_v2 e this args s"
    by (rule upload_v2_channels_front)
  with trace show ?thesis
    by simp
qed

theorem upload_v2_first_channel_only_witness:
  "calls (snd (uploadFile_v2
          (sample_env [json_response 200 ''OK''
                         (JObj [(''ok'', JBool True), (''upload_url'', JStr ''https://files.slack.com/upload/v1/abc''),
                                (''file_id'', JStr ''F1'')]),
                       json_response 200 ''OK'' JNull,
                       json_response 200 ''OK'' (JObj [(''ok'', JBool True)])])
          sample_client
          [(''content'', JStr ''Hello, world!''), (''filename'', JStr ''test.txt''),
           (''channels'', JArr [JStr ''C111'', JStr ''C222'', JStr ''C333''])]
          empty_state))
     = [reserve_request sample_client (JStr ''test.txt'') 13,
        transfer_request (JStr ''https://files.slack.com/upload/v1/abc'') (JStr ''text/plain'')
          (Buffer_from_utf8 ''Hello, world!''),
        finalize_request sample_client (JStr ''F1'') (JStr ''test.txt'') (JStr ''C111'') JUndefined JUndefined]
   \<and> uploadFile_v2
          (sample_env [json_response 200 ''OK''
                         (JObj [(''ok'', JBool True), (''upload_url'', JStr ''https://files.slack.com/upload/v1/abc''),
                                (''file_id'', JStr ''F1'')]),
                       json_response 200 ''OK'' JNull,
                       json_response 200 ''OK'' (JObj [(''ok'', JBool True)])])
          sample_client
          [(''content'', JStr ''Hello, world!''), (''filename'', JStr ''test.txt''),
           (''channels'', JArr [JStr ''C111'', JStr ''C222'', JStr ''C333''])]
          empty_state
     = uploadFile_v2
          (sample_env [json_response 200 ''OK''
                         (JObj [(''ok'', JBool True), (''upload_url'', JStr ''https://files.slack.com/upload/v1/abc''),
                                (''file_id'', JStr ''F1'')]),
                       json_response 200 ''OK'' JNull,
                       json_response 200 ''OK'' (JObj [(''ok'', JBool True)])])
          sample_client
          [(''channels'', JArr [JStr ''C111'']),
           (''content'', JStr ''Hello, world!''), (''filename'', JStr ''test.txt''),
           (''channels'', JArr [JStr ''C111'', JStr ''C222'', JStr ''C333''])]
          empty_state"
proof -
  let ?body = "JObj [(''ok'', JBool True), (''upload_url'', JStr ''https://files.slack.com/upload/v1/abc''),
                                (''file_id'', JStr ''F1'')]"
  let ?e = "sample_env [json_response 200 ''OK'' ?body, json_response 200 ''OK'' JNull,
                        json_response 200 ''OK'' (JObj [(''ok'', JBool True)])]"
  let ?args = "[(''content'', JStr ''Hello, world!''), (''filename'', JStr ''test.txt''),
           (''channels'', JArr [JStr ''C111'', JStr ''C222'', JStr ''C333''])]"
  let ?bytes = "Buffer_from_utf8 ''Hello, world!''"
  have len: "length ?bytes = 13"
    by (simp add: Buffer_from_utf8_def)
  have input: "fst (resolve_upload_input ?e ?args empty_state)
      = Inr (?bytes, JStr ''test.txt'', JStr ''text/plain'')"
    using sample_inline_input[of "[(''channels'', JArr [JStr ''C111'', JStr ''C222'', JStr ''C333''])]"]
    by (simp add: get_def or_json_def)
  have reply: "net ?e (calls empty_state) (reserve_request sample_client (JStr ''test.txt'') (length ?bytes))
      = Resolved \<lparr>status = 200, statusText = ''OK'', json_result = Inr ?body\<rparr>"
    by (simp add: sample_env_def scripted_def empty_state_def json_response_def)
  have ok: "property ?body ''ok'' = Inr (JBool True)"
    by (simp add: get_def)
  have url: "property ?body ''upload_url'' = Inr (JStr ''https://files.slack.com/upload/v1/abc'')"
    by (simp add: get_def)
  have fid: "property ?body ''file_id'' = Inr (JStr ''F1'')"
    by (simp add: get_def)
  have transfer: "net ?e (calls empty_state @ [reserve_request sample_client (JStr ''test.txt'') (length ?bytes)])
        (transfer_request (JStr ''https://files.slack.com/upload/v1/abc'') (JStr ''text/plain'') ?bytes)
      = Resolved \<lparr>status = 200, statusText = ''OK'', json_result = Inr JNull\<rparr>"
    by (simp add: sample_env_def scripted_def empty_state_def json_response_def)
  have success: "response_ok \<lparr>status = 200, statusText = ''OK'', json_result = Inr JNull\<rparr>"
    by (simp add: response_ok_def)
  have several: "get ?args ''channels'' = JArr (JStr ''C111'' # JStr ''C222'' # [JStr ''C333''])"
    by (simp add: get_def)
  have fields: "get ?args ''title'' = JUndefined" "get ?args ''initial_comment'' = JUndefined"
    "get ?args ''thread_ts'' = JUndefined"
    by (simp_all add: get_def)
  note inst = upload_v2_first_channel_only[OF input reply _ ok _ url fid transfer success several]
  have trace: "calls (snd (uploadFile_v2 ?e sample_client ?args empty_state))
     = [reserve_request sample_client (JStr ''test.txt'') 13,
        transfer_request (JStr ''https://files.slack.com/upload/v1/abc'') (JStr ''text/plain'') ?bytes,
        finalize_request sample_client (JStr ''F1'') (JStr ''test.txt'') (JStr ''C111'') JUndefined JUndefined]"
    using inst[THEN conjunct1] len unfolding fields by (simp add: empty_state_def or_json_def)
  have same: "uploadFile_v2 ?e sample_client ?args empty_state
     = uploadFile_v2 ?e sample_client ((''channels'', JArr [JStr ''C111'']) # ?args) empty_state"
    using inst[THEN conjunct2] by simp
  from trace same show ?thesis
    by (rule conjI)
qed

lemma upload_v2_reserve_rejected:
  assumes input: "fst (resolve_upload_input e args s) = Inr (bytes, fname, ftype)"
    and reply: "net e (calls s) (reserve_request this fname (length bytes)) = Rejected err"
  shows "fst (uploadFile_v2 e this args s) = Inl err
       \<and> calls (snd (uploadFile_v2 e this args s))
           = calls s @ [reserve_request this fname (length bytes)]"
proof -
  obtain s1 where s1: "resolve_upload_input e args (Logger_debug e ''Starting v2 file upload'' s)
        = (Inr (bytes, fname, ftype), s1)" "calls s1 = calls s"
    using resolve_upload_input_state[OF input, of "Logger_debug e ''Starting v2 file upload'' s"]
    by (auto simp: calls_Logger)
  obtain s2 where s2: "getUploadURLExternal e this
        [(''filename'', fname), (''length'', JNum (int (length bytes)))] s1 = (Inl err, s2)"
      "calls s2 = calls s @ [reserve_request this fname (length bytes)]"
    using getUploadURLExternal_outcome[of e this fname "length bytes" s1] reply
    by (auto simp: s1(2))
  show ?thesis
    by (simp add: uploadFile_v2_def s1 s2)
qed

lemma resolve_missing:
  assumes "\<not> truthy (get args ''file_path'')"
    "\<not> truthy (get args ''content'') \<or> \<not> truthy (get args ''filename'')"
  shows "fst (resolve_upload_input e args s)
    = Inl (JsError ''Either file_path or both content and filename are required for file upload'')"
  using assms by (auto simp: resolve_upload_input_def)

lemma resolve_inline:
  assumes "\<not> truthy (get args ''file_path'')" "truthy (get args ''content'')"
    "truthy (get args ''filename'')" "Buffer_from e (get args ''content'') = Inr bytes"
  shows "fst (resolve_upload_input e args s)
    = Inr (bytes, get args ''filename'', or_json (get args ''filetype'') (JStr ''text/plain''))"
  using assms by (simp add: resolve_upload_input_def)

lemma resolve_file:
  assumes "get args ''file_path'' = JStr p" "p \<noteq> []" "readFile e (JStr p) = Inr bytes"
  shows "fst (resolve_upload_input e args s)
    = Inr (bytes, or_json (get args ''filename'') (JStr (basename e p)),
           or_json (get args ''filetype'') (JStr (or_else (mime_lookup e p) ''application/octet-stream'')))"
  using assms
  by (simp add: resolve_upload_input_def read_upload_file_def path_basename_def lookup_def or_json_def)

text \<open>
  The first request of an upload whose input resolves, from any state with the same
  requests behind it; and the requests of the \<open>slack_files_upload_v2\<close> tool, which are
  those of the method once the test of the \<open>case\<close> block is passed.
\<close>

lemma upload_v2_first_request:
  assumes input: "fst (resolve_upload_input e args s) = Inr (bytes, fname, ftype)"
    and same: "calls t = calls s"
  shows "\<exists>new. calls (snd (uploadFile_v2 e this args t))
      = calls s @ reserve_request this fname (length bytes) # new
    \<and> (new = [] \<or> (\<exists>upload_url more. new = transfer_request upload_url ftype bytes # more))"
proof -
  have "fst (resolve_upload_input e args t) = Inr (bytes, fname, ftype)"
    using input resolve_upload_input_fst[of e args t s] by simp
  from upload_v2_calls[OF this, of this] show ?thesis
    unfolding same by blast
qed

lemma handler_calls:
  "calls (snd (CallToolRequest_handler e this rest request s))
     = calls (snd (try_block e this rest request
         (Logger_debug e ''Tool request details''
            (Logger_info e (''Tool called: '' @ params_name request) s))))"
  by (simp add: CallToolRequest_handler_def Let_def calls_Logger split: prod.splits sum.splits)

lemma upload_v2_tool_calls:
  assumes "truthy (get args ''file_path'') \<or> truthy (get args ''content'') \<and> truthy (get args ''filename'')"
  shows "calls (snd (CallToolRequest_handler e this rest
             \<lparr>params_name = ''slack_files_upload_v2'', params_arguments = Some args\<rparr> s))
     = calls (snd (uploadFile_v2 e this args
         (Logger_debug e ''Tool request details''
            (Logger_info e (''Tool called: '' @ ''slack_files_upload_v2'') s))))"
  using assms
  by (auto simp: handler_calls try_block_def tool_switch_upload_v2 case_files_upload_v2_def)

lemma upload_v2_tool_first_request:
  assumes input: "fst (resolve_upload_input e args s) = Inr (bytes, fname, ftype)"
  shows "\<exists>new. calls (snd (CallToolRequest_handler e this rest
             \<lparr>params_name = ''slack_files_upload_v2'', params_arguments = Some args\<rparr> s))
      = calls s @ reserve_request this fname (length bytes) # new
    \<and> (new = [] \<or> (\<exists>upload_url more. new = transfer_request upload_url ftype bytes # more))"
proof -
  have valid: "truthy (get args ''file_path'') \<or> truthy (get args ''content'') \<and> truthy (get args ''filename'')"
  proof (rule ccontr)
    assume "\<not> ?thesis"
    then have "fst (resolve_upload_input e args s)
      = Inl (JsError ''Either file_path or both content and filename are required for file upload'')"
      using resolve_missing[of args e s] by blast
    with input show False by simp
  qed
  let ?t = "Logger_debug e ''Tool request details''
            (Logger_info e (''Tool called: '' @ ''slack_files_upload_v2'') s)"
  have "calls ?t = calls s" by (simp add: calls_Logger)
  from upload_v2_first_request[OF input this, of this] show ?thesis
    unfolding upload_v2_tool_calls[OF valid] .
qed

text \<open>
  C8, as amended. Fields are read as the values they are, and \<open>supplied\<close> means
  truthy. With no \<open>file_path\<close> and without \<open>content\<close> or without \<open>filename\<close>,
  \<open>uploadFile_v2\<close> throws before any request, and so does the \<open>slack_files_upload_v2\<close>
  case of the dispatcher, whose result carries the error. With no \<open>file_path\<close> and with
  inline \<open>content\<close> and \<open>filename\<close>, the first request of the method, and of the tool, is
  the reserve request for that file name and the number of bytes that \<open>Buffer.from\<close>
  gives for the content; for a string these are its UTF-8 bytes. With a string
  \<open>file_path\<close> whose file can be read, the first request declares the length of the
  bytes read and the \<open>filename\<close> argument or, without one, the base name of the path; and
  a transfer request, when one follows, carries the bytes read under the \<open>filetype\<close>
  argument or, without one, the type looked up from the path (\<open>application/octet-stream\<close>
  when the lookup fails).
\<close>

theorem upload_v2_input_resolution:
  "(\<not> truthy (get args ''file_path'')
      \<and> (\<not> truthy (get args ''content'') \<or> \<not> truthy (get args ''filename'')) \<longrightarrow>
      fst (uploadFile_v2 e this args s)
        = Inl (JsError ''Either file_path or both content and filename are required for file upload'')
      \<and> calls (snd (uploadFile_v2 e this args s)) = calls s
      \<and> fst (CallToolRequest_handler e this rest
             \<lparr>params_name = ''slack_files_upload_v2'', params_arguments = Some args\<rparr> s)
        = \<lparr>result_content =
             [TextContent (JSON_stringify
                (JObj [(''error'', JStr ''Missing required arguments: either file_path OR both content and filename''),
                       (''tool'', JStr ''slack_files_upload_v2''),
                       (''hint'', JStr error_hint)]))]\<rparr>
      \<and> calls (snd (CallToolRequest_handler e this rest
             \<lparr>params_name = ''slack_files_upload_v2'', params_arguments = Some args\<rparr> s)) = calls s)
   \<and> (\<not> truthy (get args ''file_path'') \<and> truthy (get args ''content'') \<and> truthy (get args ''filename'')
        \<and> Buffer_from e (get args ''content'') = Inr content \<longrightarrow>
      (\<exists>new. calls (snd (uploadFile_v2 e this args s))
         = calls s @ reserve_request this (get args ''filename'') (length content) # new)
      \<and> (\<exists>new. calls (snd (CallToolRequest_handler e this rest
             \<lparr>params_name = ''slack_files_upload_v2'', params_arguments = Some args\<rparr> s))
         = calls s @ reserve_request this (get args ''filename'') (length content) # new))
   \<and> (\<not> truthy (get args ''file_path'') \<and> get args ''content'' = JStr c \<and> c \<noteq> []
        \<and> truthy (get args ''filename'') \<longrightarrow>
      (\<exists>new. calls (snd (uploadFile_v2 e this args s))
         = calls s @ reserve_request this (get args ''filename'') (length (Buffer_from_utf8 c)) # new)
      \<and> length (Buffer_from_utf8 c) = length c)
   \<and> (get args ''file_path'' = JStr p \<and> p \<noteq> [] \<and> readFile e (JStr p) = Inr bytes \<longrightarrow>
      (\<exists>new. calls (snd (uploadFile_v2 e this args s))
         = calls s @ reserve_request this (or_json (get args ''filename'') (JStr (basename e p))) (length bytes) # new
        \<and> (new = [] \<or>
            (\<exists>upload_url more. new =
               transfer_request upload_url
                 (or_json (get args ''filetype'')
                    (JStr (or_else (mime_lookup e p) ''application/octet-stream'')))
                 bytes # more)))
      \<and> (\<exists>new. calls (snd (CallToolRequest_handler e this rest
             \<lparr>params_name = ''slack_files_upload_v2'', params_arguments = Some args\<rparr> s))
         = calls s @ reserve_request this (or_json (get args ''filename'') (JStr (basename e p))) (length bytes) # new))"
proof (intro conjI impI)
  assume h: "\<not> truthy (get args ''file_path'')
      \<and> (\<not> truthy (get args ''content'') \<or> \<not> truthy (get args ''filename''))"
  then have r: "fst (resolve_upload_input e args s)
    = Inl (JsError ''Either file_path or both content and filename are required for file upload'')"
    using resolve_missing[of args e s] by blast
  show "fst (uploadFile_v2 e this args s)
        = Inl (JsError ''Either file_path or both content and filename are required for file upload'')"
    using upload_v2_no_input[OF r] by simp
  show "calls (snd (uploadFile_v2 e this args s)) = calls s"
    using upload_v2_no_input[OF r] by simp
  let ?req = "\<lparr>params_name = ''slack_files_upload_v2'', params_arguments = Some args\<rparr>"
  let ?s1 = "Logger_debug e ''Tool request details''
               (Logger_info e (''Tool called: '' @ params_name ?req) s)"
  have "try_block e this rest ?req ?s1 =
      (Inl (JsError ''Missing required arguments: either file_path OR both content and filename''), ?s1)"
    using h by (auto simp: try_block_def tool_switch_upload_v2 case_files_upload_v2_def)
  from handler_error[OF this]
  show "fst (CallToolRequest_handler e this rest ?req s)
        = \<lparr>result_content =
             [TextContent (JSON_stringify
                (JObj [(''error'', JStr ''Missing required arguments: either file_path OR both content and filename''),
                       (''tool'', JStr ''slack_files_upload_v2''),
                       (''hint'', JStr error_hint)]))]\<rparr>"
    and "calls (snd (CallToolRequest_handler e this rest ?req s)) = calls s"
    by (simp_all add: calls_Logger)
next
  assume h: "\<not> truthy (get args ''file_path'') \<and> truthy (get args ''content'') \<and> truthy (get args ''filename'')
        \<and> Buffer_from e (get args ''content'') = Inr content"
  then have input: "fst (resolve_upload_input e args s)
    = Inr (content, get args ''filename'', or_json (get args ''filetype'') (JStr ''text/plain''))"
    using resolve_inline[of args e content s] by blast
  from upload_v2_calls[OF input, of this]
  show "\<exists>new. calls (snd (uploadFile_v2 e this args s))
         = calls s @ reserve_request this (get args ''filename'') (length content) # new"
    by blast
  from upload_v2_tool_first_request[OF input, of this rest]
  show "\<exists>new. calls (snd (CallToolRequest_handler e this rest
             \<lparr>params_name = ''slack_files_upload_v2'', params_arguments = Some args\<rparr> s))
         = calls s @ reserve_request this (get args ''filename'') (length content) # new"
    by blast
next
  assume h: "\<not> truthy (get args ''file_path'') \<and> get args ''content'' = JStr c \<and> c \<noteq> []
        \<and> truthy (get args ''filename'')"
  then have "Buffer_from e (get args ''content'') = Inr (Buffer_from_utf8 c)" "truthy (get args ''content'')"
    by (simp_all add: Buffer_from_def)
  with h have "fst (resolve_upload_input e args s)
    = Inr (Buffer_from_utf8 c, get args ''filename'', or_json (get args ''filetype'') (JStr ''text/plain''))"
    using resolve_inline[of args e "Buffer_from_utf8 c" s] by blast
  from upload_v2_calls[OF this, of this]
  show "\<exists>new. calls (snd (uploadFile_v2 e this args s))
         = calls s @ reserve_request this (get args ''filename'') (length (Buffer_from_utf8 c)) # new"
    by blast
  show "length (Buffer_from_utf8 c) = length c"
    by (simp add: Buffer_from_utf8_def)
next
  assume h: "get args ''file_path'' = JStr p \<and> p \<noteq> [] \<and> readFile e (JStr p) = Inr bytes"
  then have input: "fst (resolve_upload_input e args s)
    = Inr (bytes, or_json (get args ''filename'') (JStr (basename e p)),
           or_json (get args ''filetype'') (JStr (or_else (mime_lookup e p) ''application/octet-stream'')))"
    using resolve_file[of args p e bytes s] by blast
  from upload_v2_first_request[OF input refl, of this]
  show "\<exists>new. calls (snd (uploadFile_v2 e this args s))
         = calls s @ reserve_request this (or_json (get args ''filename'') (JStr (basename e p))) (length bytes) # new
        \<and> (new = [] \<or>
            (\<exists>upload_url more. new =
               transfer_request upload_url
                 (or_json (get args ''filetype'')
                    (JStr (or_else (mime_lookup e p) ''application/octet-stream'')))
                 bytes # more))"
    by blast
  from upload_v2_tool_first_request[OF input, of this rest]
  show "\<exists>new. calls (snd (CallToolRequest_handler e this rest
             \<lparr>params_name = ''slack_files_upload_v2'', params_arguments = Some args\<rparr> s))
         = calls s @ reserve_request this (or_json (get args ''filename'') (JStr (basename e p))) (length bytes) # new"
    by blast
qed

theorem upload_v2_input_resolution_witness:
  "fst (uploadFile_v2 (sample_env []) sample_client [(''filename'', JStr ''test.txt'')] empty_state)
     = Inl (JsError ''Either file_path or both content and filename are required for file upload'')
   \<and> calls (snd (uploadFile_v2 (sample_env []) sample_client [(''filename'', JStr ''test.txt'')]
        empty_state)) = []
   \<and> fst (CallToolRequest_handler (sample_env []) sample_client sample_rest
           \<lparr>params_name = ''slack_files_upload_v2'',
              params_arguments = Some [(''filename'', JStr ''test.txt'')]\<rparr> empty_state)
       = \<lparr>result_content =
             [TextContent (JSON_stringify
                (JObj [(''error'', JStr ''Missing required arguments: either file_path OR both content and filename''),
                       (''tool'', JStr ''slack_files_upload_v2''),
                       (''hint'', JStr error_hint)]))]\<rparr>
   \<and> calls (snd (CallToolRequest_handler (sample_env []) sample_client sample_rest
           \<lparr>params_name = ''slack_files_upload_v2'',
              params_arguments = Some [(''filename'', JStr ''test.txt'')]\<rparr> empty_state)) = []
   \<and> (\<exists>new. calls (snd (CallToolRequest_handler (sample_env []) sample_client sample_rest
           \<lparr>params_name = ''slack_files_upload_v2'',
              params_arguments = Some [(''content'', JArr [JNum 72, JNum 105]), (''filename'', JStr ''a.txt'')]\<rparr>
           empty_state))
         = reserve_request sample_client (JStr ''a.txt'') 2 # new)
   \<and> (\<exists>new. calls (snd (uploadFile_v2 (sample_env []) sample_client
          [(''content'', JStr ''Hello, world!''), (''filename'', JStr ''test.txt'')] empty_state))
         = reserve_request sample_client (JStr ''test.txt'') 13 # new)
   \<and> (\<exists>new. calls (snd (uploadFile_v2 (sample_env []) sample_client
          [(''file_path'', JStr ''/tmp/report.pdf'')] empty_state))
         = reserve_request sample_client (JStr ''report.pdf'') 3 # new
        \<and> (new = [] \<or> (\<exists>upload_url more. new =
              transfer_request upload_url (JStr ''application/pdf'') [37, 80, 68] # more)))"
proof -
  let ?e = "sample_env []"
  let ?missing = "[(''filename'', JStr ''test.txt'')]"
  let ?array = "[(''content'', JArr [JNum 72, JNum 105]), (''filename'', JStr ''a.txt'')]"
  let ?inline = "[(''content'', JStr ''Hello, world!''), (''filename'', JStr ''test.txt'')]"
  let ?path = "[(''file_path'', JStr ''/tmp/report.pdf'')]"
  note missing = upload_v2_input_resolution[where args = ?missing and e = ?e and this = sample_client
      and s = empty_state and rest = sample_rest and content = "[]" and c = "''x''" and p = "''x''"
      and bytes = "[]"]
  note from_array = upload_v2_input_resolution[where args = ?array and e = ?e and this = sample_client
      and s = empty_state and rest = sample_rest and content = "[72, 105]" and c = "''x''" and p = "''x''"
      and bytes = "[]"]
  note inline = upload_v2_input_resolution[where args = ?inline and e = ?e and this = sample_client
      and s = empty_state and rest = sample_rest and content = "[]" and c = "''Hello, world!''"
      and p = "''x''" and bytes = "[]"]
  note from_file = upload_v2_input_resolution[where args = ?path and e = ?e and this = sample_client
      and s = empty_state and rest = sample_rest and content = "[]" and c = "''x''"
      and p = "''/tmp/report.pdf''" and bytes = "[37, 80, 68]"]
  have p1: "fst (uploadFile_v2 ?e sample_client ?missing empty_state)
     = Inl (JsError ''Either file_path or both content and filename are required for file upload'')
   \<and> calls (snd (uploadFile_v2 ?e sample_client ?missing empty_state)) = []
   \<and> fst (CallToolRequest_handler ?e sample_client sample_rest
           \<lparr>params_name = ''slack_files_upload_v2'', params_arguments = Some ?missing\<rparr> empty_state)
       = \<lparr>result_content =
             [TextContent (JSON_stringify
                (JObj [(''error'', JStr ''Missing required arguments: either file_path OR both content and filename''),
                       (''tool'', JStr ''slack_files_upload_v2''),
                       (''hint'', JStr error_hint)]))]\<rparr>
   \<and> calls (snd (CallToolRequest_handler ?e sample_client sample_rest
           \<lparr>params_name = ''slack_files_upload_v2'', params_arguments = Some ?missing\<rparr> empty_state)) = []"
    using missing[THEN conjunct1] by (simp add: get_def empty_state_def)
  have p2: "\<exists>new. calls (snd (CallToolRequest_handler ?e sample_client sample_rest
           \<lparr>params_name = ''slack_files_upload_v2'', params_arguments = Some ?array\<rparr> empty_state))
         = reserve_request sample_client (JStr ''a.txt'') 2 # new"
  proof -
    have buffer: "Buffer_from ?e (get ?array ''content'') = Inr [72, 105]"
      by (simp add: Buffer_from_def get_def sample_env_def)
    have fields: "\<not> truthy (get ?array ''file_path'')" "truthy (get ?array ''content'')"
      "truthy (get ?array ''filename'')" "get ?array ''filename'' = JStr ''a.txt''"
      by (simp_all add: get_def)
    have len: "length [72, 105 :: byte] = 2"
      by simp
    show ?thesis
      using from_array[THEN conjunct2, THEN conjunct1] buffer fields
      unfolding len by (simp add: empty_state_def)
  qed
  have p3: "\<exists>new. calls (snd (uploadFile_v2 ?e sample_client ?inline empty_state))
         = reserve_request sample_client (JStr ''test.txt'') 13 # new"
  proof -
    have len: "length (Buffer_from_utf8 ''Hello, world!'') = 13"
      by (simp add: Buffer_from_utf8_def)
    have fields: "\<not> truthy (get ?inline ''file_path'')" "get ?inline ''content'' = JStr ''Hello, world!''"
      "truthy (get ?inline ''filename'')" "get ?inline ''filename'' = JStr ''test.txt''"
      by (simp_all add: get_def)
    show ?thesis
      using inline[THEN conjunct2, THEN conjunct2, THEN conjunct1] fields
      unfolding len by (simp add: empty_state_def)
  qed
  have p4: "\<exists>new. calls (snd (uploadFile_v2 ?e sample_client ?path empty_state))
         = reserve_request sample_client (JStr ''report.pdf'') 3 # new
        \<and> (new = [] \<or> (\<exists>upload_url more. new =
              transfer_request upload_url (JStr ''application/pdf'') [37, 80, 68] # more))"
  proof -
    have fields: "get ?path ''file_path'' = JStr ''/tmp/report.pdf''"
      "get ?path ''filename'' = JUndefined" "get ?path ''filetype'' = JUndefined"
      by (simp_all add: get_def)
    have readable: "readFile ?e (JStr ''/tmp/report.pdf'') = Inr [37, 80, 68]"
      and base: "basename ?e ''/tmp/report.pdf'' = ''report.pdf''"
      and mime: "mime_lookup ?e ''/tmp/report.pdf'' = Some ''application/pdf''"
      by (simp_all add: sample_env_def)
    have len: "length [37, 80, 68 :: byte] = 3"
      by simp
    from from_file[THEN conjunct2, THEN conjunct2, THEN conjunct2] fields(1) readable
    have "(\<exists>new. calls (snd (uploadFile_v2 ?e sample_client ?path empty_state))
         = calls empty_state @ reserve_request sample_client
             (or_json (get ?path ''filename'') (JStr (basename ?e ''/tmp/report.pdf''))) (length [37, 80, 68 :: byte]) # new
        \<and> (new = [] \<or>
            (\<exists>upload_url more. new =
               transfer_request upload_url
                 (or_json (get ?path ''filetype'')
                    (JStr (or_else (mime_lookup ?e ''/tmp/report.pdf'') ''application/octet-stream'')))
                 [37, 80, 68] # more)))"
      by simp
    then show ?thesis
      unfolding fields base mime len by (simp add: or_json_def empty_state_def)
  qed
  from p1 p2 p3 p4 show ?thesis
    by blast
qed

text \<open>
  The claim as stated fails where both are supplied: the file is read, and the declared
  length is that of the file (3 bytes), not that of the inline content (13 bytes).
\<close>

theorem upload_v2_inline_length_counterexample:
  "get [(''file_path'', JStr ''/tmp/report.pdf''), (''content'', JStr ''Hello, world!''),
        (''filename'', JStr ''notes.txt'')] ''content'' = JStr ''Hello, world!''
   \<and> length (Buffer_from_utf8 ''Hello, world!'') = 13
   \<and> calls (snd (uploadFile_v2 (sample_env []) sample_client
          [(''file_path'', JStr ''/tmp/report.pdf''), (''content'', JStr ''Hello, world!''),
           (''filename'', JStr ''notes.txt'')]
          empty_state))
     = [reserve_request sample_client (JStr ''notes.txt'') 3]"
proof -
  let ?args = "[(''file_path'', JStr ''/tmp/report.pdf''), (''content'', JStr ''Hello, world!''),
           (''filename'', JStr ''notes.txt'')]"
  let ?e = "sample_env []"
  have fields: "get ?args ''file_path'' = JStr ''/tmp/report.pdf''"
    "get ?args ''filename'' = JStr ''notes.txt''" "get ?args ''filetype'' = JUndefined"
    "get ?args ''content'' = JStr ''Hello, world!''"
    by (simp_all add: get_def)
  have readable: "readFile ?e (JStr ''/tmp/report.pdf'') = Inr [37, 80, 68]"
    and mime: "mime_lookup ?e ''/tmp/report.pdf'' = Some ''application/pdf''"
    by (simp_all add: sample_env_def)
  have input: "fst (resolve_upload_input ?e ?args empty_state)
      = Inr ([37, 80, 68], JStr ''notes.txt'', JStr ''application/pdf'')"
    using resolve_file[OF fields(1) _ readable, of empty_state]
    unfolding fields mime by (simp add: or_json_def)
  have reply: "net ?e (calls empty_state)
        (reserve_request sample_client (JStr ''notes.txt'') (length [37, 80, 68 :: byte]))
      = Rejected (JsError ''fetch failed'')"
    by (simp add: sample_env_def scripted_def)
  have len: "length [37, 80, 68 :: byte] = 3"
    by simp
  from upload_v2_reserve_rejected[OF input reply]
  have "calls (snd (uploadFile_v2 ?e sample_client ?args empty_state))
      = [reserve_request sample_client (JStr ''notes.txt'') 3]"
    unfolding len by (simp add: empty_state_def)
  then show ?thesis
    using fields(4) by (simp add: Buffer_from_utf8_def)
qed

text \<open>
  The complete upload: when step 1 answers with a truthy \<open>ok\<close>, step 2 with a status
  from 200 to 299 and step 3 with a decoded object, \<open>uploadFile_v2\<close> returns the step-3
  body as it is (whether its \<open>ok\<close> is true or false) and has made exactly the reserve,
  transfer and finalize requests, in this order.
\<close>

theorem upload_v2_success:
  assumes input: "fst (resolve_upload_input e args s) = Inr (bytes, fname, ftype)"
    and reply: "net e (calls s) (reserve_request this fname (length bytes)) = Resolved r"
    and decoded: "json_result r = Inr uploadUrlResponse"
    and ok: "property uploadUrlResponse ''ok'' = Inr okv" "truthy okv"
    and url: "property uploadUrlResponse ''upload_url'' = Inr upload_url"
    and fid: "property uploadUrlResponse ''file_id'' = Inr file_id"
    and transfer: "net e (calls s @ [reserve_request this fname (length bytes)])
                     (transfer_request upload_url ftype bytes) = Resolved uploadResponse"
    and success: "response_ok uploadResponse"
    and final: "net e (calls s @ [reserve_request this fname (length bytes),
                                   transfer_request upload_url ftype bytes])
                  (finalize_of e this args fname file_id) = Resolved r3"
    and body3: "json_result r3 = Inr completeResponse" "property completeResponse ''ok'' = Inr okv3"
  shows "fst (uploadFile_v2 e this args s) = Inr completeResponse
       \<and> calls (snd (uploadFile_v2 e this args s))
           = calls s @ [reserve_request this fname (length bytes),
                        transfer_request upload_url ftype bytes,
                        finalize_of e this args fname file_id]"
proof -
  from upload_v2_after_reserve[OF input reply decoded ok url fid]
  obtain s2 where s2: "calls s2 = calls s @ [reserve_request this fname (length bytes)]"
    and up: "uploadFile_v2 e this args s
               = transfer_and_finalize e this args bytes fname ftype upload_url file_id s2"
    by blast
  have t: "net e (calls s2) (transfer_request upload_url ftype bytes) = Resolved uploadResponse"
    using transfer s2 by simp
  show ?thesis
    using transfer_and_finalize_ok[OF t success, of this args fname file_id] final body3
    by (simp add: up s2)
qed

theorem upload_v2_success_witness:
  "fst (uploadFile_v2
          (sample_env [json_response 200 ''OK''
                         (JObj [(''ok'', JBool True), (''upload_url'', JStr ''U''), (''file_id'', JStr ''F1'')]),
                       json_response 200 ''OK'' JNull,
                       json_response 200 ''OK''
                         (JObj [(''ok'', JBool True), (''files'', JArr [JObj [(''id'', JStr ''F1'')]])])])
          sample_client
          [(''content'', JStr ''Hello, world!''), (''filename'', JStr ''test.txt'')]
          empty_state)
     = Inr (JObj [(''ok'', JBool True), (''files'', JArr [JObj [(''id'', JStr ''F1'')]])])
   \<and> calls (snd (uploadFile_v2
          (sample_env [json_response 200 ''OK''
                         (JObj [(''ok'', JBool True), (''upload_url'', JStr ''U''), (''file_id'', JStr ''F1'')]),
                       json_response 200 ''OK'' JNull,
                       json_response 200 ''OK''
                         (JObj [(''ok'', JBool True), (''files'', JArr [JObj [(''id'', JStr ''F1'')]])])])
          sample_client
          [(''content'', JStr ''Hello, world!''), (''filename'', JStr ''test.txt'')]
          empty_state))
     = [reserve_request sample_client (JStr ''test.txt'') 13,
        transfer_request (JStr ''U'') (JStr ''text/plain'') (Buffer_from_utf8 ''Hello, world!''),
        finalize_request sample_client (JStr ''F1'') (JStr ''test.txt'') JUndefined JUndefined JUndefined]"
proof -
  let ?b1 = "JObj [(''ok'', JBool True), (''upload_url'', JStr ''U''), (''file_id'', JStr ''F1'')]"
  let ?b3 = "JObj [(''ok'', JBool True), (''files'', JArr [JObj [(''id'', JStr ''F1'')]])]"
  let ?e = "sample_env [json_response 200 ''OK'' ?b1, json_response 200 ''OK'' JNull,
                        json_response 200 ''OK'' ?b3]"
  let ?args = "[(''content'', JStr ''Hello, world!''), (''filename'', JStr ''test.txt'')]"
  let ?bytes = "Buffer_from_utf8 ''Hello, world!''"
  have len: "length ?bytes = 13"
    by (simp add: Buffer_from_utf8_def)
  have input: "fst (resolve_upload_input ?e ?args empty_state)
      = Inr (?bytes, JStr ''test.txt'', JStr ''text/plain'')"
    using sample_inline_input[of "[]"] by (simp add: get_def or_json_def)
  have reply: "net ?e (calls empty_state) (reserve_request sample_client (JStr ''test.txt'') (length ?bytes))
      = Resolved \<lparr>status = 200, statusText = ''OK'', json_result = Inr ?b1\<rparr>"
    by (simp add: sample_env_def scripted_def empty_state_def json_response_def)
  have ok: "property ?b1 ''ok'' = Inr (JBool True)"
    and url: "property ?b1 ''upload_url'' = Inr (JStr ''U'')"
    and fid: "property ?b1 ''file_id'' = Inr (JStr ''F1'')"
    by (simp_all add: get_def)
  have transfer: "net ?e (calls empty_state @ [reserve_request sample_client (JStr ''test.txt'') (length ?bytes)])
        (transfer_request (JStr ''U'') (JStr ''text/plain'') ?bytes)
      = Resolved \<lparr>status = 200, statusText = ''OK'', json_result = Inr JNull\<rparr>"
    by (simp add: sample_env_def scripted_def empty_state_def json_response_def)
  have success: "response_ok \<lparr>status = 200, statusText = ''OK'', json_result = Inr JNull\<rparr>"
    by (simp add: response_ok_def)
  have fin: "finalize_of ?e sample_client ?args (JStr ''test.txt'') (JStr ''F1'')
      = finalize_request sample_client (JStr ''F1'') (JStr ''test.txt'') JUndefined JUndefined JUndefined"
    by (simp add: finalize_of_def get_def or_json_def first_channel_def)
  have final: "net ?e (calls empty_state @ [reserve_request sample_client (JStr ''test.txt'') (length ?bytes),
                                   transfer_request (JStr ''U'') (JStr ''text/plain'') ?bytes])
                  (finalize_of ?e sample_client ?args (JStr ''test.txt'') (JStr ''F1''))
      = Resolved \<lparr>status = 200, statusText = ''OK'', json_result = Inr ?b3\<rparr>"
    by (simp add: sample_env_def scripted_def empty_state_def json_response_def)
  have ok3: "property ?b3 ''ok'' = Inr (JBool True)"
    by (simp add: get_def)
  show ?thesis
    using upload_v2_success[OF input reply _ ok _ url fid transfer success final _ ok3] len
    unfolding fin by (simp add: empty_state_def)
qed

section \<open>Credential selection\<close>

lemma upload_v2_complete_calls:
  assumes input: "fst (resolve_upload_input e args s) = Inr (bytes, fname, ftype)"
    and same: "calls t = calls s"
    and reply: "net e (calls s) (reserve_request this fname (length bytes)) = Resolved r"
    and decoded: "json_result r = Inr uploadUrlResponse"
    and ok: "property uploadUrlResponse ''ok'' = Inr okv" "truthy okv"
    and url: "property uploadUrlResponse ''upload_url'' = Inr upload_url"
    and fid: "property uploadUrlResponse ''file_id'' = Inr file_id"
    and transfer: "net e (calls s @ [reserve_request this fname (length bytes)])
                     (transfer_request upload_url ftype bytes) = Resolved uploadResponse"
    and success: "response_ok uploadResponse"
  shows "calls (snd (uploadFile_v2 e this args t))
           = calls s @ [reserve_request this fname (length bytes),
                        transfer_request upload_url ftype bytes,
                        finalize_of e this args fname file_id]"
proof -
  have input': "fst (resolve_upload_input e args t) = Inr (bytes, fname, ftype)"
    using input resolve_upload_input_fst[of e args t s] by simp
  have reply': "net e (calls t) (reserve_request this fname (length bytes)) = Resolved r"
    using reply same by simp
  from upload_v2_after_reserve[OF input' reply' decoded ok url fid]
  obtain s2 where s2: "calls s2 = calls s @ [reserve_request this fname (length bytes)]"
    and up: "uploadFile_v2 e this args t
               = transfer_and_finalize e this args bytes fname ftype upload_url file_id s2"
    unfolding same by blast
  have "net e (calls s2) (transfer_request upload_url ftype bytes) = Resolved uploadResponse"
    using transfer s2 by simp
  from transfer_and_finalize_ok[OF this success, of this args fname file_id] show ?thesis
    by (simp add: up s2)
qed

lemma upload_v2_issued:
  "issued s (snd (uploadFile_v2 e this args s)) = [] \<or>
   (\<exists>fname n. issued s (snd (uploadFile_v2 e this args s)) = [reserve_request this fname n]) \<or>
   (\<exists>fname n u ftype bytes. issued s (snd (uploadFile_v2 e this args s))
        = [reserve_request this fname n, transfer_request u ftype bytes]) \<or>
   (\<exists>fname n u ftype bytes fid ttl ch co th. issued s (snd (uploadFile_v2 e this args s))
        = [reserve_request this fname n, transfer_request u ftype bytes,
           finalize_request this fid ttl ch co th])"
proof (cases "fst (resolve_upload_input e args s)")
  case (Inl err)
  from upload_v2_no_input[OF this, of this] show ?thesis
    by (simp add: issued_def)
next
  case (Inr t)
  obtain bytes fname ftype where "t = (bytes, fname, ftype)"
    by (cases t) auto
  with Inr have "fst (resolve_upload_input e args s) = Inr (bytes, fname, ftype)" by simp
  from upload_v2_calls[OF this, of this]
  obtain new where c: "calls (snd (uploadFile_v2 e this args s))
       = calls s @ reserve_request this fname (length bytes) # new"
    and n: "new = [] \<or> (\<exists>upload_url. new = [transfer_request upload_url ftype bytes]) \<or>
        (\<exists>upload_url file_id. new =
           [transfer_request upload_url ftype bytes, finalize_of e this args fname file_id])"
    by blast
  have i: "issued s (snd (uploadFile_v2 e this args s)) = reserve_request this fname (length bytes) # new"
    using c by (simp add: issued_def)
  from n show ?thesis
    unfolding i finalize_of_def by blast
qed

lemma issued_same: "issued s s = []"
  by (simp add: issued_def)

lemma issued_cong: "calls s = calls t \<Longrightarrow> calls x = calls y \<Longrightarrow> issued s x = issued t y"
  by (simp add: issued_def)

lemma gateway_user_token_from:
  assumes "json_or_none options" "init_headers options = None" "calls t = calls s"
  shows "map authorization
           (issued s (snd (makeApiRequest e (new_SlackClient e botToken) url options True t)))
         = [Some (user_bearer e)]"
proof -
  have "issued s (snd (makeApiRequest e (new_SlackClient e botToken) url options True t))
      = issued t (snd (makeApiRequest e (new_SlackClient e botToken) url options True t))"
    using assms(3) by (simp add: issued_def)
  then show ?thesis
    using gateway_user_token[OF assms(1,2), of t e botToken url] by simp
qed

text \<open>
  The requests of the eight methods, from any state with the same requests behind it.
  A search or a listing whose parameters cannot be converted to strings throws before
  the gateway is reached.
\<close>

lemma methods_user_token:
  assumes "calls t = calls s"
  shows "map authorization (issued s (snd (deleteFile e (new_SlackClient e botToken) a t)))
           = [Some (user_bearer e)]"
    "map authorization (issued s (snd (getUploadURLExternal e (new_SlackClient e botToken) a t)))
           = [Some (user_bearer e)]"
    "map authorization (issued s (snd (completeUploadExternal e (new_SlackClient e botToken) a t)))
           = [Some (user_bearer e)]"
    "map authorization (issued s (snd (addReminder e (new_SlackClient e botToken) a t)))
           = [Some (user_bearer e)]"
    "map authorization (issued s (snd (deleteReminder e (new_SlackClient e botToken) a t)))
           = [Some (user_bearer e)]"
  using assms
  by (simp_all add: deleteFile_def getUploadURLExternal_def completeUploadExternal_def
      addReminder_def deleteReminder_def gateway_user_token_from json_or_none_json_init
      json_init_headers calls_Logger)

lemma search_user_token:
  assumes "calls t = calls s"
  shows "map authorization (issued s (snd (searchMessages e (new_SlackClient e botToken) a t)))
           = (case search_params e a of Inl err \<Rightarrow> [] | Inr params \<Rightarrow> [Some (user_bearer e)])"
    "map authorization (issued s (snd (searchFiles e (new_SlackClient e botToken) a t)))
           = (case search_params e a of Inl err \<Rightarrow> [] | Inr params \<Rightarrow> [Some (user_bearer e)])"
    "map authorization (issued s (snd (listReminders e (new_SlackClient e botToken) a t)))
           = (case append_if e (Inr []) ''user'' (get a ''user'') of
                Inl err \<Rightarrow> [] | Inr params \<Rightarrow> [Some (user_bearer e)])"
proof -
  have logged: "calls (Logger_debug e m t) = calls s" for m
    using assms by (simp add: calls_Logger)
  have none: "issued s (Logger_debug e m t) = []" for m
    using assms by (simp add: issued_def calls_Logger)
  note one = gateway_user_token_from[OF json_or_none_get_init get_init_headers logged]
  show "map authorization (issued s (snd (searchMessages e (new_SlackClient e botToken) a t)))
           = (case search_params e a of Inl err \<Rightarrow> [] | Inr params \<Rightarrow> [Some (user_bearer e)])"
    by (cases "search_params e a") (simp_all add: searchMessages_def Let_def none one)
  show "map authorization (issued s (snd (searchFiles e (new_SlackClient e botToken) a t)))
           = (case search_params e a of Inl err \<Rightarrow> [] | Inr params \<Rightarrow> [Some (user_bearer e)])"
    by (cases "search_params e a") (simp_all add: searchFiles_def Let_def none one)
  show "map authorization (issued s (snd (listReminders e (new_SlackClient e botToken) a t)))
           = (case append_if e (Inr []) ''user'' (get a ''user'') of
                Inl err \<Rightarrow> [] | Inr params \<Rightarrow> [Some (user_bearer e)])"
    by (cases "append_if e (Inr []) ''user'' (get a ''user'')")
       (simp_all add: listReminders_def Let_def none one)
qed

lemma reminders_add_user_token:
  assumes "calls t = calls s"
  shows "map authorization (issued s (snd (case_reminders_add e (new_SlackClient e botToken) a t)))
           = (if reminder_accepted e a then [Some (user_bearer e)] else [])"
proof -
  let ?cl = "new_SlackClient e botToken"
  have base: "issued s t = []"
    using assms by (simp add: issued_def)
  have after: "map authorization (issued s (snd (case addReminder e ?cl a t' of
                 (Inl err, s2) \<Rightarrow> (Inl err, s2)
               | (Inr response, s2) \<Rightarrow>
                   (case property response ''ok'' of
                      Inl err \<Rightarrow> (Inl err, s2)
                    | Inr ok \<Rightarrow>
                        if \<not> truthy ok
                        then (Inr (reminder_hint response), Logger_error e ''Failed to add reminder'' s2)
                        else (Inr response, s2))))) = [Some (user_bearer e)]" if "calls t' = calls s" for t'
  proof -
    obtain R s2 where r: "addReminder e ?cl a t' = (R, s2)"
      by (cases "addReminder e ?cl a t'")
    with methods_user_token(4)[OF that, of e botToken a]
    have u: "map authorization (issued s s2) = [Some (user_bearer e)]" by simp
    have "issued s (Logger_error e ''Failed to add reminder'' s2) = issued s s2"
      by (simp add: issued_def calls_Logger)
    with u show ?thesis
      by (simp add: r split: sum.splits)
  qed
  define s1 where "s1 = (case get a ''time'' of
                        JNum n \<Rightarrow>
                          (if n * 1000 < int (Date_now e)
                           then Logger_warn e ''Reminder time appears to be in the past'' t else t)
                      | other \<Rightarrow> t)"
  have c1: "calls s1 = calls s"
    using assms by (simp add: s1_def calls_Logger split: json.splits)
  have unfolded: "case_reminders_add e ?cl a t =
     (if \<not> truthy (get a ''text'') \<or> get a ''time'' = JUndefined \<or> get a ''time'' = JNull then
           (Inl (JsError ''Missing required arguments: text and time''), t)
      else if (case get a ''time'' of JStr t \<Rightarrow> String_trim e t = [] | other \<Rightarrow> False) then
           (Inl (JsError ''Time cannot be an empty string''), t)
      else (case addReminder e ?cl a s1 of
                 (Inl err, s2) \<Rightarrow> (Inl err, s2)
               | (Inr response, s2) \<Rightarrow>
                   (case property response ''ok'' of
                      Inl err \<Rightarrow> (Inl err, s2)
                    | Inr ok \<Rightarrow>
                        if \<not> truthy ok
                        then (Inr (reminder_hint response), Logger_error e ''Failed to add reminder'' s2)
                        else (Inr response, s2))))"
    unfolding case_reminders_add_def Let_def s1_def by (rule refl)
  show ?thesis
    unfolding unfolded reminder_accepted_def
    using base after[OF c1] by (simp del: split_paired_All)
qed

text \<open>
  What each of the eight tools issues, by the outcome of the test in its \<open>case\<close>
  block, from any state with the same requests behind it.
\<close>

lemma switch_user_token:
  assumes "calls t = calls s"
  shows "map authorization (issued s (snd (tool_switch e (new_SlackClient e botToken) rest
             ''slack_files_delete'' a t)))
           = (if truthy (get a ''file'') then [Some (user_bearer e)] else [])"
    "map authorization (issued s (snd (tool_switch e (new_SlackClient e botToken) rest
             ''slack_files_getUploadURLExternal'' a t)))
           = (if truthy (get a ''filename'') \<and> get a ''length'' \<noteq> JUndefined \<and> get a ''length'' \<noteq> JNull
              then [Some (user_bearer e)] else [])"
    "map authorization (issued s (snd (tool_switch e (new_SlackClient e botToken) rest
             ''slack_files_completeUploadExternal'' a t)))
           = (if (case get a ''files'' of JArr xs \<Rightarrow> xs \<noteq> [] | other \<Rightarrow> False)
              then [Some (user_bearer e)] else [])"
    "map authorization (issued s (snd (tool_switch e (new_SlackClient e botToken) rest
             ''slack_search_messages'' a t)))
           = (if truthy (get a ''query'')
              then (case search_params e a of Inl err \<Rightarrow> [] | Inr params \<Rightarrow> [Some (user_bearer e)])
              else [])"
    "map authorization (issued s (snd (tool_switch e (new_SlackClient e botToken) rest
             ''slack_search_files'' a t)))
           = (if truthy (get a ''query'')
              then (case search_params e a of Inl err \<Rightarrow> [] | Inr params \<Rightarrow> [Some (user_bearer e)])
              else [])"
    "map authorization (issued s (snd (tool_switch e (new_SlackClient e botToken) rest
             ''slack_reminders_add'' a t)))
           = (if reminder_accepted e a then [Some (user_bearer e)] else [])"
    "map authorization (issued s (snd (tool_switch e (new_SlackClient e botToken) rest
             ''slack_reminders_list'' a t)))
           = (case append_if e (Inr []) ''user'' (get a ''user'') of
                Inl err \<Rightarrow> [] | Inr params \<Rightarrow> [Some (user_bearer e)])"
    "map authorization (issued s (snd (tool_switch e (new_SlackClient e botToken) rest
             ''slack_reminders_delete'' a t)))
           = (if truthy (get a ''reminder'') then [Some (user_bearer e)] else [])"
proof -
  have base: "issued s t = []"
    using assms by (simp add: issued_def)
  show "map authorization (issued s (snd (tool_switch e (new_SlackClient e botToken) rest
             ''slack_files_delete'' a t)))
           = (if truthy (get a ''file'') then [Some (user_bearer e)] else [])"
    using base methods_user_token(1)[OF assms]
    by (simp add: tool_switch_def case_files_delete_def)
  show "map authorization (issued s (snd (tool_switch e (new_SlackClient e botToken) rest
             ''slack_files_getUploadURLExternal'' a t)))
           = (if truthy (get a ''filename'') \<and> get a ''length'' \<noteq> JUndefined \<and> get a ''length'' \<noteq> JNull
              then [Some (user_bearer e)] else [])"
    using base methods_user_token(2)[OF assms]
    by (simp add: tool_switch_def case_files_getUploadURLExternal_def)
  show "map authorization (issued s (snd (tool_switch e (new_SlackClient e botToken) rest
             ''slack_files_completeUploadExternal'' a t)))
           = (if (case get a ''files'' of JArr xs \<Rightarrow> xs \<noteq> [] | other \<Rightarrow> False)
              then [Some (user_bearer e)] else [])"
    using base methods_user_token(3)[OF assms]
    by (cases "get a ''files''") (simp_all add: tool_switch_def case_files_completeUploadExternal_def)
  show "map authorization (issued s (snd (tool_switch e (new_SlackClient e botToken) rest
             ''slack_search_messages'' a t)))
           = (if truthy (get a ''query'')
              then (case search_params e a of Inl err \<Rightarrow> [] | Inr params \<Rightarrow> [Some (user_bearer e)])
              else [])"
    using base search_user_token(1)[OF assms]
    by (simp add: tool_switch_def case_search_messages_def)
  show "map authorization (issued s (snd (tool_switch e (new_SlackClient e botToken) rest
             ''slack_search_files'' a t)))
           = (if truthy (get a ''query'')
              then (case search_params e a of Inl err \<Rightarrow> [] | Inr params \<Rightarrow> [Some (user_bearer e)])
              else [])"
    using base search_user_token(2)[OF assms]
    by (simp add: tool_switch_def case_search_files_def)
  show "map authorization (issued s (snd (tool_switch e (new_SlackClient e botToken) rest
             ''slack_reminders_add'' a t)))
           = (if reminder_accepted e a then [Some (user_bearer e)] else [])"
    using reminders_add_user_token[OF assms]
    by (simp add: tool_switch_def)
  show "map authorization (issued s (snd (tool_switch e (new_SlackClient e botToken) rest
             ''slack_reminders_list'' a t)))
           = (case append_if e (Inr []) ''user'' (get a ''user'') of
                Inl err \<Rightarrow> [] | Inr params \<Rightarrow> [Some (user_bearer e)])"
    using search_user_token(3)[OF assms]
    by (simp add: tool_switch_def case_reminders_list_def)
  show "map authorization (issued s (snd (tool_switch e (new_SlackClient e botToken) rest
             ''slack_reminders_delete'' a t)))
           = (if truthy (get a ''reminder'') then [Some (user_bearer e)] else [])"
    using base methods_user_token(5)[OF assms]
    by (simp add: tool_switch_def case_reminders_delete_def)
qed

lemma handler_issued:
  "issued s (snd (CallToolRequest_handler e this rest
       \<lparr>params_name = name, params_arguments = Some a\<rparr> s))
     = issued s (snd (tool_switch e this rest name a
         (Logger_debug e ''Tool request details'' (Logger_info e (''Tool called: '' @ name) s))))"
  using handler_calls[of e this rest "\<lparr>params_name = name, params_arguments = Some a\<rparr>" s]
  by (simp add: issued_def try_block_def)

lemma handler_issued_none:
  "issued s (snd (CallToolRequest_handler e this rest
       \<lparr>params_name = name, params_arguments = None\<rparr> s)) = []"
  using handler_calls[of e this rest "\<lparr>params_name = name, params_arguments = None\<rparr>" s]
  by (simp add: issued_def try_block_def calls_Logger)

lemma entered_calls:
  "calls (Logger_debug e ''Tool request details'' (Logger_info e (''Tool called: '' @ name) s)) = calls s"
  by (simp add: calls_Logger)

lemma user_only_switch:
  assumes "name \<in> set elevated_tools" "calls t = calls s"
  shows "user_only e (issued s (snd (tool_switch e (new_SlackClient e botToken) rest name a t)))"
proof -
  let ?cl = "new_SlackClient e botToken"
  let ?P = "\<lambda>n. user_only e (issued s (snd (tool_switch e ?cl rest n a t)))"
  note t = switch_user_token[OF assms(2), of e botToken rest a]
  have 1: "?P ''slack_files_delete''"
    unfolding user_only_def t(1) by auto
  have 2: "?P ''slack_files_getUploadURLExternal''"
    unfolding user_only_def t(2) by auto
  have 3: "?P ''slack_files_completeUploadExternal''"
    unfolding user_only_def t(3) by auto
  have 4: "?P ''slack_search_messages''"
    unfolding user_only_def t(4)
    by (cases "search_params e a"; cases "truthy (get a ''query'')") simp_all
  have 5: "?P ''slack_search_files''"
    unfolding user_only_def t(5)
    by (cases "search_params e a"; cases "truthy (get a ''query'')") simp_all
  have 6: "?P ''slack_reminders_add''"
    unfolding user_only_def t(6) by auto
  have 7: "?P ''slack_reminders_list''"
    unfolding user_only_def t(7)
    by (cases "append_if e (Inr []) ''user'' (get a ''user'')") simp_all
  have 8: "?P ''slack_reminders_delete''"
    unfolding user_only_def t(8) by auto
  have "\<forall>n \<in> set elevated_tools. ?P n"
    unfolding elevated_tools_def using 1 2 3 4 5 6 7 8 by simp
  with assms(1) show ?thesis by blast
qed

lemma user_only_handler:
  assumes "name \<in> set elevated_tools"
  shows "user_only e (issued s (snd (CallToolRequest_handler e (new_SlackClient e botToken) rest
           \<lparr>params_name = name, params_arguments = arguments\<rparr> s)))"
proof (cases arguments)
  case None
  then show ?thesis by (simp add: handler_issued_none user_only_def)
next
  case (Some a)
  then show ?thesis
    using user_only_switch[OF assms entered_calls, of e s botToken rest a]
    by (simp add: handler_issued)
qed

lemma resolved_is_valid:
  assumes "fst (resolve_upload_input e args s) = Inr input"
  shows "truthy (get args ''file_path'') \<or> truthy (get args ''content'') \<and> truthy (get args ''filename'')"
proof (rule ccontr)
  assume "\<not> ?thesis"
  then have "fst (resolve_upload_input e args s)
    = Inl (JsError ''Either file_path or both content and filename are required for file upload'')"
    using resolve_missing[of args e s] by blast
  with assms show False by simp
qed

lemma upload_v2_tool_issued:
  assumes "fst (resolve_upload_input e args s) = Inr input"
  shows "issued s (snd (CallToolRequest_handler e this rest
             \<lparr>params_name = ''slack_files_upload_v2'', params_arguments = Some args\<rparr> s))
     = issued s (snd (uploadFile_v2 e this args
         (Logger_debug e ''Tool request details''
            (Logger_info e (''Tool called: '' @ ''slack_files_upload_v2'') s))))"
  using upload_v2_tool_calls[OF resolved_is_valid[OF assms], of e this rest s]
  by (simp add: issued_def)

text \<open>
  C9. For a client built by the constructor, every request issued by \<open>deleteFile\<close>, by
  the two search methods, by the three reminder methods and by the reserve and finalize
  methods carries \<open>Authorization: Bearer\<close> followed by the user token (the text
  \<open>undefined\<close> when it is not set), whatever the bot token is; a search or a listing
  issues its one request unless a parameter cannot be converted to a string, in which
  case it throws before any request. \<open>uploadFile_v2\<close> issues at most three requests:
  once its input resolves the first is the reserve request with that header, and in a
  complete upload the headers are that of the user token, none (the direct transfer)
  and that of the user token again, for the method and for the \<open>slack_files_upload_v2\<close>
  tool alike. One level up, each of the tools \<open>slack_files_delete\<close>,
  \<open>slack_files_getUploadURLExternal\<close>, \<open>slack_files_completeUploadExternal\<close>,
  \<open>slack_search_messages\<close>, \<open>slack_search_files\<close>, \<open>slack_reminders_add\<close>,
  \<open>slack_reminders_list\<close> and \<open>slack_reminders_delete\<close> issues exactly one request, with
  that header, when its arguments pass the test of its \<open>case\<close> block, and none when
  they do not. The header of the bot token is another one as soon as the two tokens
  differ.
\<close>

theorem elevated_credential_selection:
  "map authorization (issued s (snd (deleteFile e (new_SlackClient e botToken) a s))) = [Some (user_bearer e)]
   \<and> map authorization (issued s (snd (getUploadURLExternal e (new_SlackClient e botToken) a s)))
       = [Some (user_bearer e)]
   \<and> map authorization (issued s (snd (completeUploadExternal e (new_SlackClient e botToken) a s)))
       = [Some (user_bearer e)]
   \<and> map authorization (issued s (snd (searchMessages e (new_SlackClient e botToken) a s)))
       = (case search_params e a of Inl err \<Rightarrow> [] | Inr params \<Rightarrow> [Some (user_bearer e)])
   \<and> map authorization (issued s (snd (searchFiles e (new_SlackClient e botToken) a s)))
       = (case search_params e a of Inl err \<Rightarrow> [] | Inr params \<Rightarrow> [Some (user_bearer e)])
   \<and> map authorization (issued s (snd (addReminder e (new_SlackClient e botToken) a s)))
       = [Some (user_bearer e)]
   \<and> map authorization (issued s (snd (listReminders e (new_SlackClient e botToken) a s)))
       = (case append_if e (Inr []) ''user'' (get a ''user'') of
            Inl err \<Rightarrow> [] | Inr params \<Rightarrow> [Some (user_bearer e)])
   \<and> map authorization (issued s (snd (deleteReminder e (new_SlackClient e botToken) a s)))
       = [Some (user_bearer e)]
   \<and> map authorization (issued s (snd (uploadFile_v2 e (new_SlackClient e botToken) args s)))
       \<in> {[], [Some (user_bearer e)], [Some (user_bearer e), None],
           [Some (user_bearer e), None, Some (user_bearer e)]}
   \<and> (fst (resolve_upload_input e args s) = Inr (bytes, fname, ftype) \<longrightarrow>
        (\<exists>tail. map authorization (issued s (snd (uploadFile_v2 e (new_SlackClient e botToken) args s)))
                  = Some (user_bearer e) # tail
               \<and> tail \<in> {[], [None], [None, Some (user_bearer e)]}))
   \<and> (fst (resolve_upload_input e args s) = Inr (bytes, fname, ftype)
        \<and> net e (calls s) (reserve_request (new_SlackClient e botToken) fname (length bytes)) = Resolved r
        \<and> json_result r = Inr uploadUrlResponse
        \<and> property uploadUrlResponse ''ok'' = Inr okv \<and> truthy okv
        \<and> property uploadUrlResponse ''upload_url'' = Inr upload_url
        \<and> property uploadUrlResponse ''file_id'' = Inr file_id
        \<and> net e (calls s @ [reserve_request (new_SlackClient e botToken) fname (length bytes)])
              (transfer_request upload_url ftype bytes) = Resolved uploadResponse
        \<and> response_ok uploadResponse \<longrightarrow>
        map authorization (issued s (snd (uploadFile_v2 e (new_SlackClient e botToken) args s)))
          = [Some (user_bearer e), None, Some (user_bearer e)]
        \<and> map authorization (issued s (snd (CallToolRequest_handler e (new_SlackClient e botToken) rest
               \<lparr>params_name = ''slack_files_upload_v2'', params_arguments = Some args\<rparr> s)))
          = [Some (user_bearer e), None, Some (user_bearer e)])
   \<and> map authorization (issued s (snd (CallToolRequest_handler e (new_SlackClient e botToken) rest
          \<lparr>params_name = ''slack_files_delete'', params_arguments = Some a\<rparr> s)))
       = (if truthy (get a ''file'') then [Some (user_bearer e)] else [])
   \<and> map authorization (issued s (snd (CallToolRequest_handler e (new_SlackClient e botToken) rest
          \<lparr>params_name = ''slack_files_getUploadURLExternal'', params_arguments = Some a\<rparr> s)))
       = (if truthy (get a ''filename'') \<and> get a ''length'' \<noteq> JUndefined \<and> get a ''length'' \<noteq> JNull
          then [Some (user_bearer e)] else [])
   \<and> map authorization (issued s (snd (CallToolRequest_handler e (new_SlackClient e botToken) rest
          \<lparr>params_name = ''slack_files_completeUploadExternal'', params_arguments = Some a\<rparr> s)))
       = (if (case get a ''files'' of JArr xs \<Rightarrow> xs \<noteq> [] | other \<Rightarrow> False)
          then [Some (user_bearer e)] else [])
   \<and> map authorization (issued s (snd (CallToolRequest_handler e (new_SlackClient e botToken) rest
          \<lparr>params_name = ''slack_search_messages'', params_arguments = Some a\<rparr> s)))
       = (if truthy (get a ''query'')
          then (case search_params e a of Inl err \<Rightarrow> [] | Inr params \<Rightarrow> [Some (user_bearer e)])
          else [])
   \<and> map authorization (issued s (snd (CallToolRequest_handler e (new_SlackClient e botToken) rest
          \<lparr>params_name = ''slack_search_files'', params_arguments = Some a\<rparr> s)))
       = (if truthy (get a ''query'')
          then (case search_params e a of Inl err \<Rightarrow> [] | Inr params \<Rightarrow> [Some (user_bearer e)])
          else [])
   \<and> map authorization (issued s (snd (CallToolRequest_handler e (new_SlackClient e botToken) rest
          \<lparr>params_name = ''slack_reminders_add'', params_arguments = Some a\<rparr> s)))
       = (if reminder_accepted e a then [Some (user_bearer e)] else [])
   \<and> map authorization (issued s (snd (CallToolRequest_handler e (new_SlackClient e botToken) rest
          \<lparr>params_name = ''slack_reminders_list'', params_arguments = Some a\<rparr> s)))
       = (case append_if e (Inr []) ''user'' (get a ''user'') of
            Inl err \<Rightarrow> [] | Inr params \<Rightarrow> [Some (user_bearer e)])
   \<and> map authorization (issued s (snd (CallToolRequest_handler e (new_SlackClient e botToken) rest
          \<lparr>params_name = ''slack_reminders_delete'', params_arguments = Some a\<rparr> s)))
       = (if truthy (get a ''reminder'') then [Some (user_bearer e)] else [])
   \<and> (name \<in> set elevated_tools \<longrightarrow>
        set (map authorization (issued s (snd (CallToolRequest_handler e (new_SlackClient e botToken) rest
               \<lparr>params_name = name, params_arguments = arguments\<rparr> s))))
          \<subseteq> {Some (user_bearer e)})
   \<and> user_bearer e = JStr (''Bearer '' @ (case SLACK_USER_TOKEN e of Some t \<Rightarrow> t | None \<Rightarrow> ''undefined''))
   \<and> map_of (botHeaders (new_SlackClient e botToken)) ''Authorization'' = Some (JStr (''Bearer '' @ botToken))
   \<and> (render_env (SLACK_USER_TOKEN e) \<noteq> botToken \<longrightarrow>
        Some (user_bearer e) \<noteq> map_of (botHeaders (new_SlackClient e botToken)) ''Authorization'')"
proof (intro conjI impI)
  let ?cl = "new_SlackClient e botToken"
  let ?u = "Some (user_bearer e)"
  note direct = methods_user_token[OF refl]
  note search = search_user_token[OF refl]
  show "map authorization (issued s (snd (deleteFile e ?cl a s))) = [?u]"
    by (rule direct(1))
  show "map authorization (issued s (snd (getUploadURLExternal e ?cl a s))) = [?u]"
    by (rule direct(2))
  show "map authorization (issued s (snd (completeUploadExternal e ?cl a s))) = [?u]"
    by (rule direct(3))
  show "map authorization (issued s (snd (searchMessages e ?cl a s)))
       = (case search_params e a of Inl err \<Rightarrow> [] | Inr params \<Rightarrow> [?u])"
    by (rule search(1))
  show "map authorization (issued s (snd (searchFiles e ?cl a s)))
       = (case search_params e a of Inl err \<Rightarrow> [] | Inr params \<Rightarrow> [?u])"
    by (rule search(2))
  show "map authorization (issued s (snd (addReminder e ?cl a s))) = [?u]"
    by (rule direct(4))
  show "map authorization (issued s (snd (listReminders e ?cl a s)))
       = (case append_if e (Inr []) ''user'' (get a ''user'') of Inl err \<Rightarrow> [] | Inr params \<Rightarrow> [?u])"
    by (rule search(3))
  show "map authorization (issued s (snd (deleteReminder e ?cl a s))) = [?u]"
    by (rule direct(5))
  show "map authorization (issued s (snd (uploadFile_v2 e ?cl args s)))
       \<in> {[], [?u], [?u, None], [?u, None, ?u]}"
    using upload_v2_issued[of s e ?cl args]
    by (auto simp: authorization_requests)
  show "user_bearer e = JStr (''Bearer '' @ (case SLACK_USER_TOKEN e of Some t \<Rightarrow> t | None \<Rightarrow> ''undefined''))"
    by (simp add: user_bearer_def render_env_def)
  show bot: "map_of (botHeaders ?cl) ''Authorization'' = Some (JStr (''Bearer '' @ botToken))"
    by (simp add: new_SlackClient_def)
  show "Some (user_bearer e) \<noteq> map_of (botHeaders ?cl) ''Authorization''"
    if "render_env (SLACK_USER_TOKEN e) \<noteq> botToken"
    using that by (simp add: bot user_bearer_def)
  show "set (map authorization (issued s (snd (CallToolRequest_handler e ?cl rest
               \<lparr>params_name = name, params_arguments = arguments\<rparr> s))))
          \<subseteq> {?u}"
    if "name \<in> set elevated_tools"
    using user_only_handler[OF that, of e s botToken rest arguments]
    by (simp only: user_only_def)
  show "\<exists>tail. map authorization (issued s (snd (uploadFile_v2 e ?cl args s))) = ?u # tail
               \<and> tail \<in> {[], [None], [None, ?u]}"
    if input: "fst (resolve_upload_input e args s) = Inr (bytes, fname, ftype)"
  proof -
    from upload_v2_calls[OF input, of ?cl]
    obtain new where c: "calls (snd (uploadFile_v2 e ?cl args s))
         = calls s @ reserve_request ?cl fname (length bytes) # new"
      and n: "new = [] \<or> (\<exists>upload_url. new = [transfer_request upload_url ftype bytes]) \<or>
          (\<exists>upload_url file_id. new =
             [transfer_request upload_url ftype bytes, finalize_of e ?cl args fname file_id])"
      by blast
    have i: "issued s (snd (uploadFile_v2 e ?cl args s)) = reserve_request ?cl fname (length bytes) # new"
      using c by (simp add: issued_def)
    have "map authorization new \<in> {[], [None], [None, ?u]}"
      using n by (auto simp: authorization_requests finalize_of_def)
    then show ?thesis
      unfolding i by (simp add: authorization_requests)
  qed
  show "map authorization (issued s (snd (CallToolRequest_handler e ?cl rest
          \<lparr>params_name = ''slack_files_delete'', params_arguments = Some a\<rparr> s)))
       = (if truthy (get a ''file'') then [?u] else [])"
    unfolding handler_issued by (rule switch_user_token(1)[OF entered_calls])
  show "map authorization (issued s (snd (CallToolRequest_handler e ?cl rest
          \<lparr>params_name = ''slack_files_getUploadURLExternal'', params_arguments = Some a\<rparr> s)))
       = (if truthy (get a ''filename'') \<and> get a ''length'' \<noteq> JUndefined \<and> get a ''length'' \<noteq> JNull
          then [?u] else [])"
    unfolding handler_issued by (rule switch_user_token(2)[OF entered_calls])
  show "map authorization (issued s (snd (CallToolRequest_handler e ?cl rest
          \<lparr>params_name = ''slack_files_completeUploadExternal'', params_arguments = Some a\<rparr> s)))
       = (if (case get a ''files'' of JArr xs \<Rightarrow> xs \<noteq> [] | other \<Rightarrow> False) then [?u] else [])"
    unfolding handler_issued by (rule switch_user_token(3)[OF entered_calls])
  show "map authorization (issued s (snd (CallToolRequest_handler e ?cl rest
          \<lparr>params_name = ''slack_search_messages'', params_arguments = Some a\<rparr> s)))
       = (if truthy (get a ''query'')
          then (case search_params e a of Inl err \<Rightarrow> [] | Inr params \<Rightarrow> [?u])
          else [])"
    unfolding handler_issued by (rule switch_user_token(4)[OF entered_calls])
  show "map authorization (issued s (snd (CallToolRequest_handler e ?cl rest
          \<lparr>params_name = ''slack_search_files'', params_arguments = Some a\<rparr> s)))
       = (if truthy (get a ''query'')
          then (case search_params e a of Inl err \<Rightarrow> [] | Inr params \<Rightarrow> [?u])
          else [])"
    unfolding handler_issued by (rule switch_user_token(5)[OF entered_calls])
  show "map authorization (issued s (snd (CallToolRequest_handler e ?cl rest
          \<lparr>params_name = ''slack_reminders_add'', params_arguments = Some a\<rparr> s)))
       = (if reminder_accepted e a then [?u] else [])"
    unfolding handler_issued by (rule switch_user_token(6)[OF entered_calls])
  show "map authorization (issued s (snd (CallToolRequest_handler e ?cl rest
          \<lparr>params_name = ''slack_reminders_list'', params_arguments = Some a\<rparr> s)))
       = (case append_if e (Inr []) ''user'' (get a ''user'') of Inl err \<Rightarrow> [] | Inr params \<Rightarrow> [?u])"
    unfolding handler_issued by (rule switch_user_token(7)[OF entered_calls])
  show "map authorization (issued s (snd (CallToolRequest_handler e ?cl rest
          \<lparr>params_name = ''slack_reminders_delete'', params_arguments = Some a\<rparr> s)))
       = (if truthy (get a ''reminder'') then [?u] else [])"
    unfolding handler_issued by (rule switch_user_token(8)[OF entered_calls])
  assume h: "fst (resolve_upload_input e args s) = Inr (bytes, fname, ftype)
        \<and> net e (calls s) (reserve_request ?cl fname (length bytes)) = Resolved r
        \<and> json_result r = Inr uploadUrlResponse
        \<and> property uploadUrlResponse ''ok'' = Inr okv \<and> truthy okv
        \<and> property uploadUrlResponse ''upload_url'' = Inr upload_url
        \<and> property uploadUrlResponse ''file_id'' = Inr file_id
        \<and> net e (calls s @ [reserve_request ?cl fname (length bytes)])
              (transfer_request upload_url ftype bytes) = Resolved uploadResponse
        \<and> response_ok uploadResponse"
  then have input: "fst (resolve_upload_input e args s) = Inr (bytes, fname, ftype)"
    and reply: "net e (calls s) (reserve_request ?cl fname (length bytes)) = Resolved r"
    and decoded: "json_result r = Inr uploadUrlResponse"
    and ok: "property uploadUrlResponse ''ok'' = Inr okv" "truthy okv"
    and url: "property uploadUrlResponse ''upload_url'' = Inr upload_url"
    and fid: "property uploadUrlResponse ''file_id'' = Inr file_id"
    and transfer: "net e (calls s @ [reserve_request ?cl fname (length bytes)])
              (transfer_request upload_url ftype bytes) = Resolved uploadResponse"
    and success: "response_ok uploadResponse"
    by simp_all
  have three: "map authorization (issued s (snd (uploadFile_v2 e ?cl args t))) = [?u, None, ?u]"
    if "calls t = calls s" for t
    using upload_v2_complete_calls[OF input that reply decoded ok url fid transfer success]
    by (simp add: issued_def authorization_requests finalize_of_def)
  show "map authorization (issued s (snd (uploadFile_v2 e ?cl args s))) = [?u, None, ?u]"
    by (rule three) simp
  show "map authorization (issued s (snd (CallToolRequest_handler e ?cl rest
               \<lparr>params_name = ''slack_files_upload_v2'', params_arguments = Some args\<rparr> s)))
          = [?u, None, ?u]"
    unfolding upload_v2_tool_issued[OF input] by (rule three) (rule entered_calls)
qed

theorem elevated_credential_selection_witness:
  "map authorization (issued empty_state
       (snd (deleteFile (sample_env []) (new_SlackClient (sample_env []) ''xoxb-bot'')
              [(''file'', JStr ''F1'')] empty_state)))
     = [Some (JStr ''Bearer xoxp-user'')]
   \<and> (\<exists>tail. map authorization (issued empty_state
         (snd (uploadFile_v2 (sample_env []) (new_SlackClient (sample_env []) ''xoxb-bot'')
                [(''content'', JStr ''Hello, world!''), (''filename'', JStr ''test.txt'')] empty_state)))
           = Some (JStr ''Bearer xoxp-user'') # tail
         \<and> tail \<in> {[], [None], [None, Some (JStr ''Bearer xoxp-user'')]})
   \<and> map authorization (issued empty_state
         (snd (uploadFile_v2
                (sample_env [json_response 200 ''OK''
                               (JObj [(''ok'', JBool True), (''upload_url'', JStr ''U''), (''file_id'', JStr ''F1'')]),
                             json_response 200 ''OK'' JNull])
                (new_SlackClient
                   (sample_env [json_response 200 ''OK''
                                  (JObj [(''ok'', JBool True), (''upload_url'', JStr ''U''), (''file_id'', JStr ''F1'')]),
                                json_response 200 ''OK'' JNull]) ''xoxb-bot'')
                [(''content'', JStr ''Hello, world!''), (''filename'', JStr ''test.txt'')] empty_state)))
     = [Some (JStr ''Bearer xoxp-user''), None, Some (JStr ''Bearer xoxp-user'')]
   \<and> map authorization (issued empty_state
         (snd (CallToolRequest_handler
                (sample_env [json_response 200 ''OK''
                               (JObj [(''ok'', JBool True), (''upload_url'', JStr ''U''), (''file_id'', JStr ''F1'')]),
                             json_response 200 ''OK'' JNull])
                (new_SlackClient
                   (sample_env [json_response 200 ''OK''
                                  (JObj [(''ok'', JBool True), (''upload_url'', JStr ''U''), (''file_id'', JStr ''F1'')]),
                                json_response 200 ''OK'' JNull]) ''xoxb-bot'')
                sample_rest
                \<lparr>params_name = ''slack_files_upload_v2'',
                 params_arguments = Some [(''content'', JStr ''Hello, world!''), (''filename'', JStr ''test.txt'')]\<rparr>
                empty_state)))
     = [Some (JStr ''Bearer xoxp-user''), None, Some (JStr ''Bearer xoxp-user'')]
   \<and> map authorization (issued empty_state
       (snd (CallToolRequest_handler (sample_env []) (new_SlackClient (sample_env []) ''xoxb-bot'') sample_rest
              \<lparr>params_name = ''slack_search_messages'',
               params_arguments = Some [(''query'', JStr ''budget'')]\<rparr> empty_state)))
     = [Some (JStr ''Bearer xoxp-user'')]
   \<and> map authorization (issued empty_state
       (snd (CallToolRequest_handler (sample_env []) (new_SlackClient (sample_env []) ''xoxb-bot'') sample_rest
              \<lparr>params_name = ''slack_reminders_add'',
               params_arguments = Some [(''text'', JStr ''stand-up''), (''time'', JStr ''tomorrow at 9am'')]\<rparr>
              empty_state)))
     = [Some (JStr ''Bearer xoxp-user'')]
   \<and> set (map authorization (issued empty_state
       (snd (CallToolRequest_handler (sample_env []) (new_SlackClient (sample_env []) ''xoxb-bot'') sample_rest
              \<lparr>params_name = ''slack_reminders_delete'',
               params_arguments = Some [(''reminder'', JStr ''Rm1'')]\<rparr>
              empty_state))))
     \<subseteq> {Some (JStr ''Bearer xoxp-user'')}
   \<and> Some (JStr ''Bearer xoxp-user'')
       \<noteq> map_of (botHeaders (new_SlackClient (sample_env []) ''xoxb-bot'')) ''Authorization''"
proof -
  let ?b1 = "JObj [(''ok'', JBool True), (''upload_url'', JStr ''U''), (''file_id'', JStr ''F1'')]"
  let ?e0 = "sample_env []"
  let ?e3 = "sample_env [json_response 200 ''OK'' ?b1, json_response 200 ''OK'' JNull]"
  let ?inline = "[(''content'', JStr ''Hello, world!''), (''filename'', JStr ''test.txt'')]"
  let ?bytes = "Buffer_from_utf8 ''Hello, world!''"
  let ?query = "[(''query'', JStr ''budget'')]"
  let ?reminder = "[(''text'', JStr ''stand-up''), (''time'', JStr ''tomorrow at 9am'')]"
  have bearer: "user_bearer (sample_env script) = JStr ''Bearer xoxp-user''" for script
    by (simp add: user_bearer_def render_env_def sample_env_def)
  have input: "fst (resolve_upload_input (sample_env script) ?inline empty_state)
      = Inr (?bytes, JStr ''test.txt'', JStr ''text/plain'')" for script
    using sample_inline_input[of "[]" script] by (simp add: get_def or_json_def)
  have reply: "net ?e3 (calls empty_state)
        (reserve_request (new_SlackClient ?e3 ''xoxb-bot'') (JStr ''test.txt'') (length ?bytes))
      = Resolved \<lparr>status = 200, statusText = ''OK'', json_result = Inr ?b1\<rparr>"
    by (simp add: sample_env_def scripted_def empty_state_def json_response_def)
  have ok: "property ?b1 ''ok'' = Inr (JBool True)"
    and url: "property ?b1 ''upload_url'' = Inr (JStr ''U'')"
    and fid: "property ?b1 ''file_id'' = Inr (JStr ''F1'')"
    by (simp_all add: get_def)
  have transfer: "net ?e3 (calls empty_state @
          [reserve_request (new_SlackClient ?e3 ''xoxb-bot'') (JStr ''test.txt'') (length ?bytes)])
        (transfer_request (JStr ''U'') (JStr ''text/plain'') ?bytes)
      = Resolved \<lparr>status = 200, statusText = ''OK'', json_result = Inr JNull\<rparr>"
    by (simp add: sample_env_def scripted_def empty_state_def json_response_def)
  have success: "response_ok \<lparr>status = 200, statusText = ''OK'', json_result = Inr JNull\<rparr>"
    by (simp add: response_ok_def)
  note plain = elevated_credential_selection[where s = empty_state and e = ?e0 and botToken = "''xoxb-bot''"
      and a = "[(''file'', JStr ''F1'')]" and args = ?inline and bytes = ?bytes and fname = "JStr ''test.txt''"
      and ftype = "JStr ''text/plain''" and rest = sample_rest and name = "''slack_reminders_delete''"
      and arguments = "Some [(''reminder'', JStr ''Rm1'')]"]
  note complete = elevated_credential_selection[where s = empty_state and e = ?e3 and botToken = "''xoxb-bot''"
      and args = ?inline and bytes = ?bytes and fname = "JStr ''test.txt''"
      and ftype = "JStr ''text/plain''" and rest = sample_rest
      and r = "\<lparr>status = 200, statusText = ''OK'', json_result = Inr ?b1\<rparr>"
      and uploadUrlResponse = ?b1 and okv = "JBool True" and upload_url = "JStr ''U''"
      and file_id = "JStr ''F1''"
      and uploadResponse = "\<lparr>status = 200, statusText = ''OK'', json_result = Inr JNull\<rparr>"]
  note searching = elevated_credential_selection[where s = empty_state and e = ?e0 and botToken = "''xoxb-bot''"
      and a = ?query and rest = sample_rest]
  note reminding = elevated_credential_selection[where s = empty_state and e = ?e0 and botToken = "''xoxb-bot''"
      and a = ?reminder and rest = sample_rest]
  have w1: "map authorization (issued empty_state
       (snd (deleteFile ?e0 (new_SlackClient ?e0 ''xoxb-bot'') [(''file'', JStr ''F1'')] empty_state)))
     = [Some (JStr ''Bearer xoxp-user'')]"
    using plain[THEN conjunct1] unfolding bearer .
  have w2: "\<exists>tail. map authorization (issued empty_state
         (snd (uploadFile_v2 ?e0 (new_SlackClient ?e0 ''xoxb-bot'') ?inline empty_state)))
           = Some (JStr ''Bearer xoxp-user'') # tail
         \<and> tail \<in> {[], [None], [None, Some (JStr ''Bearer xoxp-user'')]}"
    using plain[THEN conjunct2, THEN conjunct2, THEN conjunct2, THEN conjunct2, THEN conjunct2, THEN conjunct2, THEN conjunct2, THEN conjunct2, THEN conjunct2, THEN conjunct1] input[of "[]"] unfolding bearer by blast
  have w3: "map authorization (issued empty_state
         (snd (uploadFile_v2 ?e3 (new_SlackClient ?e3 ''xoxb-bot'') ?inline empty_state)))
       = [Some (JStr ''Bearer xoxp-user''), None, Some (JStr ''Bearer xoxp-user'')]
     \<and> map authorization (issued empty_state
         (snd (CallToolRequest_handler ?e3 (new_SlackClient ?e3 ''xoxb-bot'') sample_rest
                \<lparr>params_name = ''slack_files_upload_v2'', params_arguments = Some ?inline\<rparr> empty_state)))
       = [Some (JStr ''Bearer xoxp-user''), None, Some (JStr ''Bearer xoxp-user'')]"
    using complete[THEN conjunct2, THEN conjunct2, THEN conjunct2, THEN conjunct2, THEN conjunct2, THEN conjunct2, THEN conjunct2, THEN conjunct2, THEN conjunct2, THEN conjunct2, THEN conjunct1] input[of "[json_response 200 ''OK'' ?b1, json_response 200 ''OK'' JNull]"]
      reply ok url fid transfer success
    unfolding bearer by simp
  have params: "search_params ?e0 ?query = Inr [(''query'', ''budget'')]"
    by (simp add: search_params_def Let_def append_if_def append_entry_def get_def)
  have w4: "map authorization (issued empty_state
       (snd (CallToolRequest_handler ?e0 (new_SlackClient ?e0 ''xoxb-bot'') sample_rest
              \<lparr>params_name = ''slack_search_messages'', params_arguments = Some ?query\<rparr> empty_state)))
     = [Some (JStr ''Bearer xoxp-user'')]"
    using searching[THEN conjunct2, THEN conjunct2, THEN conjunct2, THEN conjunct2, THEN conjunct2, THEN conjunct2, THEN conjunct2, THEN conjunct2, THEN conjunct2, THEN conjunct2, THEN conjunct2, THEN conjunct2, THEN conjunct2, THEN conjunct2, THEN conjunct1] unfolding bearer params by (simp add: get_def)
  have accepted: "reminder_accepted ?e0 ?reminder"
    by (simp add: reminder_accepted_def get_def sample_env_def)
  have w5: "map authorization (issued empty_state
       (snd (CallToolRequest_handler ?e0 (new_SlackClient ?e0 ''xoxb-bot'') sample_rest
              \<lparr>params_name = ''slack_reminders_add'', params_arguments = Some ?reminder\<rparr> empty_state)))
     = [Some (JStr ''Bearer xoxp-user'')]"
    using reminding[THEN conjunct2, THEN conjunct2, THEN conjunct2, THEN conjunct2, THEN conjunct2, THEN conjunct2, THEN conjunct2, THEN conjunct2, THEN conjunct2, THEN conjunct2, THEN conjunct2, THEN conjunct2, THEN conjunct2, THEN conjunct2, THEN conjunct2, THEN conjunct2, THEN conjunct1] accepted unfolding bearer by simp
  have tool: "''slack_reminders_delete'' \<in> set elevated_tools"
    by (simp add: elevated_tools_def)
  have w6: "set (map authorization (issued empty_state
       (snd (CallToolRequest_handler ?e0 (new_SlackClient ?e0 ''xoxb-bot'') sample_rest
              \<lparr>params_name = ''slack_reminders_delete'',
               params_arguments = Some [(''reminder'', JStr ''Rm1'')]\<rparr> empty_state))))
     \<subseteq> {Some (JStr ''Bearer xoxp-user'')}"
    using plain[THEN conjunct2, THEN conjunct2, THEN conjunct2, THEN conjunct2, THEN conjunct2, THEN conjunct2, THEN conjunct2, THEN conjunct2, THEN conjunct2, THEN conjunct2, THEN conjunct2, THEN conjunct2, THEN conjunct2, THEN conjunct2, THEN conjunct2, THEN conjunct2, THEN conjunct2, THEN conjunct2, THEN conjunct2, THEN conjunct1] tool unfolding bearer by blast
  have differ: "render_env (SLACK_USER_TOKEN ?e0) \<noteq> ''xoxb-bot''"
    by (simp add: render_env_def sample_env_def)
  have w7: "Some (JStr ''Bearer xoxp-user'')
       \<noteq> map_of (botHeaders (new_SlackClient ?e0 ''xoxb-bot'')) ''Authorization''"
    using plain[THEN conjunct2, THEN conjunct2, THEN conjunct2, THEN conjunct2, THEN conjunct2, THEN conjunct2, THEN conjunct2, THEN conjunct2, THEN conjunct2, THEN conjunct2, THEN conjunct2, THEN conjunct2, THEN conjunct2, THEN conjunct2, THEN conjunct2, THEN conjunct2, THEN conjunct2, THEN conjunct2, THEN conjunct2, THEN conjunct2, THEN conjunct2, THEN conjunct2] differ unfolding bearer by blast
  from w1 w2 w3 w4 w5 w6 w7 show ?thesis
    by (intro conjI) (simp_all only: HOL.simp_thms)
qed

section \<open>Properties of the resilience harness\<close>

lemma run_Nil: "run p [] = p"
  by (simp add: run_def)

lemma run_Cons: "run p (e # es) = run (step p e) es"
  by (simp add: run_def)

lemma run_append: "run p (es @ fs) = run (run p es) fs"
  by (simp add: run_def)

lemma run_Exited: "run (Exited c) es = Exited c"
  by (induction es) (simp_all add: run_Nil run_Cons)

lemma on_timer_eq: "on_timer h = h\<lparr>errorCount := 0\<rparr>"
  by (cases h) (simp add: on_timer_def)

lemma on_timer_funpow:
  "0 < k \<Longrightarrow> (on_timer ^^ k) h = h\<lparr>errorCount := 0\<rparr>"
proof (induction k)
  case 0
  then show ?case by simp
next
  case (Suc k)
  then show ?case
    by (cases "k = 0") (simp_all add: on_timer_eq)
qed

lemma errorCount_funpow_le: "errorCount ((on_timer ^^ k) h) \<le> errorCount h"
  by (induction k) (simp_all add: on_timer_def)

lemma errorCount_elapse_le: "errorCount (elapse d h) \<le> errorCount h"
  by (simp add: elapse_def Let_def errorCount_funpow_le)

lemma elapse_resets:
  assumes "ERROR_RESET_INTERVAL \<le> sinceTimer h + d"
  shows "elapse d h = \<lparr>errorCount = 0, sinceTimer = (sinceTimer h + d) mod ERROR_RESET_INTERVAL\<rparr>"
proof -
  have "0 < (sinceTimer h + d) div ERROR_RESET_INTERVAL"
    using assms by (simp add: ERROR_RESET_INTERVAL_def div_greater_zero_iff)
  then show ?thesis
    by (simp add: elapse_def Let_def on_timer_funpow)
qed

lemma run_faults:
  "errorCount h + length fs < MAX_ERROR_COUNT \<Longrightarrow>
   run (Running h) (map Fault fs) = Running (h\<lparr>errorCount := errorCount h + length fs\<rparr>)"
proof (induction fs arbitrary: h)
  case Nil
  then show ?case by (simp add: run_Nil)
next
  case (Cons f fs)
  let ?h = "h\<lparr>errorCount := errorCount h + 1\<rparr>"
  from Cons.prems have "errorCount h + 1 < MAX_ERROR_COUNT"
    by simp
  then have st: "step (Running h) (Fault f) = Running ?h"
    by (simp add: on_fault_def Let_def)
  from Cons.prems have "errorCount ?h + length fs < MAX_ERROR_COUNT"
    by simp
  then have "run (Running ?h) (map Fault fs) =
        Running (?h\<lparr>errorCount := errorCount ?h + length fs\<rparr>)"
    by (rule Cons.IH)
  with st show ?case
    by (simp add: run_Cons)
qed

lemma running_below_threshold:
  "run p es = Running h \<Longrightarrow> (\<And>h0. p = Running h0 \<Longrightarrow> errorCount h0 < MAX_ERROR_COUNT) \<Longrightarrow>
   errorCount h < MAX_ERROR_COUNT"
proof (induction es arbitrary: p)
  case Nil
  then show ?case by (simp add: run_Nil)
next
  case (Cons e es)
  show ?case
  proof (rule Cons.IH[of "step p e"])
    show "run (step p e) es = Running h"
      using Cons.prems(1) by (simp add: run_Cons)
  next
    fix h1
    assume s: "step p e = Running h1"
    then obtain h0 where p: "p = Running h0"
      by (cases p) simp_all
    with Cons.prems(2) have h0: "errorCount h0 < MAX_ERROR_COUNT" by simp
    show "errorCount h1 < MAX_ERROR_COUNT"
    proof (cases e)
      case (Fault f)
      with s p show ?thesis
        by (auto simp: on_fault_def Let_def split: if_splits)
    next
      case (Elapse d)
      with s p have "h1 = elapse d h0" by simp
      with h0 errorCount_elapse_le[of d h0] show ?thesis by simp
    next
      case (Signal sig)
      with s p show ?thesis by (simp add: shutdown_def)
    qed
  qed
qed

lemma run_ten_faults:
  assumes "length fs = MAX_ERROR_COUNT"
  shows "run initial (map Fault fs) = Exited 1"
proof -
  from assms obtain f gs where fs: "fs = gs @ [f]" and gs: "length gs = 9"
    by (cases fs rule: rev_cases) (auto simp: MAX_ERROR_COUNT_def)
  let ?h = "\<lparr>errorCount = 0, sinceTimer = 0\<rparr>"
  have "run (Running ?h) (map Fault gs) = Running (?h\<lparr>errorCount := errorCount ?h + length gs\<rparr>)"
    by (rule run_faults) (simp add: gs MAX_ERROR_COUNT_def)
  then have "run initial (map Fault gs) = Running \<lparr>errorCount = 9, sinceTimer = 0\<rparr>"
    by (simp add: initial_def gs)
  then show ?thesis
    by (simp add: fs run_append run_Cons run_Nil on_fault_def Let_def MAX_ERROR_COUNT_def)
qed

lemma elapse_keeps:
  assumes "sinceTimer h + d < ERROR_RESET_INTERVAL"
  shows "elapse d h = h\<lparr>sinceTimer := sinceTimer h + d\<rparr>"
  using assms by (simp add: elapse_def Let_def)

lemma events_after_faults:
  "faults (map Fault fs @ es) = length fs + faults es"
  "elapsed (map Fault fs @ es) = elapsed es"
  "no_signal (map Fault fs @ es) = no_signal es"
  by (induction fs) simp_all

text \<open>
  Within one period nothing resets the counter: whatever the order of faults and
  lapses, the process is running with all faults counted as long as they are fewer
  than the threshold, and has exited with status 1 otherwise.
\<close>

lemma run_within_window:
  assumes "no_signal es" "sinceTimer h + elapsed es < ERROR_RESET_INTERVAL"
    "errorCount h < MAX_ERROR_COUNT"
  shows "run (Running h) es =
     (if errorCount h + faults es < MAX_ERROR_COUNT
      then Running \<lparr>errorCount = errorCount h + faults es, sinceTimer = sinceTimer h + elapsed es\<rparr>
      else Exited 1)"
  using assms
proof (induction es arbitrary: h)
  case Nil
  then show ?case by (simp add: run_Nil)
next
  case (Cons ev es)
  show ?case
  proof (cases ev)
    case (Fault f)
    show ?thesis
    proof (cases "errorCount h + 1 < MAX_ERROR_COUNT")
      case True
      let ?h = "h\<lparr>errorCount := errorCount h + 1\<rparr>"
      have r: "run (Running h) (ev # es) = run (Running ?h) es"
        using True Fault by (simp add: run_Cons on_fault_def Let_def)
      have "run (Running ?h) es =
        (if errorCount ?h + faults es < MAX_ERROR_COUNT
         then Running \<lparr>errorCount = errorCount ?h + faults es, sinceTimer = sinceTimer ?h + elapsed es\<rparr>
         else Exited 1)"
        using Cons.prems True Fault by (intro Cons.IH) simp_all
      then show ?thesis
        unfolding r using Fault by simp
    next
      case False
      then have r: "run (Running h) (ev # es) = Exited 1"
        using Fault by (simp add: run_Cons run_Exited on_fault_def Let_def)
      show ?thesis
        unfolding r using False Fault by simp
    qed
  next
    case (Elapse d)
    let ?h = "h\<lparr>sinceTimer := sinceTimer h + d\<rparr>"
    have "sinceTimer h + d < ERROR_RESET_INTERVAL"
      using Cons.prems(2) Elapse by simp
    then have r: "run (Running h) (ev # es) = run (Running ?h) es"
      using Elapse by (simp add: run_Cons elapse_keeps)
    have "run (Running ?h) es =
        (if errorCount ?h + faults es < MAX_ERROR_COUNT
         then Running \<lparr>errorCount = errorCount ?h + faults es, sinceTimer = sinceTimer ?h + elapsed es\<rparr>
         else Exited 1)"
      using Cons.prems Elapse by (intro Cons.IH) simp_all
    then show ?thesis
      unfolding r using Elapse by (simp add: add.assoc)
  next
    case (Signal sig)
    with Cons.prems(1) show ?thesis by simp
  qed
qed

text \<open>
  C4. From \<open>Running(0)\<close>: each uncaught exception or unhandled rejection increments the
  counter; the process stays alive while the incremented counter is below 10, and the
  fault that brings it to 10 exits with status 1. A lapse that stays below the 60000 ms
  period leaves the counter as it is, so within one period faults add up whatever lies
  between them: with fewer than ten the process is running with all of them counted,
  and the tenth exits with status 1. Once the period has elapsed the counter is 0
  again, so faults on either side of a reset do not add up: fewer than ten faults, a
  reset, and fewer than ten faults leave the process running with only the later
  faults counted. Nine faults in a row leave it running, ten exit with status 1, and
  every running state reachable from the start has a counter below 10.
\<close>

theorem harness_threshold_and_reset:
  "step (Running h) (Fault f) =
     (if errorCount h + 1 < 10 then Running (h\<lparr>errorCount := errorCount h + 1\<rparr>) else Exited 1)
   \<and> (60000 \<le> sinceTimer h + d \<longrightarrow>
     step (Running h) (Elapse d) = Running \<lparr>errorCount = 0, sinceTimer = (sinceTimer h + d) mod 60000\<rparr>)
   \<and> (sinceTimer h + d < 60000 \<longrightarrow>
     step (Running h) (Elapse d) = Running (h\<lparr>sinceTimer := sinceTimer h + d\<rparr>))
   \<and> (length fs < 10 \<longrightarrow>
     run initial (map Fault fs) = Running \<lparr>errorCount = length fs, sinceTimer = 0\<rparr>)
   \<and> (length fs = 10 \<longrightarrow> run initial (map Fault fs) = Exited 1)
   \<and> (no_signal ws \<and> elapsed ws < 60000 \<longrightarrow>
     run initial ws =
       (if faults ws < 10 then Running \<lparr>errorCount = faults ws, sinceTimer = elapsed ws\<rparr> else Exited 1))
   \<and> (length fs < 10 \<and> length gs < 10 \<and> 60000 \<le> d \<longrightarrow>
     run initial (map Fault fs @ [Elapse d] @ map Fault gs) =
       Running \<lparr>errorCount = length gs, sinceTimer = d mod 60000\<rparr>)
   \<and> (no_signal ws \<and> faults ws < 10 \<and> elapsed ws < 60000 \<and> 60000 \<le> elapsed ws + d
        \<and> no_signal vs \<and> (elapsed ws + d) mod 60000 + elapsed vs < 60000 \<longrightarrow>
     run initial (ws @ [Elapse d] @ vs) =
       (if faults vs < 10
        then Running \<lparr>errorCount = faults vs, sinceTimer = (elapsed ws + d) mod 60000 + elapsed vs\<rparr>
        else Exited 1))
   \<and> (run initial es = Running h' \<longrightarrow> errorCount h' < 10)"
proof (intro conjI impI)
  show "step (Running h) (Fault f) =
     (if errorCount h + 1 < 10 then Running (h\<lparr>errorCount := errorCount h + 1\<rparr>) else Exited 1)"
    by (simp add: on_fault_def Let_def MAX_ERROR_COUNT_def)
  show "step (Running h) (Elapse d) = Running \<lparr>errorCount = 0, sinceTimer = (sinceTimer h + d) mod 60000\<rparr>"
    if "60000 \<le> sinceTimer h + d"
    using elapse_resets[of h d] that by (simp add: ERROR_RESET_INTERVAL_def)
  show "step (Running h) (Elapse d) = Running (h\<lparr>sinceTimer := sinceTimer h + d\<rparr>)"
    if "sinceTimer h + d < 60000"
    using elapse_keeps[of h d] that by (simp add: ERROR_RESET_INTERVAL_def)
  have faults: "run initial (map Fault xs) = Running \<lparr>errorCount = length xs, sinceTimer = 0\<rparr>"
    if "length xs < 10" for xs
    using run_faults[of "\<lparr>errorCount = 0, sinceTimer = 0\<rparr>" xs] that
    by (simp add: initial_def MAX_ERROR_COUNT_def)
  show "run initial (map Fault fs) = Running \<lparr>errorCount = length fs, sinceTimer = 0\<rparr>"
    if "length fs < 10"
    using that by (rule faults)
  show "run initial (map Fault fs) = Exited 1" if "length fs = 10"
    using that by (intro run_ten_faults) (simp add: MAX_ERROR_COUNT_def)
  have window: "run (Running k) xs =
       (if errorCount k + faults xs < 10
        then Running \<lparr>errorCount = errorCount k + faults xs, sinceTimer = sinceTimer k + elapsed xs\<rparr>
        else Exited 1)"
    if "no_signal xs" "sinceTimer k + elapsed xs < 60000" "errorCount k < 10" for k xs
    using run_within_window[of xs k] that
    by (simp add: ERROR_RESET_INTERVAL_def MAX_ERROR_COUNT_def)
  show first: "run initial ws =
       (if faults ws < 10 then Running \<lparr>errorCount = faults ws, sinceTimer = elapsed ws\<rparr> else Exited 1)"
    if "no_signal ws \<and> elapsed ws < 60000"
    using window[of ws "\<lparr>errorCount = 0, sinceTimer = 0\<rparr>"] that
    by (simp add: initial_def)
  show "run initial (map Fault fs @ [Elapse d] @ map Fault gs) =
       Running \<lparr>errorCount = length gs, sinceTimer = d mod 60000\<rparr>"
    if hyp: "length fs < 10 \<and> length gs < 10 \<and> 60000 \<le> d"
  proof -
    from hyp have fs: "length fs < 10" and gs: "length gs < 10" and d: "60000 \<le> d"
      by simp_all
    let ?h = "\<lparr>errorCount = length fs, sinceTimer = 0\<rparr>"
    let ?k = "\<lparr>errorCount = 0, sinceTimer = d mod 60000\<rparr>"
    have "elapse d ?h = ?k"
      using elapse_resets[of ?h d] d by (simp add: ERROR_RESET_INTERVAL_def)
    then have "run initial (map Fault fs @ [Elapse d]) = Running ?k"
      by (simp add: run_append faults[OF fs] run_Cons run_Nil)
    moreover have "run (Running ?k) (map Fault gs) = Running (?k\<lparr>errorCount := errorCount ?k + length gs\<rparr>)"
      by (rule run_faults) (simp add: gs MAX_ERROR_COUNT_def)
    ultimately show ?thesis
      using run_append[of initial "map Fault fs @ [Elapse d]" "map Fault gs"] by simp
  qed
  show "run initial (ws @ [Elapse d] @ vs) =
       (if faults vs < 10
        then Running \<lparr>errorCount = faults vs, sinceTimer = (elapsed ws + d) mod 60000 + elapsed vs\<rparr>
        else Exited 1)"
    if hyp: "no_signal ws \<and> faults ws < 10 \<and> elapsed ws < 60000 \<and> 60000 \<le> elapsed ws + d
        \<and> no_signal vs \<and> (elapsed ws + d) mod 60000 + elapsed vs < 60000"
  proof -
    let ?h = "\<lparr>errorCount = faults ws, sinceTimer = elapsed ws\<rparr>"
    let ?k = "\<lparr>errorCount = 0, sinceTimer = (elapsed ws + d) mod 60000\<rparr>"
    have before: "run initial ws = Running ?h"
      using first hyp by simp
    have "elapse d ?h = ?k"
      using elapse_resets[of ?h d] hyp by (simp add: ERROR_RESET_INTERVAL_def)
    then have "run initial (ws @ [Elapse d]) = Running ?k"
      by (simp add: run_append before run_Cons run_Nil)
    moreover have "run (Running ?k) vs =
       (if errorCount ?k + faults vs < 10
        then Running \<lparr>errorCount = errorCount ?k + faults vs, sinceTimer = sinceTimer ?k + elapsed vs\<rparr>
        else Exited 1)"
      using hyp by (intro window) simp_all
    ultimately show ?thesis
      using run_append[of initial "ws @ [Elapse d]" vs] by simp
  qed
  show "errorCount h' < 10" if "run initial es = Running h'"
    using running_below_threshold[OF that] by (simp add: initial_def MAX_ERROR_COUNT_def)
qed

theorem harness_threshold_and_reset_witness:
  "run initial (map Fault (replicate 5 UncaughtException) @ [Elapse 60000]
       @ map Fault (replicate 5 UnhandledRejection)) = Running \<lparr>errorCount = 5, sinceTimer = 0\<rparr>
   \<and> run initial (map Fault (replicate 9 UncaughtException)) = Running \<lparr>errorCount = 9, sinceTimer = 0\<rparr>
   \<and> run initial (map Fault (replicate 10 UnhandledRejection)) = Exited 1
   \<and> step (Running \<lparr>errorCount = 4, sinceTimer = 59000\<rparr>) (Elapse 1000)
        = Running \<lparr>errorCount = 0, sinceTimer = 0\<rparr>
   \<and> step (Running \<lparr>errorCount = 4, sinceTimer = 59000\<rparr>) (Elapse 999)
        = Running \<lparr>errorCount = 4, sinceTimer = 59999\<rparr>
   \<and> step (Running \<lparr>errorCount = 4, sinceTimer = 59000\<rparr>) (Fault UncaughtException)
        = Running \<lparr>errorCount = 5, sinceTimer = 59000\<rparr>
   \<and> run initial (map Fault (replicate 9 UncaughtException) @ [Elapse 59999])
        = Running \<lparr>errorCount = 9, sinceTimer = 59999\<rparr>
   \<and> run initial (map Fault (replicate 9 UncaughtException) @ [Elapse 59999, Fault UnhandledRejection])
        = Exited 1
   \<and> run initial ((map Fault (replicate 5 UncaughtException) @ [Elapse 30000]) @ [Elapse 30000]
        @ (map Fault (replicate 5 UnhandledRejection) @ [Elapse 100]))
        = Running \<lparr>errorCount = 5, sinceTimer = 100\<rparr>
   \<and> run initial [] = Running \<lparr>errorCount = 0, sinceTimer = 0\<rparr>
   \<and> errorCount \<lparr>errorCount = 0, sinceTimer = 0\<rparr> < 10"
proof -
  let ?h = "\<lparr>errorCount = 4, sinceTimer = 59000\<rparr>"
  note reset = harness_threshold_and_reset[where h = ?h and f = UncaughtException and d = 1000
      and fs = "replicate 9 UncaughtException" and gs = "[]" and es = "[]"
      and h' = "\<lparr>errorCount = 0, sinceTimer = 0\<rparr>"
      and ws = "map Fault (replicate 9 UncaughtException) @ [Elapse 59999]" and vs = "[]"]
  note keep = harness_threshold_and_reset[where h = ?h and f = UncaughtException and d = 999
      and fs = "replicate 10 UnhandledRejection" and gs = "[]" and es = "[]"
      and h' = "\<lparr>errorCount = 0, sinceTimer = 0\<rparr>"
      and ws = "map Fault (replicate 9 UncaughtException) @ [Elapse 59999, Fault UnhandledRejection]"
      and vs = "[]"]
  note boundary = harness_threshold_and_reset[where h = ?h and f = UncaughtException and d = 60000
      and fs = "replicate 5 UncaughtException" and gs = "replicate 5 UnhandledRejection" and es = "[]"
      and h' = "\<lparr>errorCount = 0, sinceTimer = 0\<rparr>"
      and ws = "[]" and vs = "[]"]
  note crossing = harness_threshold_and_reset[where h = ?h and f = UncaughtException and d = 30000
      and fs = "[]" and gs = "[]" and es = "[]"
      and h' = "\<lparr>errorCount = 0, sinceTimer = 0\<rparr>"
      and ws = "map Fault (replicate 5 UncaughtException) @ [Elapse 30000]"
      and vs = "map Fault (replicate 5 UnhandledRejection) @ [Elapse 100]"]
  have w1: "run initial (map Fault (replicate 5 UncaughtException) @ [Elapse 60000]
       @ map Fault (replicate 5 UnhandledRejection)) = Running \<lparr>errorCount = 5, sinceTimer = 0\<rparr>"
    using boundary[THEN conjunct2, THEN conjunct2, THEN conjunct2, THEN conjunct2, THEN conjunct2, THEN conjunct2, THEN conjunct1] by simp
  have w2: "run initial (map Fault (replicate 9 UncaughtException)) = Running \<lparr>errorCount = 9, sinceTimer = 0\<rparr>"
    using reset[THEN conjunct2, THEN conjunct2, THEN conjunct2, THEN conjunct1] by simp
  have w3: "run initial (map Fault (replicate 10 UnhandledRejection)) = Exited 1"
    using keep[THEN conjunct2, THEN conjunct2, THEN conjunct2, THEN conjunct2, THEN conjunct1] by simp
  have w4: "step (Running ?h) (Elapse 1000) = Running \<lparr>errorCount = 0, sinceTimer = 0\<rparr>"
    using reset[THEN conjunct2, THEN conjunct1] by simp
  have w5: "step (Running ?h) (Elapse 999) = Running \<lparr>errorCount = 4, sinceTimer = 59999\<rparr>"
    using keep[THEN conjunct2, THEN conjunct2, THEN conjunct1] by simp
  have w6: "step (Running ?h) (Fault UncaughtException) = Running \<lparr>errorCount = 5, sinceTimer = 59000\<rparr>"
    using reset[THEN conjunct1] by simp
  have w7: "run initial (map Fault (replicate 9 UncaughtException) @ [Elapse 59999])
        = Running \<lparr>errorCount = 9, sinceTimer = 59999\<rparr>"
    using reset[THEN conjunct2, THEN conjunct2, THEN conjunct2, THEN conjunct2, THEN conjunct2, THEN conjunct1] by (simp add: events_after_faults del: map_replicate)
  have w8: "run initial (map Fault (replicate 9 UncaughtException) @ [Elapse 59999, Fault UnhandledRejection])
        = Exited 1"
    using keep[THEN conjunct2, THEN conjunct2, THEN conjunct2, THEN conjunct2, THEN conjunct2, THEN conjunct1] by (simp add: events_after_faults del: map_replicate)
  have w9: "run initial ((map Fault (replicate 5 UncaughtException) @ [Elapse 30000]) @ [Elapse 30000]
        @ (map Fault (replicate 5 UnhandledRejection) @ [Elapse 100]))
        = Running \<lparr>errorCount = 5, sinceTimer = 100\<rparr>"
    using crossing[THEN conjunct2, THEN conjunct2, THEN conjunct2, THEN conjunct2, THEN conjunct2, THEN conjunct2, THEN conjunct2, THEN conjunct1] by (simp add: events_after_faults del: map_replicate)
  have w10: "run initial [] = Running \<lparr>errorCount = 0, sinceTimer = 0\<rparr>"
    by (simp add: run_Nil initial_def)
  have w11: "errorCount \<lparr>errorCount = 0, sinceTimer = 0\<rparr> < 10"
    using reset[THEN conjunct2, THEN conjunct2, THEN conjunct2, THEN conjunct2, THEN conjunct2, THEN conjunct2, THEN conjunct2, THEN conjunct2] w10 by blast
  from w1 w2 w3 w4 w5 w6 w7 w8 w9 w10 w11 show ?thesis
    by (intro conjI)
qed

end
